theory Spec2Isabelle
  imports Complex_Main "HOL-Library.Word"
begin

unbundle bit_operations_syntax

section \<open>Conventions of the embedding\<close>

text \<open>
  A JavaScript number is an IEEE 754 binary64 value; the model has the real number it
  denotes. \<^verbatim>\<open>NaN\<close> and the infinities are not represented: where the source would
  produce one the model returns \<open>Inl OutsideModel\<close> instead of inventing a real number.
  A thrown exception is the \<open>Inl\<close> branch of a sum, a typed array is a list, and
  in-place mutation of an array is returned as the new list.

  Rounding is modelled where a property of the program depends on it: in
  \<open>findQuantile\<close> with the coverage that \<open>solveSeaLevel\<close> measures from it, and in the
  Poisson disk sampler. There every arithmetic operation of the source is the
  operation of the same name below (\<open>addD\<close>, \<open>subD\<close>, \<open>mulD\<close>, \<open>divD\<close>, \<open>sqrtD\<close>), the
  exact result rounded by \<open>fl\<close>. Elsewhere the arithmetic is exact, and the rounding of
  \<^verbatim>\<open>Float32Array\<close> stores is not represented.
\<close>

datatype error =
    RangeError      \<comment> \<open>\<^verbatim>\<open>new Array(n)\<close> with an invalid length\<close>
  | TypeError       \<comment> \<open>property read on \<^verbatim>\<open>undefined\<close>\<close>
  | QuantileError   \<comment> \<open>\<^verbatim>\<open>throw new Error('Quantile must be between 0 and 1 ...')\<close>\<close>
  | OutsideModel    \<comment> \<open>the source yields NaN or an infinity here\<close>

section \<open>Double precision arithmetic\<close>

text \<open>
  \<open>fl\<close> rounds a real to the nearest binary64 value, ties to even: 53 significant bits,
  the least exponent \<open>-1022\<close> with gradual underflow below it. The exponent has no upper
  bound here, so overflow to an infinity is not represented. \<open>pow2 k\<close> is \<open>2\<close> to the
  integer power \<open>k\<close>, \<open>binade x\<close> the exponent of the binade of \<open>x\<close> and \<open>ulp x\<close> the
  spacing of the doubles in it.
\<close>

definition pow2 :: "int \<Rightarrow> real" where
  "pow2 k = (if 0 \<le> k then 2 ^ nat k else 1 / 2 ^ nat (- k))"

definition roundEven :: "real \<Rightarrow> int" where
  "roundEven y =
     (let f = \<lfloor>y\<rfloor>; d = y - of_int f
      in if d < 1 / 2 then f else if d > 1 / 2 then f + 1 else if even f then f else f + 1)"

definition binade :: "real \<Rightarrow> int" where
  "binade x = max \<lfloor>log 2 \<bar>x\<bar>\<rfloor> (- 1022)"

definition ulp :: "real \<Rightarrow> real" where
  "ulp x = pow2 (binade x - 52)"

definition fl :: "real \<Rightarrow> real" where
  "fl x = (if x = 0 then 0 else of_int (roundEven (x / ulp x)) * ulp x)"

text \<open>
  The operations \<^verbatim>\<open>+\<close>, \<^verbatim>\<open>-\<close>, \<^verbatim>\<open>*\<close>, \<^verbatim>\<open>/\<close> and \<^verbatim>\<open>Math.sqrt\<close> on doubles are
  correctly rounded. \<^verbatim>\<open>Math.cos\<close> and \<^verbatim>\<open>Math.sin\<close> are left to the engine by the
  language; they are taken as correctly rounded too, which every engine agrees with
  at the argument 0, where the concrete runs below use them.
\<close>

definition addD :: "real \<Rightarrow> real \<Rightarrow> real" where
  "addD x y = fl (x + y)"

definition subD :: "real \<Rightarrow> real \<Rightarrow> real" where
  "subD x y = fl (x - y)"

definition mulD :: "real \<Rightarrow> real \<Rightarrow> real" where
  "mulD x y = fl (x * y)"

definition divD :: "real \<Rightarrow> real \<Rightarrow> real" where
  "divD x y = fl (x / y)"

definition sqrtD :: "real \<Rightarrow> real" where
  "sqrtD x = fl (sqrt x)"

definition cosD :: "real \<Rightarrow> real" where
  "cosD x = fl (cos x)"

definition sinD :: "real \<Rightarrow> real" where
  "sinD x = fl (sin x)"

definition isDouble :: "real \<Rightarrow> bool" where
  "isDouble x \<longleftrightarrow> fl x = x"

section \<open>Quantile solver (quantile.js)\<close>

definition findQuantile :: "real list \<Rightarrow> real \<Rightarrow> error + real" where
  "findQuantile data quantile =
     (if quantile < 0 \<or> quantile > 1 then Inl QuantileError
      else if length data = 0 then Inr 0
      else
        let sorted = sort data in
        if quantile = 0 then Inr (sorted ! 0)
        else if quantile = 1 then Inr (sorted ! (length sorted - 1))
        else
          let position = mulD quantile (real (length sorted - 1));
              lower = nat \<lfloor>position\<rfloor>;
              upper = nat \<lceil>position\<rceil>;
              weight = subD position (real lower)
          in Inr (addD (mulD (sorted ! lower) (subD 1 weight)) (mulD (sorted ! upper) weight)))"

record seaLevelData =
  seaLevel :: real
  actualPercentage :: real
  cellsBelowSeaLevel :: nat
  raised :: nat
  solveMethod :: string

text \<open>
  \<open>solveSeaLevel\<close> returns the result object together with the elevation array as the
  call leaves it (the 0% branch writes to it). \<^verbatim>\<open>Math.min()\<close> and \<^verbatim>\<open>Math.max()\<close> of
  an empty array are infinities and \<^verbatim>\<open>0 / 0\<close> is NaN, hence \<open>OutsideModel\<close> for an
  empty array. The sum and the difference of the two edge branches are exact; the
  quantile branch rounds.
\<close>

definition solveSeaLevel ::
    "real list \<Rightarrow> real \<Rightarrow> real \<Rightarrow> error + (seaLevelData \<times> real list)" where
  "solveSeaLevel elevationData targetWaterPercentage epsilon =
     (let totalCells = length elevationData in
      if targetWaterPercentage = 0 then
        (if elevationData = [] then Inl OutsideModel
         else
           let minHeight = Min (set elevationData);
               sl = minHeight - epsilon;
               raisedCells = length (filter (\<lambda>h. h < minHeight + epsilon) elevationData);
               elevation' = map (\<lambda>h. if h < minHeight + epsilon then minHeight + epsilon else h)
                              elevationData
           in Inr (\<lparr>seaLevel = sl, actualPercentage = 0, cellsBelowSeaLevel = 0,
                     raised = raisedCells, solveMethod = ''0%_raise''\<rparr>, elevation'))
      else if targetWaterPercentage \<ge> 100 then
        (if elevationData = [] then Inl OutsideModel
         else
           let maxHeight = Max (set elevationData)
           in Inr (\<lparr>seaLevel = maxHeight + epsilon, actualPercentage = 100,
                     cellsBelowSeaLevel = totalCells, raised = 0,
                     solveMethod = ''100%_cover''\<rparr>, elevationData))
      else
        (case findQuantile elevationData (divD targetWaterPercentage 100) of
           Inl e \<Rightarrow> Inl e
         | Inr sl \<Rightarrow>
             if elevationData = [] then Inl OutsideModel
             else
               let below = length (filter (\<lambda>h. h \<le> sl) elevationData)
               in Inr (\<lparr>seaLevel = sl,
                         actualPercentage = mulD (divD (real below) (real totalCells)) 100,
                         cellsBelowSeaLevel = below, raised = 0,
                         solveMethod = ''quantile''\<rparr>, elevationData)))"


section \<open>Deterministic RNG with sub-streams (rng.js)\<close>

type_synonym u32 = "32 word"

text \<open>
  A JavaScript string is a sequence of 16-bit code units, \<^verbatim>\<open>charCodeAt\<close> reads one.
  The labels of the source are ASCII; \<open>asciiLabel\<close> writes such a label from an
  Isabelle string literal.
\<close>

type_synonym label = "16 word list"

definition asciiLabel :: "string \<Rightarrow> label" where
  "asciiLabel s = map of_char s"

text \<open>
  \<^verbatim>\<open>^\<close>, \<^verbatim>\<open>Math.imul\<close> and \<^verbatim>\<open>>>>\<close> act on the 32-bit pattern of their operands, so
  the hash is computed on 32-bit words; the final \<^verbatim>\<open>>>> 0\<close> reads the word as unsigned.
\<close>

definition hashMix :: "u32 \<Rightarrow> 16 word \<Rightarrow> u32" where
  "hashMix hash c =
     (let h1 = hash XOR ucast c;
          h2 = h1 * 0x85ebca6b
      in h2 XOR drop_bit 13 h2)"

definition hashSeed :: "u32 \<Rightarrow> label \<Rightarrow> u32" where
  "hashSeed seed lbl =
     (let hash = fold (\<lambda>c h. hashMix h c) lbl (seed XOR 0x9e3779b9);
          hash2 = hash * 0xc2b2ae35
      in hash2 XOR drop_bit 16 hash2)"

text \<open>
  The LCG object holds one unsigned 32-bit state. The product \<^verbatim>\<open>state * 1664525\<close>
  stays below \<open>2^53\<close>, so the double arithmetic of the source is exact and
  \<^verbatim>\<open>>>> 0\<close> reduces it modulo \<open>2^32\<close>.
\<close>

definition newLCG :: "u32 \<Rightarrow> u32" where
  "newLCG seed = seed"

definition lcgNext :: "u32 \<Rightarrow> real \<times> u32" where
  "lcgNext state =
     (let state' = state * 1664525 + 1013904223
      in (real (unat state') / 4294967296, state'))"

definition lcgNextInt :: "u32 \<Rightarrow> int \<Rightarrow> int \<Rightarrow> int \<times> u32" where
  "lcgNextInt state lo hi =
     (let (v, state') = lcgNext state
      in (\<lfloor>v * real_of_int (hi - lo)\<rfloor> + lo, state'))"

record multiStreamRNG =
  masterSeed :: u32
  streams :: "label \<rightharpoonup> u32"
  subSeeds :: "label \<rightharpoonup> u32"

definition newMultiStreamRNG :: "u32 \<Rightarrow> multiStreamRNG" where
  "newMultiStreamRNG seed = \<lparr>masterSeed = seed, streams = Map.empty, subSeeds = Map.empty\<rparr>"

text \<open>
  \<open>getStream\<close> creates the stream on first request. The source returns the LCG object
  held in the map; the model returns the manager and the stream's current state, and
  the caller stores the state back with \<open>putStream\<close> after using the stream.
\<close>

definition getStream :: "multiStreamRNG \<Rightarrow> label \<Rightarrow> multiStreamRNG \<times> u32" where
  "getStream m lbl =
     (case streams m lbl of
        None \<Rightarrow>
          let subSeed = hashSeed (masterSeed m) lbl
          in (m\<lparr>streams := (streams m)(lbl \<mapsto> newLCG subSeed),
                 subSeeds := (subSeeds m)(lbl \<mapsto> subSeed)\<rparr>, newLCG subSeed)
      | Some st \<Rightarrow> (m, st))"

definition putStream :: "multiStreamRNG \<Rightarrow> label \<Rightarrow> u32 \<Rightarrow> multiStreamRNG" where
  "putStream m lbl st = m\<lparr>streams := (streams m)(lbl \<mapsto> st)\<rparr>"

text \<open>The values that successive calls of \<^verbatim>\<open>next()\<close> return, from a given state.\<close>

fun lcgSequence :: "u32 \<Rightarrow> nat \<Rightarrow> real" where
  "lcgSequence state 0 = fst (lcgNext state)"
| "lcgSequence state (Suc k) = lcgSequence (snd (lcgNext state)) k"

definition streamSequence :: "u32 \<Rightarrow> label \<Rightarrow> nat \<Rightarrow> real" where
  "streamSequence seed lbl = lcgSequence (snd (getStream (newMultiStreamRNG seed) lbl))"

section \<open>Poisson disk sampling (poisson.js)\<close>

text \<open>
  A sample point \<^verbatim>\<open>{x, y}\<close> is a pair. The \<^verbatim>\<open>rng\<close> argument is a stateful closure;
  it is modelled by a step function \<open>rng :: 's \<Rightarrow> real \<times> 's\<close> and the current state,
  and every call threads the state. The LCG stream is the instance \<open>lcgNext\<close>.
  The optional \<^verbatim>\<open>suitabilityMask\<close> is \<open>None\<close> for \<^verbatim>\<open>null\<close>. The local constants
  \<^verbatim>\<open>cellSize\<close>, \<^verbatim>\<open>gridWidth\<close> and \<^verbatim>\<open>gridHeight\<close> of the source are functions of the
  arguments; \<^verbatim>\<open>cellSize\<close> is \<open>gridCellSize\<close> here. The arithmetic is that of doubles:
  \<open>SQRT2\<close> and \<open>PI\<close> are the doubles \<^verbatim>\<open>Math.SQRT2\<close> and \<^verbatim>\<open>Math.PI\<close>.
\<close>

definition SQRT2 :: real where
  "SQRT2 = 6369051672525773 / 4503599627370496"

definition PI :: real where
  "PI = 884279719003555 / 281474976710656"

type_synonym point = "real \<times> real"

record 's poissonState =
  grid :: "point option list"
  samples :: "point list"
  active :: "point list"
  rngState :: 's

definition gridCellSize :: "real \<Rightarrow> real" where
  "gridCellSize minDistance = divD minDistance SQRT2"

definition gridWidth :: "real \<Rightarrow> real \<Rightarrow> int" where
  "gridWidth width minDistance = \<lceil>divD width (gridCellSize minDistance)\<rceil>"

definition gridHeight :: "real \<Rightarrow> real \<Rightarrow> int" where
  "gridHeight height minDistance = \<lceil>divD height (gridCellSize minDistance)\<rceil>"

definition gridIndex :: "real \<Rightarrow> real \<Rightarrow> real \<Rightarrow> real \<Rightarrow> real \<Rightarrow> int" where
  "gridIndex width height minDistance x y =
     (let gx = \<lfloor>divD x (gridCellSize minDistance)\<rfloor>;
          gy = \<lfloor>divD y (gridCellSize minDistance)\<rfloor>
      in if gx < 0 \<or> gx \<ge> gridWidth width minDistance \<or>
            gy < 0 \<or> gy \<ge> gridHeight height minDistance then - 1
         else gy * gridWidth width minDistance + gx)"

definition maskRejects :: "(real \<Rightarrow> real \<Rightarrow> bool) option \<Rightarrow> real \<Rightarrow> real \<Rightarrow> bool" where
  \<comment> \<open>\<^verbatim>\<open>suitabilityMask && !suitabilityMask(x, y)\<close>\<close>
  "maskRejects suitabilityMask x y =
     (case suitabilityMask of None \<Rightarrow> False | Some m \<Rightarrow> \<not> m x y)"

definition squareD :: "real \<Rightarrow> real" where
  \<comment> \<open>\<^verbatim>\<open>d ** 2\<close>\<close>
  "squareD d = mulD d d"

definition isValid ::
    "real \<Rightarrow> real \<Rightarrow> real \<Rightarrow> (real \<Rightarrow> real \<Rightarrow> bool) option \<Rightarrow> point option list \<Rightarrow>
     real \<Rightarrow> real \<Rightarrow> bool" where
  "isValid width height minDistance suitabilityMask grd x y =
     (if x < 0 \<or> x \<ge> width \<or> y < 0 \<or> y \<ge> height then False
      else if maskRejects suitabilityMask x y then False
      else
        let gx = \<lfloor>divD x (gridCellSize minDistance)\<rfloor>;
            gy = \<lfloor>divD y (gridCellSize minDistance)\<rfloor>
        in list_all (\<lambda>dy. list_all (\<lambda>dx.
             let nx = gx + dx; ny = gy + dy in
             if nx < 0 \<or> nx \<ge> gridWidth width minDistance \<or>
                ny < 0 \<or> ny \<ge> gridHeight height minDistance then True
             else
               (case grd ! nat (ny * gridWidth width minDistance + nx) of
                  None \<Rightarrow> True
                | Some neighbor \<Rightarrow>
                    \<not> sqrtD (addD (squareD (subD x (fst neighbor)))
                                   (squareD (subD y (snd neighbor)))) < minDistance))
             [-2..2]) [-2..2])"

definition addPoint ::
    "real \<Rightarrow> real \<Rightarrow> real \<Rightarrow> real \<Rightarrow> real \<Rightarrow> 's poissonState \<Rightarrow> 's poissonState" where
  "addPoint width height minDistance x y st =
     (let pt = (x, y);
          idx = gridIndex width height minDistance x y
      in st\<lparr>samples := samples st @ [pt],
            active := active st @ [pt],
            grid := (if idx \<ge> 0 then (grid st)[nat idx := Some pt] else grid st)\<rparr>)"

text \<open>
  The \<^verbatim>\<open>do ... while\<close> loop that seeds the first point; \<open>attempts\<close> is the counter
  before the increment. The result is \<open>None\<close> where the source returns the empty array.
\<close>

function initialPoint ::
    "real \<Rightarrow> real \<Rightarrow> ('s \<Rightarrow> real \<times> 's) \<Rightarrow> (real \<Rightarrow> real \<Rightarrow> bool) option \<Rightarrow> nat \<Rightarrow> 's \<Rightarrow>
     point option \<times> 's" where
  "initialPoint width height rng suitabilityMask attempts s =
     (let (u, s1) = rng s;
          initialX = mulD u width;
          (v, s2) = rng s1;
          initialY = mulD v height
      in if attempts + 1 > 100 then
           (if maskRejects suitabilityMask (divD width 2) (divD height 2) then (None, s2)
            else (Some (divD width 2, divD height 2), s2))
         else if maskRejects suitabilityMask initialX initialY then
           initialPoint width height rng suitabilityMask (attempts + 1) s2
         else (Some (initialX, initialY), s2))"
  by pat_completeness auto
termination
  by (relation "measure (\<lambda>(width, height, rng, suitabilityMask, attempts, s). 101 - attempts)")
     auto

declare initialPoint.simps [simp del]

text \<open>
  The \<^verbatim>\<open>for\<close> loop over the candidates around one active point; the first argument
  counts the iterations still to run.
\<close>

fun tryCandidates ::
    "nat \<Rightarrow> real \<Rightarrow> real \<Rightarrow> real \<Rightarrow> ('s \<Rightarrow> real \<times> 's) \<Rightarrow> (real \<Rightarrow> real \<Rightarrow> bool) option \<Rightarrow>
     point \<Rightarrow> 's poissonState \<Rightarrow> bool \<Rightarrow> 's poissonState \<times> bool" where
  "tryCandidates 0 width height minDistance rng suitabilityMask pt st found = (st, found)"
| "tryCandidates (Suc n) width height minDistance rng suitabilityMask pt st found =
     (let (u, s1) = rng (rngState st);
          angle = mulD (mulD u PI) 2;
          (v, s2) = rng s1;
          radius = addD minDistance (mulD v minDistance);
          newX = addD (fst pt) (mulD (cosD angle) radius);
          newY = addD (snd pt) (mulD (sinD angle) radius);
          st1 = st\<lparr>rngState := s2\<rparr>
      in if isValid width height minDistance suitabilityMask (grid st1) newX newY then
           tryCandidates n width height minDistance rng suitabilityMask pt
             (addPoint width height minDistance newX newY st1) True
         else tryCandidates n width height minDistance rng suitabilityMask pt st1 found)"

definition splice1 :: "int \<Rightarrow> 'a list \<Rightarrow> 'a list" where
  \<comment> \<open>\<^verbatim>\<open>array.splice(index, 1)\<close>: a negative start counts from the end\<close>
  "splice1 i xs =
     (let n = int (length xs);
          start = (if i < 0 then max (n + i) 0 else min i n)
      in take (nat start) xs @ drop (nat start + 1) xs)"

text \<open>
  The \<^verbatim>\<open>while (active.length > 0)\<close> loop. It has no bound of its own, so it is a
  partial function: \<open>None\<close> means that the loop does not return. An index outside the
  active list reads \<^verbatim>\<open>undefined\<close>, and \<^verbatim>\<open>point.x\<close> then raises a TypeError in the
  first candidate.
\<close>

partial_function (option) processActive ::
    "real \<Rightarrow> real \<Rightarrow> real \<Rightarrow> ('s \<Rightarrow> real \<times> 's) \<Rightarrow> nat \<Rightarrow> (real \<Rightarrow> real \<Rightarrow> bool) option \<Rightarrow>
     's poissonState \<Rightarrow> (error + 's poissonState) option" where
  "processActive width height minDistance rng maxAttempts suitabilityMask st =
     (if length (active st) > 0 then
        (let (u, s1) = rng (rngState st);
             index = \<lfloor>mulD u (real (length (active st)))\<rfloor>
         in if maxAttempts > 0 \<and> (index < 0 \<or> index \<ge> int (length (active st)))
            then Some (Inl TypeError)
            else
              (let pt = active st ! nat index;
                   (st1, found) = tryCandidates maxAttempts width height minDistance rng
                                    suitabilityMask pt (st\<lparr>rngState := s1\<rparr>) False
               in processActive width height minDistance rng maxAttempts suitabilityMask
                    (if found then st1 else st1\<lparr>active := splice1 index (active st1)\<rparr>)))
      else Some (Inr st))"

text \<open>
  \<^verbatim>\<open>new Array(n)\<close> raises a RangeError unless \<open>n\<close> is an integer in \<open>[0, 2^32)\<close>; a
  zero \<open>minDistance\<close> makes the grid dimensions infinite or NaN.
\<close>

definition poissonDiskSampling ::
    "real \<Rightarrow> real \<Rightarrow> real \<Rightarrow> ('s \<Rightarrow> real \<times> 's) \<Rightarrow> 's \<Rightarrow> nat \<Rightarrow> (real \<Rightarrow> real \<Rightarrow> bool) option \<Rightarrow>
     (error + point list \<times> 's) option" where
  "poissonDiskSampling width height minDistance rng s maxAttempts suitabilityMask =
     (let cells = gridWidth width minDistance * gridHeight height minDistance in
      if minDistance = 0 \<or> cells < 0 \<or> cells \<ge> 2 ^ 32 then Some (Inl RangeError)
      else
        (case initialPoint width height rng suitabilityMask 0 s of
           (None, s') \<Rightarrow> Some (Inr ([], s'))
         | (Some (initialX, initialY), s') \<Rightarrow>
             (case processActive width height minDistance rng maxAttempts suitabilityMask
                     (addPoint width height minDistance initialX initialY
                        \<lparr>grid = replicate (nat cells) None, samples = [], active = [],
                         rngState = s'\<rparr>) of
                None \<Rightarrow> None
              | Some (Inl e) \<Rightarrow> Some (Inl e)
              | Some (Inr st) \<Rightarrow> Some (Inr (samples st, rngState st)))))"

subsection \<open>Notions used to state the properties of the sampler\<close>

definition euclid :: "point \<Rightarrow> point \<Rightarrow> real" where
  "euclid p q = sqrt ((fst p - fst q)\<^sup>2 + (snd p - snd q)\<^sup>2)"

text \<open>
  A random number generator as the sampler expects it: every value is a double in
  \<open>[0, 1)\<close>.
\<close>

definition rngInUnit :: "('s \<Rightarrow> real \<times> 's) \<Rightarrow> bool" where
  "rngInUnit rng \<longleftrightarrow> (\<forall>s. 0 \<le> fst (rng s) \<and> fst (rng s) < 1 \<and> isDouble (fst (rng s)))"

text \<open>
  A domain that is small against the minimum distance, with a margin \<open>m\<close>: all of
  these are doubles, and \<open>width + m\<close> and \<open>height + m\<close> are at most \<open>11/16\<close> of the
  minimum distance.
\<close>

definition smallDomain :: "real \<Rightarrow> real \<Rightarrow> real \<Rightarrow> real \<Rightarrow> bool" where
  "smallDomain w h r m \<longleftrightarrow>
     isDouble w \<and> isDouble h \<and> isDouble r \<and> isDouble m \<and> isDouble (w + m) \<and>
     isDouble (h + m) \<and> 0 \<le> w \<and> 0 \<le> h \<and> 0 < m \<and> w + m \<le> 11 / 16 * r \<and> h + m \<le> 11 / 16 * r"

subsection \<open>Two generators for concrete runs\<close>

text \<open>
  \<open>scriptedRng\<close> replays a list of numbers and returns 0 once the list is used up; its
  state is what is left of the list. \<open>rejected n rest\<close> is a script of \<open>n\<close> pairs of an
  angle draw 0 and a radius draw \<open>15/16\<close>, followed by \<open>rest\<close>.
\<close>

definition scriptedRng :: "real list \<Rightarrow> real \<times> real list" where
  "scriptedRng script = (case script of [] \<Rightarrow> (0, []) | u # rest \<Rightarrow> (u, rest))"

definition rejected :: "nat \<Rightarrow> real list \<Rightarrow> real list" where
  "rejected n rest = concat (replicate n [0, 15 / 16]) @ rest"

text \<open>
  \<open>loopingRng\<close> counts its calls in its state. The first two calls return the
  coordinates of the initial point. From then on it repeats a cycle of 61 calls, the
  calls of one round of the main loop with 30 attempts: 0 for the index draw, and for
  each attempt 0 for the angle and \<open>2^-20\<close> for the radius.
\<close>

definition loopingRng :: "nat \<Rightarrow> real \<times> nat" where
  "loopingRng k =
     (if k = 0 then (1190290189264119 / 2251799813685248, 1)
      else if k = 1 then (1 / 2, 2)
      else if k = 2 then (0, 3)
      else if odd k then (0, k + 1)
      else (1 / 1048576, if k = 62 then 2 else k + 1))"

text \<open>
  The numbers of the concrete runs on the unit square: the minimum distance \<open>tightR\<close>
  (the double 0.4714045207910317, for which the cell size is the double just below
  \<open>1/3\<close>), the abscissa \<open>startX\<close> of the initial point (0.5285950296425841), the largest
  double below 1, \<open>edgeX\<close>, and \<open>nearX\<close> (0.9999997752168078).
\<close>

abbreviation tightR :: real where
  "tightR \<equiv> 4246034448350515 / 9007199254740992"

abbreviation startX :: real where
  "startX \<equiv> 1190290189264119 / 2251799813685248"

abbreviation edgeX :: real where
  "edgeX \<equiv> 9007199254740991 / 9007199254740992"

abbreviation nearX :: real where
  "nearX \<equiv> 9007197230073991 / 9007199254740992"

abbreviation startGrid :: "point option list" where
  "startGrid \<equiv> [None, None, None, None, Some (startX, 1 / 2), None, None, None, None]"

section \<open>Configuration and terrain data (config.js)\<close>

record noiseParams =
  octaves :: nat
  frequency :: real
  gain :: real
  lacunarity :: real
  amplitude :: real

text \<open>
  The fields of the configuration object that the generator and the tree placement
  read. A field that the code reads through \<^verbatim>\<open>config.F || default\<close> may be absent and
  is an option. The moisture and temperature bands have no \<^verbatim>\<open>amplitude\<close> in the source
  and none is read; the record gives them 0.
\<close>

record config =
  SEED :: int
  MAP_WIDTH :: nat
  MAP_HEIGHT :: nat
  CELL_SIZE :: real
  ELEVATION_SCALE :: real
  ELEVATION_CURVE :: string
  SEA_LEVEL :: real
  WATER_PERCENTAGE :: real
  WATER_EPSILON :: real
  WATER_TOLERANCE :: real
  LAKE_MIN_SPACING :: real
  LAKE_DEPTH_MIN :: real
  LAKE_DEPTH_MAX :: real
  LAKE_SHAPE_SQUARENESS :: real
  LAKE_EDGE_NOISE_AMP :: real
  NOISE_MACRO :: noiseParams
  NOISE_MESO :: noiseParams
  NOISE_MICRO :: noiseParams
  NOISE_MOIST :: noiseParams
  NOISE_TEMP :: noiseParams
  TEMP_LAPSE_RATE :: real
  TEMP_LATITUDE_EFFECT :: real
  EROSION_ITERATIONS :: nat
  EROSION_STRENGTH :: real
  EROSION_DROPLET_COUNT :: nat
  FOREST_PERCENTAGE :: "real option"
  TREE_MIN_SPACING :: "real option"
  TREE_MAX_HEIGHT :: "real option"
  TREE_MAX_SLOPE :: "real option"
  TREE_BEACH_BUFFER :: "real option"

definition DEFAULT_CONFIG :: config where
  "DEFAULT_CONFIG =
     \<lparr>SEED = 12345, MAP_WIDTH = 128, MAP_HEIGHT = 128, CELL_SIZE = 1.0,
      ELEVATION_SCALE = 80, ELEVATION_CURVE = ''SHARP_ALPS'',
      SEA_LEVEL = 0.35, WATER_PERCENTAGE = 15, WATER_EPSILON = 0.01, WATER_TOLERANCE = 0.1,
      LAKE_MIN_SPACING = 15, LAKE_DEPTH_MIN = 0.05, LAKE_DEPTH_MAX = 0.15,
      LAKE_SHAPE_SQUARENESS = 2.0, LAKE_EDGE_NOISE_AMP = 0.15,
      NOISE_MACRO = \<lparr>octaves = 2, frequency = 0.003, gain = 0.6, lacunarity = 2.0,
                      amplitude = 0.45\<rparr>,
      NOISE_MESO = \<lparr>octaves = 3, frequency = 0.01, gain = 0.4, lacunarity = 2.0,
                     amplitude = 0.45\<rparr>,
      NOISE_MICRO = \<lparr>octaves = 4, frequency = 0.04, gain = 0.35, lacunarity = 2.0,
                      amplitude = 0.20\<rparr>,
      NOISE_MOIST = \<lparr>octaves = 2, frequency = 0.015, gain = 0.3, lacunarity = 2.0,
                      amplitude = 0\<rparr>,
      NOISE_TEMP = \<lparr>octaves = 2, frequency = 0.008, gain = 0.4, lacunarity = 2.0,
                     amplitude = 0\<rparr>,
      TEMP_LAPSE_RATE = - 0.006, TEMP_LATITUDE_EFFECT = 0.3,
      EROSION_ITERATIONS = 20, EROSION_STRENGTH = 0.15, EROSION_DROPLET_COUNT = 5000,
      FOREST_PERCENTAGE = Some 25, TREE_MIN_SPACING = Some 3.0, TREE_MAX_HEIGHT = Some 60,
      TREE_MAX_SLOPE = Some 35, TREE_BEACH_BUFFER = Some 2.0\<rparr>"

definition orDefault :: "real option \<Rightarrow> real \<Rightarrow> real" where
  \<comment> \<open>\<^verbatim>\<open>v || d\<close>: \<^verbatim>\<open>undefined\<close> and \<^verbatim>\<open>0\<close> are falsy\<close>
  "orDefault v d = (case v of None \<Rightarrow> d | Some a \<Rightarrow> if a = 0 then d else a)"

text \<open>
  The part of the generator's output that the tree placement destructures:
  \<^verbatim>\<open>{elevation, seaLevel, width, height, cellSize}\<close>. The fields carry the prefix
  \<open>td_\<close> because \<open>seaLevel\<close> already names a field of the solver's result.
\<close>

record terrainData =
  td_elevation :: "real list"
  td_seaLevel :: real
  td_width :: nat
  td_height :: nat
  td_cellSize :: real

section \<open>Slopes (slope.js)\<close>

definition calculateSlopes :: "real list \<Rightarrow> nat \<Rightarrow> nat \<Rightarrow> real \<Rightarrow> real list" where
  "calculateSlopes elevationData width height cellSize =
     concat (map (\<lambda>y. map (\<lambda>x.
       let idx = y * width + x;
           hc = elevationData ! idx;
           hLeft = (if x > 0 then elevationData ! (idx - 1) else hc);
           hRight = (if x + 1 < width then elevationData ! (idx + 1) else hc);
           hUp = (if y > 0 then elevationData ! (idx - width) else hc);
           hDown = (if y + 1 < height then elevationData ! (idx + width) else hc);
           dzdx = (hRight - hLeft) / (2 * cellSize);
           dzdy = (hDown - hUp) / (2 * cellSize);
           slopeMagnitude = sqrt (dzdx * dzdx + dzdy * dzdy)
       in arctan slopeMagnitude * (180 / pi)) [0..<width]) [0..<height])"

section \<open>Tree placement (treePlacement.js)\<close>

text \<open>
  A placement \<^verbatim>\<open>{x, z, height}\<close>; the scored branch of the selection returns objects
  that also carry \<^verbatim>\<open>score\<close>. The fields \<^verbatim>\<open>x\<close>, \<^verbatim>\<open>z\<close> and \<^verbatim>\<open>height\<close> are named
  \<open>posX\<close>, \<open>posZ\<close> and \<open>sampledHeight\<close>.
\<close>

record treePlacement =
  posX :: real
  posZ :: real
  sampledHeight :: real
  score :: "real option"

definition treeMinHeight :: "real \<Rightarrow> config \<Rightarrow> real" where
  "treeMinHeight sl cfg = sl + orDefault (TREE_BEACH_BUFFER cfg) 2.0"

definition treeMaxHeight :: "config \<Rightarrow> real" where
  "treeMaxHeight cfg = orDefault (TREE_MAX_HEIGHT cfg) 60"

definition treeMaxSlope :: "config \<Rightarrow> real" where
  "treeMaxSlope cfg = orDefault (TREE_MAX_SLOPE cfg) 35"

text \<open>
  The module's own \<open>createTreeSuitabilityMask\<close>: a \<^verbatim>\<open>Float32Array\<close> of \<open>width * height\<close>
  entries, 1 for a suitable cell and 0 otherwise. The loop runs over the elevation
  array; \<open>generateTreePositions\<close> below calls it on arrays of at least \<open>width * height\<close>
  entries, and writes past the end of the mask have no effect.
\<close>

definition createTreeSuitabilityMask ::
    "real list \<Rightarrow> real list \<Rightarrow> nat \<Rightarrow> nat \<Rightarrow> real \<Rightarrow> config \<Rightarrow> real list" where
  "createTreeSuitabilityMask elevation slopes width height sl cfg =
     (let minHeight = treeMinHeight sl cfg;
          maxHeight = treeMaxHeight cfg;
          maxSlope = treeMaxSlope cfg
      in map (\<lambda>i.
           let h = elevation ! i; slopeDegrees = slopes ! i in
           if h < minHeight then 0
           else if h > maxHeight then 0
           else if slopeDegrees > maxSlope then 0
           else 1) [0..<width * height])"

definition countSuitable :: "real list \<Rightarrow> nat" where
  \<comment> \<open>the loops counting \<^verbatim>\<open>mask[i] > 0\<close>\<close>
  "countSuitable msk = length (filter (\<lambda>m. m > 0) msk)"

definition relaxedMinHeight :: "real \<Rightarrow> real" where
  "relaxedMinHeight sl = sl + 1.0"

definition relaxedMaxSlope :: real where
  "relaxedMaxSlope = 45"

definition relaxedMask :: "real list \<Rightarrow> real list \<Rightarrow> nat \<Rightarrow> real \<Rightarrow> config \<Rightarrow> real list" where
  \<comment> \<open>the mask built in the relaxation block; \<open>n\<close> is the length of the strict mask\<close>
  "relaxedMask elevation slopes n sl cfg =
     map (\<lambda>i.
       let h = elevation ! i; s = slopes ! i in
       if h > relaxedMinHeight sl \<and> h < orDefault (TREE_MAX_HEIGHT cfg) 60 \<and> s \<le> relaxedMaxSlope
       then 1 else 0) [0..<n]"

definition getHeightAt :: "real \<Rightarrow> real \<Rightarrow> real list \<Rightarrow> nat \<Rightarrow> nat \<Rightarrow> real \<Rightarrow> real" where
  "getHeightAt worldX worldZ elevation width height cellSize =
     (let cellX = worldX / cellSize;
          cellZ = worldZ / cellSize;
          x0 = max 0 (min (int width - 1) \<lfloor>cellX\<rfloor>);
          z0 = max 0 (min (int height - 1) \<lfloor>cellZ\<rfloor>);
          x1 = min (int width - 1) (x0 + 1);
          z1 = min (int height - 1) (z0 + 1);
          fx = cellX - real_of_int x0;
          fz = cellZ - real_of_int z0;
          h00 = elevation ! nat (z0 * int width + x0);
          h10 = elevation ! nat (z0 * int width + x1);
          h01 = elevation ! nat (z1 * int width + x0);
          h11 = elevation ! nat (z1 * int width + x1);
          h0 = h00 * (1 - fx) + h10 * fx;
          h1 = h01 * (1 - fx) + h11 * fx
      in h0 * (1 - fz) + h1 * fz)"

fun scoreCandidates ::
    "point list \<Rightarrow> real list \<Rightarrow> nat \<Rightarrow> nat \<Rightarrow> real \<Rightarrow> ('s \<Rightarrow> real \<times> 's) \<Rightarrow> 's \<Rightarrow>
     treePlacement list \<times> 's" where
  "scoreCandidates [] elevation width height cellSize rng s = ([], s)"
| "scoreCandidates (pos # rest) elevation width height cellSize rng s =
     (let h = getHeightAt (fst pos) (snd pos) elevation width height cellSize;
          midElevationScore = 1.0 - \<bar>h - 25\<bar> / 25;
          (randomScore, s1) = rng s;
          totalScore = midElevationScore * 0.7 + randomScore * 0.3;
          (restScored, s2) = scoreCandidates rest elevation width height cellSize rng s1
      in (\<lparr>posX = fst pos, posZ = snd pos, sampledHeight = h, score = Some totalScore\<rparr>
            # restScored, s2))"

definition scoreOf :: "treePlacement \<Rightarrow> real" where
  "scoreOf c = (case score c of Some v \<Rightarrow> v | None \<Rightarrow> 0)"

text \<open>
  \<^verbatim>\<open>sort((a, b) => b.score - a.score)\<close> is a stable sort by descending score, which is
  the insertion sort \<open>sort_key\<close> on the negated score.
\<close>

definition selectBestTreePositions ::
    "point list \<Rightarrow> int \<Rightarrow> real list \<Rightarrow> nat \<Rightarrow> nat \<Rightarrow> real \<Rightarrow> ('s \<Rightarrow> real \<times> 's) \<Rightarrow> 's \<Rightarrow>
     treePlacement list \<times> 's" where
  "selectBestTreePositions candidates targetCount elevation width height cellSize rng s =
     (if int (length candidates) \<le> targetCount then
        (map (\<lambda>pos. \<lparr>posX = fst pos, posZ = snd pos,
                      sampledHeight = getHeightAt (fst pos) (snd pos) elevation width height cellSize,
                      score = None\<rparr>) candidates, s)
      else
        (let (scoredCandidates, s1) = scoreCandidates candidates elevation width height cellSize rng s;
             sorted = sort_key (\<lambda>c. - scoreOf c) scoredCandidates
         in (take (nat targetCount) sorted, s1)))"

definition suitabilityFn :: "real list \<Rightarrow> nat \<Rightarrow> nat \<Rightarrow> real \<Rightarrow> real \<Rightarrow> real \<Rightarrow> bool" where
  \<comment> \<open>the closure of step 5; its result is used for its truthiness\<close>
  "suitabilityFn msk width height cellSize x z =
     (let cellX = \<lfloor>x / cellSize\<rfloor>;
          cellZ = \<lfloor>z / cellSize\<rfloor>
      in if cellX < 0 \<or> cellX \<ge> int width \<or> cellZ < 0 \<or> cellZ \<ge> int height then False
         else msk ! nat (cellZ * int width + cellX) \<noteq> 0)"

text \<open>
  Steps 4 to 7 of \<open>generateTreePositions\<close>, from the mask in force and its count of
  suitable cells. The result carries the state in which the call leaves the stream.
\<close>

definition placeOnMask ::
    "'t terrainData_scheme \<Rightarrow> config \<Rightarrow> ('s \<Rightarrow> real \<times> 's) \<Rightarrow> 's \<Rightarrow> real list \<Rightarrow> nat \<Rightarrow>
     (error + treePlacement list \<times> 's) option" where
  "placeOnMask td cfg rng s msk suitableCells =
     (let forestPercentage = orDefault (FOREST_PERCENTAGE cfg) 0 in
      if forestPercentage \<le> 0 then Some (Inr ([], s))
      else
        let cellsPerTree = 3;
            targetForestCells = (real suitableCells * forestPercentage) / 100;
            targetTreeCount = \<lfloor>targetForestCells / cellsPerTree\<rfloor>;
            mapWidth = real (td_width td) * td_cellSize td;
            mapHeight = real (td_height td) * td_cellSize td;
            minSpacing = orDefault (TREE_MIN_SPACING cfg) 3.0
        in case poissonDiskSampling mapWidth mapHeight minSpacing rng s 30
                  (Some (suitabilityFn msk (td_width td) (td_height td) (td_cellSize td))) of
             None \<Rightarrow> None
           | Some (Inl e) \<Rightarrow> Some (Inl e)
           | Some (Inr (candidates, s1)) \<Rightarrow>
               Some (Inr (selectBestTreePositions candidates targetTreeCount (td_elevation td)
                            (td_width td) (td_height td) (td_cellSize td) rng s1)))"

text \<open>
  The entry point. An elevation array shorter than \<open>width * height\<close> or a zero cell size
  make the slopes NaN or infinite, which is outside the model.
\<close>

definition generateTreePositions ::
    "'t terrainData_scheme \<Rightarrow> config \<Rightarrow> ('s \<Rightarrow> real \<times> 's) \<Rightarrow> 's \<Rightarrow>
     (error + treePlacement list \<times> 's) option" where
  "generateTreePositions td cfg rng s =
     (let elevation = td_elevation td;
          width = td_width td;
          height = td_height td;
          cellSize = td_cellSize td
      in if length elevation < width * height \<or> (width * height > 0 \<and> cellSize = 0)
         then Some (Inl OutsideModel)
         else
           let slopes = calculateSlopes elevation width height cellSize;
               suitabilityMask = createTreeSuitabilityMask elevation slopes width height
                                   (td_seaLevel td) cfg;
               suitableCells = countSuitable suitabilityMask
           in if suitableCells = 0 then
                (let relaxed = relaxedMask elevation slopes (length suitabilityMask)
                                 (td_seaLevel td) cfg;
                     relaxedCount = countSuitable relaxed
                 in if relaxedCount = 0 then Some (Inr ([], s))
                    else placeOnMask td cfg rng s relaxed relaxedCount)
              else placeOnMask td cfg rng s suitabilityMask suitableCells)"

text \<open>
  \<open>validateTreePositions\<close>, the post-placement check of the module: it drops a position
  whose sampled height is at or below the sea level (water) or at or below
  \<open>seaLevel + 4\<close> (beach), and returns the others with the sampled height.
\<close>

definition validateTreePositions ::
    "treePlacement list \<Rightarrow> real list \<Rightarrow> nat \<Rightarrow> nat \<Rightarrow> real \<Rightarrow> real \<Rightarrow> treePlacement list" where
  "validateTreePositions positions elevation width height cellSize sl =
     (let beachHeight = sl + 4
      in concat (map (\<lambda>pos.
           let h = getHeightAt (posX pos) (posZ pos) elevation width height cellSize
           in if h \<le> sl then []
              else if h \<le> beachHeight then []
              else [pos\<lparr>sampledHeight := h\<rparr>]) positions))"

section \<open>Simplex noise (noise.js)\<close>

text \<open>
  \<open>_seededRandom\<close> keeps a signed 32-bit state (\<^verbatim>\<open>| 0\<close>) and reads it unsigned
  (\<^verbatim>\<open>>>> 0\<close>); on the 32-bit pattern this is the step of the LCG above. The seed is
  the integer that the caller drew with \<open>nextInt\<close>.
\<close>

definition seededRandom :: "u32 \<Rightarrow> real \<times> u32" where
  "seededRandom state =
     (let state' = state * 1664525 + 1013904223
      in (real (unat state') / 4294967296, state'))"

fun shufflePerm :: "nat \<Rightarrow> nat list \<Rightarrow> u32 \<Rightarrow> nat list" where
  "shufflePerm 0 perm state = perm"
| "shufflePerm (Suc k) perm state =
     (let i = Suc k;
          (u, state') = seededRandom state;
          j = nat \<lfloor>u * real (i + 1)\<rfloor>
      in shufflePerm k (perm[i := perm ! j, j := perm ! i]) state')"

definition buildPermutation :: "int \<Rightarrow> nat list" where
  "buildPermutation seed =
     (let perm = shufflePerm 255 [0..<256] (word_of_int seed)
      in map (\<lambda>i. perm ! (i mod 256)) [0..<512])"

definition grad2 :: "nat \<Rightarrow> real \<Rightarrow> real \<Rightarrow> real" where
  "grad2 hash x y =
     (let g = [(1, 1), (- 1, 1), (1, - 1), (- 1, - 1),
               (1, 0), (- 1, 0), (1, 0), (- 1, 0),
               (0, 1), (0, - 1), (0, 1), (0, - 1)] ! hash
      in fst g * x + snd g * y)"

text \<open>\<^verbatim>\<open>i & 255\<close> is \<open>i mod 256\<close> for every integer \<open>i\<close>, negative ones included.\<close>

definition noise2D :: "nat list \<Rightarrow> real \<Rightarrow> real \<Rightarrow> real" where
  "noise2D p x y =
     (let F2 = 0.5 * (sqrt 3.0 - 1.0);
          G2 = (3.0 - sqrt 3.0) / 6.0;
          s = (x + y) * F2;
          i = \<lfloor>x + s\<rfloor>;
          j = \<lfloor>y + s\<rfloor>;
          t = real_of_int (i + j) * G2;
          X0 = real_of_int i - t;
          Y0 = real_of_int j - t;
          x0 = x - X0;
          y0 = y - Y0;
          i1 = (if x0 > y0 then 1 else 0 :: nat);
          j1 = (if x0 > y0 then 0 else 1 :: nat);
          x1 = x0 - real i1 + G2;
          y1 = y0 - real j1 + G2;
          x2 = x0 - 1.0 + 2.0 * G2;
          y2 = y0 - 1.0 + 2.0 * G2;
          ii = nat (i mod 256);
          jj = nat (j mod 256);
          gi0 = p ! (ii + p ! jj) mod 12;
          gi1 = p ! (ii + i1 + p ! (jj + j1)) mod 12;
          gi2 = p ! (ii + 1 + p ! (jj + 1)) mod 12;
          t0 = 0.5 - x0 * x0 - y0 * y0;
          n0 = (if t0 \<ge> 0 then (t0 * t0) * (t0 * t0) * grad2 gi0 x0 y0 else 0);
          t1 = 0.5 - x1 * x1 - y1 * y1;
          n1 = (if t1 \<ge> 0 then (t1 * t1) * (t1 * t1) * grad2 gi1 x1 y1 else 0);
          t2 = 0.5 - x2 * x2 - y2 * y2;
          n2 = (if t2 \<ge> 0 then (t2 * t2) * (t2 * t2) * grad2 gi2 x2 y2 else 0)
      in 70.0 * (n0 + n1 + n2))"

text \<open>
  The octave loop of \<open>fbm\<close>, with the number of octaves still to add as first argument.
  The result is \<open>None\<close> where the total amplitude is zero and the quotient is NaN or
  infinite.
\<close>

fun fbmLoop ::
    "nat \<Rightarrow> nat list \<Rightarrow> real \<Rightarrow> real \<Rightarrow> real \<Rightarrow> real \<Rightarrow> real \<Rightarrow> real \<Rightarrow> real \<Rightarrow> real \<Rightarrow>
     real \<times> real" where
  "fbmLoop 0 p x y gn lac val amp freq maxValue = (val, maxValue)"
| "fbmLoop (Suc n) p x y gn lac val amp freq maxValue =
     fbmLoop n p x y gn lac (val + noise2D p (x * freq) (y * freq) * amp) (amp * gn)
       (freq * lac) (maxValue + amp)"

definition fbm :: "nat list \<Rightarrow> real \<Rightarrow> real \<Rightarrow> noiseParams \<Rightarrow> real option" where
  "fbm p x y params =
     (let (val, maxValue) = fbmLoop (octaves params) p x y (gain params) (lacunarity params)
                              0 1.0 (frequency params) 0
      in if maxValue = 0 then None else Some (val / maxValue))"

definition generateNoiseField :: "nat \<Rightarrow> nat \<Rightarrow> int \<Rightarrow> noiseParams \<Rightarrow> error + real list" where
  "generateNoiseField width height seed params =
     (let p = buildPermutation seed;
          field = concat (map (\<lambda>y. map (\<lambda>x.
                    map_option (\<lambda>v. (v + 1) * 0.5) (fbm p (real x) (real y) params))
                    [0..<width]) [0..<height])
      in if None \<in> set field then Inl OutsideModel else Inr (map the field))"

section \<open>Elevation curves (elevationCurve.js)\<close>

text \<open>
  A curve is its list of control points \<^verbatim>\<open>{x, y}\<close>, sorted by \<open>x\<close> as the constructor
  leaves them; the presets are written in that order. The segment loop returns the
  \<open>y\<close> of the last point when no segment contains \<open>x\<close>.
\<close>

type_synonym curve = "(real \<times> real) list"

fun evaluateSegments :: "curve \<Rightarrow> real \<Rightarrow> real" where
  "evaluateSegments (p0 # p1 # rest) x =
     (if x \<ge> fst p0 \<and> x \<le> fst p1 then
        (let t = (x - fst p0) / (fst p1 - fst p0) in snd p0 + t * (snd p1 - snd p0))
      else evaluateSegments (p1 # rest) x)"
| "evaluateSegments [p] x = snd p"
| "evaluateSegments [] x = 0"

definition evaluate :: "curve \<Rightarrow> real \<Rightarrow> real" where
  "evaluate points x = evaluateSegments points (max 0 (min 1 x))"

definition applyToArray :: "curve \<Rightarrow> real list \<Rightarrow> real list" where
  "applyToArray points input = map (evaluate points) input"

definition ELEVATION_PRESETS :: "(string \<times> curve) list" where
  "ELEVATION_PRESETS =
     [(''TERRACED_RTS'', [(0.0, 0.0), (0.4, 0.2), (0.6, 0.4), (0.8, 0.7), (1.0, 1.0)]),
      (''ROLLING_HILLS'', [(0.0, 0.1), (0.3, 0.3), (0.7, 0.6), (1.0, 0.95)]),
      (''SHARP_ALPS'', [(0.0, 0.0), (0.5, 0.3), (0.7, 0.5), (0.9, 0.8), (1.0, 1.0)]),
      (''FLATLANDS'', [(0.0, 0.25), (0.7, 0.35), (0.9, 0.5), (1.0, 0.7)]),
      (''VOLCANIC'', [(0.0, 0.0), (0.3, 0.1), (0.4, 0.4), (0.7, 0.5), (0.9, 0.7), (1.0, 1.0)]),
      (''CANYONS'', [(0.0, 0.0), (0.2, 0.05), (0.3, 0.5), (0.8, 0.55), (1.0, 0.6)]),
      (''LINEAR'', [(0.0, 0.0), (1.0, 1.0)])]"

definition getPreset :: "string \<Rightarrow> curve" where
  "getPreset name =
     (case map_of ELEVATION_PRESETS name of
        None \<Rightarrow> [(0.0, 0.0), (1.0, 1.0)]
      | Some preset \<Rightarrow> preset)"

section \<open>Hydraulic erosion (erosion.js)\<close>

text \<open>
  The erosion reads and writes a height array of \<open>width * height\<close> cells, which is how
  the generator calls it. \<^verbatim>\<open>Math.pow(x, 0.5)\<close> is the square root for \<open>x \<ge> 0\<close>.
\<close>

definition normalizeArray :: "real list \<Rightarrow> real list" where
  \<comment> \<open>\<open>_normalize\<close> of the erosion and \<open>_normalizeArray\<close> of the generator\<close>
  "normalizeArray arr =
     (if arr = [] then arr
      else
        let mn = Min (set arr);
            mx = Max (set arr);
            range = mx - mn
        in if range > 0 then map (\<lambda>v. (v - mn) / range) arr else arr)"

definition neighborOffsets :: "(int \<times> int) list" where
  \<comment> \<open>\<open>(dx, dy)\<close> in the order of the two loops, \<open>dy\<close> outermost\<close>
  "neighborOffsets =
     [(- 1, - 1), (0, - 1), (1, - 1), (- 1, 0), (0, 0), (1, 0), (- 1, 1), (0, 1), (1, 1)]"

definition lowestNeighbor ::
    "real list \<Rightarrow> nat \<Rightarrow> nat \<Rightarrow> nat \<Rightarrow> nat \<Rightarrow> real \<Rightarrow> nat option" where
  "lowestNeighbor heights width height x y cellHeight =
     fst (fold (\<lambda>(dx, dy) (lowest, lowestHeight).
            if dx = 0 \<and> dy = 0 then (lowest, lowestHeight)
            else
              let nx = int x + dx; ny = int y + dy in
              if nx \<ge> 0 \<and> nx < int width \<and> ny \<ge> 0 \<and> ny < int height then
                (let nIdx = nat (ny * int width + nx) in
                 if heights ! nIdx < lowestHeight then (Some nIdx, heights ! nIdx)
                 else (lowest, lowestHeight))
              else (lowest, lowestHeight))
          neighborOffsets (None, cellHeight))"

text \<open>
  \<^verbatim>\<open>cells.sort((a, b) => b.height - a.height)\<close> is a stable sort by descending
  height.
\<close>

definition calculateFlow :: "real list \<Rightarrow> nat \<Rightarrow> nat \<Rightarrow> real list" where
  "calculateFlow heights width height =
     (let cells = concat (map (\<lambda>y. map (\<lambda>x. (x, y, heights ! (y * width + x)))
                    [0..<width]) [0..<height]);
          sorted = sort_key (\<lambda>(x, y, h). - h) cells
      in fold (\<lambda>(x, y, h) flow.
           let idx = y * width + x in
           case lowestNeighbor heights width height x y h of
             None \<Rightarrow> flow
           | Some n \<Rightarrow> flow[n := flow ! n + flow ! idx])
         sorted (replicate (width * height) 1.0))"

definition applyErosion :: "real list \<Rightarrow> real list \<Rightarrow> real \<Rightarrow> real list" where
  "applyErosion heights flow strength =
     (if heights = [] then heights
      else
        let maxFlow = Max (set flow) in
        normalizeArray
          (map (\<lambda>i.
             let normalizedFlow = flow ! i / maxFlow;
                 erosion = sqrt normalizedFlow * strength * 0.01
             in heights ! i - erosion) [0..<length heights]))"

fun erode :: "nat \<Rightarrow> nat \<Rightarrow> real list \<Rightarrow> nat \<Rightarrow> real \<Rightarrow> real list" where
  \<comment> \<open>the height field after the given number of iterations\<close>
  "erode width height heightField 0 strength = heightField"
| "erode width height heightField (Suc iterations) strength =
     erode width height
       (applyErosion heightField (calculateFlow heightField width height) strength)
       iterations strength"

section \<open>Validation and statistics (quantile.js)\<close>

record validation =
  v_passed :: bool
  v_targetPercentage :: real
  v_actualPercentage :: real
  v_error :: real
  v_tolerance :: real
  v_cellsBelowSeaLevel :: nat
  v_cellsAtSeaLevel :: nat
  v_totalWaterCells :: nat
  v_totalCells :: nat

definition validateWaterCoverage :: "real list \<Rightarrow> real \<Rightarrow> real \<Rightarrow> real \<Rightarrow> validation" where
  "validateWaterCoverage elevationData sl targetPercentage tolerance =
     (let below = length (filter (\<lambda>h. h < sl) elevationData);
          atLevel = length (filter (\<lambda>h. \<not> h < sl \<and> \<bar>h - sl\<bar> < 0.001) elevationData);
          totalWater = below + atLevel;
          actual = real totalWater / real (length elevationData) * 100;
          err = \<bar>actual - targetPercentage\<bar>
      in \<lparr>v_passed = (err \<le> tolerance), v_targetPercentage = targetPercentage,
          v_actualPercentage = actual, v_error = err, v_tolerance = tolerance,
          v_cellsBelowSeaLevel = below, v_cellsAtSeaLevel = atLevel,
          v_totalWaterCells = totalWater, v_totalCells = length elevationData\<rparr>)"

record terrainStats =
  ts_min :: real
  ts_max :: real
  ts_mean :: real
  ts_stdDev :: real
  ts_variance :: real
  ts_range :: real

definition calculateTerrainStats :: "real list \<Rightarrow> terrainStats" where
  "calculateTerrainStats elevationData =
     (let mn = Min (set elevationData);
          mx = Max (set elevationData);
          total = sum_list elevationData;
          sumSquares = sum_list (map (\<lambda>h. h * h) elevationData);
          mean = total / real (length elevationData);
          variance = sumSquares / real (length elevationData) - mean * mean
      in \<lparr>ts_min = mn, ts_max = mx, ts_mean = mean, ts_stdDev = sqrt variance,
          ts_variance = variance, ts_range = mx - mn\<rparr>)"

section \<open>Terrain generator (terrainGeneratorV1_1.js)\<close>

record waterCoverageMetrics =
  wc_target :: real
  wc_actual :: real
  wc_error :: real
  wc_validated :: bool
  wc_seaLevel :: real
  wc_method :: string

record invariantReport =
  waterCoverageMatch :: bool
  heightsValid :: bool
  seaLevelValid :: bool

record metrics =
  buildTime :: "string \<rightharpoonup> real"
  waterCoverage :: "waterCoverageMetrics option"
  terrainStats :: "terrainStats option"
  invariants :: "invariantReport option"

text \<open>
  The entries of \<open>metrics\<close> start as empty objects (\<open>None\<close>); \<open>forestCoverage\<close> is never
  written by the generator and is left out.
\<close>

text \<open>
  The mutable part of a generator object, \<^verbatim>\<open>this.rng\<close> and \<^verbatim>\<open>this.metrics\<close>, together
  with the number of calls of \<^verbatim>\<open>performance.now()\<close> made so far. The configuration is
  not written after the constructor and is passed as an argument; \<^verbatim>\<open>this.width\<close> and
  \<^verbatim>\<open>this.height\<close> are \<open>MAP_WIDTH\<close> and \<open>MAP_HEIGHT\<close>. The clock is the environment: the
  \<open>k\<close>-th call of \<^verbatim>\<open>performance.now()\<close> returns \<open>clock k\<close>. Console output is not
  modelled.
\<close>

record generator =
  gen_rng :: multiStreamRNG
  gen_metrics :: metrics
  gen_ticks :: nat

definition newGenerator :: "config \<Rightarrow> generator" where
  "newGenerator cfg =
     \<lparr>gen_rng = newMultiStreamRNG (word_of_int (SEED cfg)),
      gen_metrics = \<lparr>buildTime = Map.empty, waterCoverage = None, terrainStats = None,
                      invariants = None\<rparr>,
      gen_ticks = 0\<rparr>"

definition now :: "(nat \<Rightarrow> real) \<Rightarrow> generator \<Rightarrow> real \<times> generator" where
  "now clock g = (clock (gen_ticks g), g\<lparr>gen_ticks := Suc (gen_ticks g)\<rparr>)"

definition setBuildTime :: "string \<Rightarrow> real \<Rightarrow> generator \<Rightarrow> generator" where
  "setBuildTime phase elapsed g =
     g\<lparr>gen_metrics := (gen_metrics g)\<lparr>buildTime := (buildTime (gen_metrics g))(phase \<mapsto> elapsed)\<rparr>\<rparr>"

text \<open>
  A phase either returns, raises (\<open>Inl\<close>), or does not return (\<open>None\<close>, from the loop
  of the Poisson sampler); \<open>bindOutcome\<close> runs the rest of the pipeline on a returned
  value and passes on the other two.
\<close>

type_synonym 'a outcome = "(error + 'a) option"

definition bindOutcome :: "'a outcome \<Rightarrow> ('a \<Rightarrow> 'b outcome) \<Rightarrow> 'b outcome" where
  "bindOutcome m f =
     (case m of None \<Rightarrow> None | Some (Inl e) \<Rightarrow> Some (Inl e) | Some (Inr a) \<Rightarrow> f a)"

subsection \<open>Phase 1: elevation\<close>

text \<open>
  One of the three band blocks of \<open>_generateElevation\<close> (macro, meso, micro): when the
  band's amplitude is positive, draw a seed from the terrain stream, generate the field
  and add it with the amplitude as weight.
\<close>

definition addBand ::
    "nat \<Rightarrow> nat \<Rightarrow> noiseParams \<Rightarrow> real list \<Rightarrow> u32 \<Rightarrow> error + real list \<times> u32" where
  "addBand width height params elevation terrainRng =
     (if amplitude params > 0 then
        (let (seed, terrainRng') = lcgNextInt terrainRng 0 1000000 in
         case generateNoiseField width height seed params of
           Inl e \<Rightarrow> Inl e
         | Inr field \<Rightarrow>
             Inr (map (\<lambda>i. elevation ! i + field ! i * amplitude params)
                    [0..<length elevation], terrainRng'))
      else Inr (elevation, terrainRng))"

text \<open>
  \<open>_carveLake\<close>. With a zero radius, or with squareness zero, the distance is NaN or
  infinite and the test \<^verbatim>\<open>dist < 1.0\<close> fails in every cell. With a negative squareness
  or a negative radius \<^verbatim>\<open>Math.pow\<close> goes through infinities or NaN, which is outside the
  model. For a positive squareness \<^verbatim>\<open>Math.pow\<close> on non-negative bases is \<open>powr\<close>.
\<close>

definition carveLake ::
    "config \<Rightarrow> nat \<Rightarrow> nat \<Rightarrow> real list \<Rightarrow> int \<Rightarrow> int \<Rightarrow> real \<Rightarrow> real \<Rightarrow> real \<Rightarrow> u32 \<Rightarrow>
     error + real list \<times> u32 \<times> nat" where
  "carveLake cfg width height elevation cx cy radiusX radiusY depth rng =
     (let squareness = LAKE_SHAPE_SQUARENESS cfg;
          seaLevelEst = SEA_LEVEL cfg;
          minY = max 0 \<lfloor>real_of_int cy - radiusY * 2\<rfloor>;
          maxY = min (int height - 1) \<lceil>real_of_int cy + radiusY * 2\<rceil>;
          minX = max 0 \<lfloor>real_of_int cx - radiusX * 2\<rfloor>;
          maxX = min (int width - 1) \<lceil>real_of_int cx + radiusX * 2\<rceil>
      in if radiusX = 0 \<or> radiusY = 0 \<or> squareness = 0 then Inr (elevation, rng, 0)
         else if squareness < 0 \<or> radiusX < 0 \<or> radiusY < 0 then Inl OutsideModel
         else Inr (fold (\<lambda>yi. fold (\<lambda>xi (elev, r, cellsCarved).
                let dx = xi - cx;
                    dy = yi - cy;
                    distX = \<bar>real_of_int dx\<bar> / radiusX;
                    distY = \<bar>real_of_int dy\<bar> / radiusY;
                    dist = (distX powr squareness + distY powr squareness) powr (1 / squareness)
                in if dist < 1.0 then
                     (let idx = nat (yi * int width + xi);
                          falloff = cos (dist * pi / 2);
                          (u, r') = lcgNext r;
                          edgeNoise = (u - 0.5) * LAKE_EDGE_NOISE_AMP cfg;
                          depthBelowSea = depth * max 0 (falloff + edgeNoise);
                          targetHeight = max 0 (seaLevelEst - depthBelowSea)
                      in if elev ! idx > targetHeight
                         then (elev[idx := targetHeight], r', cellsCarved + 1)
                         else (elev, r', cellsCarved))
                   else (elev, r, cellsCarved)) [minX..maxX]) [minY..maxY] (elevation, rng, 0)))"

fun carveLakes ::
    "config \<Rightarrow> nat \<Rightarrow> nat \<Rightarrow> point list \<Rightarrow> real \<Rightarrow> real list \<Rightarrow> u32 \<Rightarrow> error + real list \<times> u32"
    where
  "carveLakes cfg width height [] avgRadius elevation lakesRng = Inr (elevation, lakesRng)"
| "carveLakes cfg width height (center # rest) avgRadius elevation lakesRng =
     (let cx = \<lfloor>fst center\<rfloor>;
          cy = \<lfloor>snd center\<rfloor>;
          (u, rng1) = lcgNext lakesRng;
          sizeVariation = 0.7 + u * 0.6;
          radiusX = avgRadius * sizeVariation;
          radiusY = avgRadius * sizeVariation;
          depthRange = LAKE_DEPTH_MAX cfg - LAKE_DEPTH_MIN cfg;
          (v, rng2) = lcgNext rng1;
          depth = LAKE_DEPTH_MIN cfg + v * depthRange
      in case carveLake cfg width height elevation cx cy radiusX radiusY depth rng2 of
           Inl e \<Rightarrow> Inl e
         | Inr (elevation', rng3, cellsCarved) \<Rightarrow>
             carveLakes cfg width height rest avgRadius elevation' rng3)"

definition addLakes ::
    "(nat \<Rightarrow> real) \<Rightarrow> config \<Rightarrow> real list \<Rightarrow> generator \<Rightarrow> (real list \<times> generator) outcome" where
  "addLakes clock cfg elevation g =
     (if WATER_PERCENTAGE cfg \<le> 0 then Some (Inr (elevation, g))
      else
        let (start, g1) = now clock g;
            (rng1, lakesRng) = getStream (gen_rng g1) (asciiLabel ''lakes'');
            totalCells = MAP_WIDTH cfg * MAP_HEIGHT cfg;
            targetWaterCells = \<lfloor>WATER_PERCENTAGE cfg / 100 * real totalCells\<rfloor>
        in bindOutcome
             (poissonDiskSampling (real (MAP_WIDTH cfg)) (real (MAP_HEIGHT cfg))
                (LAKE_MIN_SPACING cfg) lcgNext lakesRng 30 None)
             (\<lambda>(lakeCenters, lakesRng1).
                if length lakeCenters = 0 then
                  Some (Inr (elevation,
                    g1\<lparr>gen_rng := putStream rng1 (asciiLabel ''lakes'') lakesRng1\<rparr>))
                else
                  let cellsPerLake = \<lfloor>real_of_int targetWaterCells / real (length lakeCenters)\<rfloor>;
                      avgRadius = sqrt (real_of_int cellsPerLake / pi)
                  in case carveLakes cfg (MAP_WIDTH cfg) (MAP_HEIGHT cfg) lakeCenters avgRadius
                            elevation lakesRng1 of
                       Inl e \<Rightarrow> Some (Inl e)
                     | Inr (elevation', lakesRng2) \<Rightarrow>
                         let g2 = g1\<lparr>gen_rng := putStream rng1 (asciiLabel ''lakes'') lakesRng2\<rparr>;
                             (finish, g3) = now clock g2
                         in Some (Inr (elevation', setBuildTime ''lakes'' (finish - start) g3))))"

text \<open>
  \<open>_generateElevation\<close>. \<^verbatim>\<open>Math.pow(e, 0.9)\<close> of a negative \<open>e\<close> is NaN; this can
  only arise when the normalisation leaves the array as it is.
\<close>

definition generateElevation ::
    "(nat \<Rightarrow> real) \<Rightarrow> config \<Rightarrow> generator \<Rightarrow> (real list \<times> generator) outcome" where
  "generateElevation clock cfg g =
     (let width = MAP_WIDTH cfg;
          height = MAP_HEIGHT cfg;
          (start, g1) = now clock g;
          (rng1, terrainRng) = getStream (gen_rng g1) (asciiLabel ''terrain'');
          elevation0 = replicate (width * height) 0
      in case addBand width height (NOISE_MACRO cfg) elevation0 terrainRng of
           Inl e \<Rightarrow> Some (Inl e)
         | Inr (elevation1, terrainRng1) \<Rightarrow>
         (case addBand width height (NOISE_MESO cfg) elevation1 terrainRng1 of
           Inl e \<Rightarrow> Some (Inl e)
         | Inr (elevation2, terrainRng2) \<Rightarrow>
         (case addBand width height (NOISE_MICRO cfg) elevation2 terrainRng2 of
           Inl e \<Rightarrow> Some (Inl e)
         | Inr (elevation3, terrainRng3) \<Rightarrow>
             let g2 = g1\<lparr>gen_rng := putStream rng1 (asciiLabel ''terrain'') terrainRng3\<rparr>;
                 normalized = normalizeArray elevation3
             in if \<exists>e \<in> set normalized. e < 0 then Some (Inl OutsideModel)
                else
                  let contrasted = map (\<lambda>e. min 1 (max 0 (e powr 0.9))) normalized;
                      curved = applyToArray (getPreset (ELEVATION_CURVE cfg)) contrasted
                  in bindOutcome (addLakes clock cfg curved g2)
                       (\<lambda>(withLakes, g3).
                          let scaled = map (\<lambda>e. e * ELEVATION_SCALE cfg) withLakes;
                              (finish, g4) = now clock g3
                          in Some (Inr (scaled,
                               setBuildTime ''elevation'' (finish - start) g4))))))"

subsection \<open>Phases 2 and 3: erosion and sea level\<close>

definition generatorApplyErosion ::
    "(nat \<Rightarrow> real) \<Rightarrow> config \<Rightarrow> real list \<Rightarrow> generator \<Rightarrow> real list \<times> generator" where
  \<comment> \<open>the generator's \<open>_applyErosion\<close>; the erosion stream is created and not used\<close>
  "generatorApplyErosion clock cfg elevation g =
     (let (start, g1) = now clock g;
          (rng1, erosionRng) = getStream (gen_rng g1) (asciiLabel ''erosion'');
          eroded = erode (MAP_WIDTH cfg) (MAP_HEIGHT cfg) elevation (EROSION_ITERATIONS cfg)
                     (EROSION_STRENGTH cfg);
          (finish, g2) = now clock (g1\<lparr>gen_rng := rng1\<rparr>)
      in (eroded, setBuildTime ''erosion'' (finish - start) g2))"

definition generatorSolveSeaLevel ::
    "(nat \<Rightarrow> real) \<Rightarrow> config \<Rightarrow> real list \<Rightarrow> generator \<Rightarrow>
     ((seaLevelData \<times> real list) \<times> generator) outcome" where
  \<comment> \<open>the generator's \<open>_solveSeaLevel\<close>, with the array as the solver leaves it\<close>
  "generatorSolveSeaLevel clock cfg elevation g =
     (let (start, g1) = now clock g in
      case solveSeaLevel elevation (WATER_PERCENTAGE cfg) (WATER_EPSILON cfg) of
        Inl e \<Rightarrow> Some (Inl e)
      | Inr (result, elevation') \<Rightarrow>
          let validation = validateWaterCoverage elevation' (seaLevel result)
                             (WATER_PERCENTAGE cfg) (WATER_TOLERANCE cfg);
              g2 = g1\<lparr>gen_metrics := (gen_metrics g1)\<lparr>waterCoverage :=
                     Some \<lparr>wc_target = WATER_PERCENTAGE cfg,
                           wc_actual = actualPercentage result,
                           wc_error = v_error validation,
                           wc_validated = v_passed validation,
                           wc_seaLevel = seaLevel result,
                           wc_method = solveMethod result\<rparr>\<rparr>\<rparr>;
              (finish, g3) = now clock g2
          in Some (Inr ((result, elevation'), setBuildTime ''seaLevel'' (finish - start) g3)))"

subsection \<open>Phases 4 to 6: auxiliary fields\<close>

definition generateMoisture ::
    "(nat \<Rightarrow> real) \<Rightarrow> config \<Rightarrow> generator \<Rightarrow> (real list \<times> generator) outcome" where
  "generateMoisture clock cfg g =
     (let (start, g1) = now clock g;
          (rng1, moistureRng) = getStream (gen_rng g1) (asciiLabel ''moisture'');
          (seed, moistureRng') = lcgNextInt moistureRng 0 1000000
      in case generateNoiseField (MAP_WIDTH cfg) (MAP_HEIGHT cfg) seed (NOISE_MOIST cfg) of
           Inl e \<Rightarrow> Some (Inl e)
         | Inr moisture \<Rightarrow>
             let g2 = g1\<lparr>gen_rng := putStream rng1 (asciiLabel ''moisture'') moistureRng'\<rparr>;
                 (finish, g3) = now clock g2
             in Some (Inr (moisture, setBuildTime ''moisture'' (finish - start) g3)))"

definition generateTemperature ::
    "(nat \<Rightarrow> real) \<Rightarrow> config \<Rightarrow> real list \<Rightarrow> real \<Rightarrow> generator \<Rightarrow>
     (real list \<times> generator) outcome" where
  "generateTemperature clock cfg elevation sl g =
     (let width = MAP_WIDTH cfg;
          height = MAP_HEIGHT cfg;
          (start, g1) = now clock g;
          (rng1, tempRng) = getStream (gen_rng g1) (asciiLabel ''temperature'');
          (seed, tempRng') = lcgNextInt tempRng 0 1000000
      in case generateNoiseField width height seed (NOISE_TEMP cfg) of
           Inl e \<Rightarrow> Some (Inl e)
         | Inr noiseField \<Rightarrow>
             let lapsed = map (\<lambda>i. noiseField ! i
                                  + max 0 (elevation ! i - sl) * TEMP_LAPSE_RATE cfg)
                            [0..<length noiseField];
                 adjusted =
                   (if TEMP_LATITUDE_EFFECT cfg > 0 then
                      map (\<lambda>idx.
                        let y = idx div width;
                            latitudeFactor = \<bar>real y / real height - 0.5\<bar> * 2
                        in lapsed ! idx + - latitudeFactor * TEMP_LATITUDE_EFFECT cfg)
                        [0..<width * height]
                    else lapsed);
                 temperature = normalizeArray adjusted;
                 g2 = g1\<lparr>gen_rng := putStream rng1 (asciiLabel ''temperature'') tempRng'\<rparr>;
                 (finish, g3) = now clock g2
             in Some (Inr (temperature, setBuildTime ''temperature'' (finish - start) g3)))"

text \<open>
  \<open>_classifyBiomes\<close> and \<open>_calculateSplatWeights\<close> read the elevation array and write
  neither it nor the generator, apart from their build times. Their results, the biome
  and splat fields of the output, are not modelled; \<open>timedOnly\<close> keeps their two clock
  readings and their entry of \<open>buildTime\<close>.
\<close>

definition timedOnly :: "string \<Rightarrow> (nat \<Rightarrow> real) \<Rightarrow> generator \<Rightarrow> generator" where
  "timedOnly phase clock g =
     (let (start, g1) = now clock g;
          (finish, g2) = now clock g1
      in setBuildTime phase (finish - start) g2)"

definition calculateMetrics :: "config \<Rightarrow> real list \<Rightarrow> seaLevelData \<Rightarrow> generator \<Rightarrow> generator" where
  "calculateMetrics cfg elevation seaLevelResult g =
     (let stats = calculateTerrainStats elevation;
          report = \<lparr>waterCoverageMatch =
                      (\<bar>actualPercentage seaLevelResult - WATER_PERCENTAGE cfg\<bar>
                         \<le> WATER_TOLERANCE cfg),
                    heightsValid = (ts_min stats \<ge> 0 \<and> ts_max stats \<le> ELEVATION_SCALE cfg),
                    seaLevelValid = (seaLevel seaLevelResult \<ge> 0 \<and>
                                     seaLevel seaLevelResult \<le> ELEVATION_SCALE cfg)\<rparr>
      in g\<lparr>gen_metrics := (gen_metrics g)\<lparr>terrainStats := Some stats,
                                            invariants := Some report\<rparr>\<rparr>)"

subsection \<open>The pipeline\<close>

text \<open>
  The output object, as an extension of the record that the tree placement reads.
  \<open>out_seaLevelNormalized\<close> is \<open>None\<close> where the division by a zero
  \<open>ELEVATION_SCALE\<close> is NaN or infinite.
\<close>

record terrainOutput = terrainData +
  out_seaLevelNormalized :: "real option"
  out_moisture :: "real list"
  out_temperature :: "real list"
  out_metrics :: metrics
  out_subSeeds :: "label \<rightharpoonup> u32"
  out_rngStates :: "label \<rightharpoonup> u32"

definition generate :: "(nat \<Rightarrow> real) \<Rightarrow> config \<Rightarrow> generator \<Rightarrow> terrainOutput outcome" where
  "generate clock cfg g =
     (let (totalStart, g1) = now clock g in
      bindOutcome (generateElevation clock cfg g1) (\<lambda>(elevation, g2).
        let (eroded, g3) =
              (if EROSION_ITERATIONS cfg > 0 then generatorApplyErosion clock cfg elevation g2
               else (elevation, g2))
        in bindOutcome (generatorSolveSeaLevel clock cfg eroded g3)
             (\<lambda>((seaLevelResult, elevation'), g4).
        bindOutcome (generateMoisture clock cfg g4) (\<lambda>(moisture, g5).
        bindOutcome (generateTemperature clock cfg elevation' (seaLevel seaLevelResult) g5)
             (\<lambda>(temperature, g6).
          let g7 = timedOnly ''biomes'' clock g6;
              g8 = timedOnly ''splatWeights'' clock g7;
              g9 = calculateMetrics cfg elevation' seaLevelResult g8;
              (totalEnd, g10) = now clock g9;
              g11 = setBuildTime ''total'' (totalEnd - totalStart) g10
          in Some (Inr
               \<lparr>td_elevation = elevation',
                td_seaLevel = seaLevel seaLevelResult,
                td_width = MAP_WIDTH cfg,
                td_height = MAP_HEIGHT cfg,
                td_cellSize = CELL_SIZE cfg,
                out_seaLevelNormalized =
                  (if ELEVATION_SCALE cfg = 0 then None
                   else Some (seaLevel seaLevelResult / ELEVATION_SCALE cfg)),
                out_moisture = moisture,
                out_temperature = temperature,
                out_metrics = gen_metrics g11,
                out_subSeeds = subSeeds (gen_rng g11),
                out_rngStates = streams (gen_rng g11)\<rparr>))))))"

text \<open>
  A run of \<open>generate()\<close> on a freshly constructed generator, and the two values that
  the determinism properties compare.
\<close>

definition runGenerate :: "(nat \<Rightarrow> real) \<Rightarrow> config \<Rightarrow> terrainOutput outcome" where
  "runGenerate clock cfg = generate clock cfg (newGenerator cfg)"

definition elevationAndSeaLevel :: "terrainOutput outcome \<Rightarrow> (real list \<times> real) outcome" where
  "elevationAndSeaLevel out = map_option (map_sum id (\<lambda>t. (td_elevation t, td_seaLevel t))) out"

subsection \<open>Comparing two runs\<close>

text \<open>
  Two intermediate results of a phase agree when they carry the same value and leave the
  random streams in the same state; the build times and the number of clock readings
  may differ. \<open>relOutcome\<close> lifts a relation on results to outcomes: both runs fail to
  return, or both raise the same error, or both return related results.
\<close>

definition sameStreams :: "'a \<times> generator \<Rightarrow> 'a \<times> generator \<Rightarrow> bool" where
  "sameStreams p q \<longleftrightarrow> fst p = fst q \<and> gen_rng (snd p) = gen_rng (snd q)"

definition relOutcome :: "('a \<Rightarrow> 'b \<Rightarrow> bool) \<Rightarrow> 'a outcome \<Rightarrow> 'b outcome \<Rightarrow> bool" where
  "relOutcome R = rel_option (rel_sum (=) R)"

definition sameTerrain :: "terrainOutput \<Rightarrow> terrainOutput \<Rightarrow> bool" where
  "sameTerrain t t' \<longleftrightarrow> td_elevation t = td_elevation t' \<and> td_seaLevel t = td_seaLevel t'"

text \<open>The default parameters on a map of a single cell, as a run that can be followed by hand.\<close>

definition unitMapConfig :: config where
  "unitMapConfig = DEFAULT_CONFIG\<lparr>MAP_WIDTH := 1, MAP_HEIGHT := 1\<rparr>"

section \<open>Properties of the rounding\<close>

lemma pow2_powr: "pow2 k = 2 powr (of_int k)"
proof (cases "0 \<le> k")
  case True
  then show ?thesis
    by (simp add: pow2_def powr_realpow[symmetric])
next
  case False
  have a: "(2::real) ^ nat (- k) = 2 powr (real (nat (- k)))"
    by (simp add: powr_realpow)
  have b: "real (nat (- k)) = - of_int k" using False by simp
  have "2 powr (of_int k) = 1 / 2 powr (- of_int k :: real)"
    by (simp add: powr_minus_divide)
  then show ?thesis using False by (simp add: pow2_def a b)
qed

lemma pow2_pos: "0 < pow2 k"
  by (simp add: pow2_powr)

lemma pow2_mono: "k \<le> l \<Longrightarrow> pow2 k \<le> pow2 l"
  by (simp add: pow2_powr)

lemma pow2_strict_mono: "k < l \<Longrightarrow> pow2 k < pow2 l"
  by (simp add: pow2_powr)

lemma pow2_add: "pow2 (k + l) = pow2 k * pow2 l"
  by (simp add: pow2_powr powr_add)

lemma pow2_diff: "pow2 (k - l) = pow2 k / pow2 l"
  by (simp add: pow2_powr powr_diff)

lemma floor_log2_eq:
  assumes "pow2 e \<le> x" and "x < pow2 (e + 1)"
  shows "\<lfloor>log 2 x\<rfloor> = e"
proof -
  have x: "0 < x" using assms(1) pow2_pos[of e] by linarith
  have "of_int e \<le> log 2 x"
    using assms(1) x by (simp add: pow2_powr le_log_iff)
  moreover have "log 2 x < of_int e + 1"
    using assms(2) x by (simp add: pow2_powr log_less_iff)
  ultimately show ?thesis by (simp add: floor_unique)
qed

lemma binade_eqI:
  assumes "pow2 e \<le> \<bar>x\<bar>" and "\<bar>x\<bar> < pow2 (e + 1)" and "- 1022 \<le> e"
  shows "binade x = e"
  using floor_log2_eq[OF assms(1,2)] assms(3) by (simp add: binade_def)

lemma binade_upper:
  assumes "x \<noteq> 0"
  shows "\<bar>x\<bar> < pow2 (binade x + 1)"
proof -
  have x: "0 < \<bar>x\<bar>" using assms by simp
  have "log 2 \<bar>x\<bar> < of_int (\<lfloor>log 2 \<bar>x\<bar>\<rfloor> + 1)" by linarith
  then have "2 powr (log 2 \<bar>x\<bar>) < 2 powr (of_int (\<lfloor>log 2 \<bar>x\<bar>\<rfloor> + 1))"
    by (simp only: powr_less_cancel_iff) 
  then have "\<bar>x\<bar> < pow2 (\<lfloor>log 2 \<bar>x\<bar>\<rfloor> + 1)"
    using x by (simp add: pow2_powr)
  also have "\<dots> \<le> pow2 (binade x + 1)"
    by (rule pow2_mono) (simp add: binade_def)
  finally show ?thesis .
qed

lemma binade_lower:
  assumes "x \<noteq> 0" and "- 1022 < binade x"
  shows "pow2 (binade x) \<le> \<bar>x\<bar>"
proof -
  have x: "0 < \<bar>x\<bar>" using assms by simp
  have b: "binade x = \<lfloor>log 2 \<bar>x\<bar>\<rfloor>"
    using assms(2) by (simp add: binade_def max_def split: if_splits)
  have "of_int \<lfloor>log 2 \<bar>x\<bar>\<rfloor> \<le> log 2 \<bar>x\<bar>" by simp
  then have "2 powr (of_int \<lfloor>log 2 \<bar>x\<bar>\<rfloor>) \<le> 2 powr (log 2 \<bar>x\<bar>)"
    by (simp only: powr_le_cancel_iff)
  then show ?thesis
    unfolding b using x by (simp add: pow2_powr)
qed

lemma binade_ge: "- 1022 \<le> binade x"
  by (simp add: binade_def)

lemma binade_abs: "binade (- x) = binade x"
  by (simp add: binade_def)

lemma ulp_pos: "0 < ulp x"
  by (simp add: ulp_def pow2_pos)

lemma ulp_minus: "ulp (- x) = ulp x"
  by (simp add: ulp_def binade_abs)


lemma roundEven_of_int: "roundEven (of_int k) = k"
  by (simp add: roundEven_def)

lemma roundEven_lower:
  assumes "of_int k \<le> y"
  shows "k \<le> roundEven y"
proof -
  have "k \<le> \<lfloor>y\<rfloor>" using assms by (simp add: le_floor_iff)
  then show ?thesis unfolding roundEven_def Let_def by auto
qed

lemma roundEven_upper:
  assumes "y \<le> of_int k"
  shows "roundEven y \<le> k"
proof (cases "y = of_int k")
  case True
  then show ?thesis by (simp add: roundEven_of_int)
next
  case False
  then have "y < of_int k" using assms by simp
  then have "\<lfloor>y\<rfloor> < k" by (simp add: floor_less_iff)
  then show ?thesis unfolding roundEven_def Let_def by auto
qed

lemma roundEven_mono:
  assumes "x \<le> y"
  shows "roundEven x \<le> roundEven y"
proof (cases "\<lfloor>x\<rfloor> = \<lfloor>y\<rfloor>")
  case True
  have "x - of_int \<lfloor>x\<rfloor> \<le> y - of_int \<lfloor>x\<rfloor>" using assms by simp
  then show ?thesis
    unfolding roundEven_def Let_def True[symmetric] by auto
next
  case False
  have "\<lfloor>x\<rfloor> \<le> \<lfloor>y\<rfloor>" using assms by (rule floor_mono)
  then have lt: "\<lfloor>x\<rfloor> + 1 \<le> \<lfloor>y\<rfloor>" using False by simp
  have "x \<le> of_int (\<lfloor>x\<rfloor> + 1)" by linarith
  then have "roundEven x \<le> \<lfloor>x\<rfloor> + 1" by (rule roundEven_upper)
  moreover have "of_int \<lfloor>y\<rfloor> \<le> y" by simp
  then have "\<lfloor>y\<rfloor> \<le> roundEven y" by (rule roundEven_lower)
  ultimately show ?thesis using lt by linarith
qed

lemma roundEven_minus: "roundEven (- y) = - roundEven y"
proof (cases "y = of_int \<lfloor>y\<rfloor>")
  case True
  have "roundEven (- real_of_int \<lfloor>y\<rfloor>) = - roundEven (real_of_int \<lfloor>y\<rfloor>)"
    by (simp add: roundEven_of_int flip: of_int_minus)
  then show ?thesis by (metis True)
next
  case False
  have l: "of_int \<lfloor>y\<rfloor> < y" using False of_int_floor_le[of y] by linarith
  have u: "y < of_int \<lfloor>y\<rfloor> + 1" by linarith
  have "of_int (- \<lfloor>y\<rfloor> - 1) \<le> - y" and "- y < of_int (- \<lfloor>y\<rfloor> - 1) + 1"
    unfolding of_int_diff of_int_minus of_int_1 using l u by linarith+
  then have f: "\<lfloor>- y\<rfloor> = - \<lfloor>y\<rfloor> - 1"
    by (rule floor_unique)
  show ?thesis
    unfolding roundEven_def Let_def f
    using False by (auto simp: algebra_simps)
qed


lemma fl_zero: "fl 0 = 0"
  by (simp add: fl_def)

lemma fl_minus: "fl (- x) = - fl x"
  by (simp add: fl_def ulp_minus roundEven_minus)

lemma fl_eqI:
  assumes "pow2 e \<le> \<bar>x\<bar>" and "\<bar>x\<bar> < pow2 (e + 1)" and "- 1022 \<le> e"
      and "roundEven (x / pow2 (e - 52)) = m"
      and "y = of_int m * pow2 (e - 52)"
  shows "fl x = y"
proof -
  have "x \<noteq> 0" using assms(1) pow2_pos[of e] by auto
  moreover have "binade x = e" using assms(1-3) by (rule binade_eqI)
  ultimately show ?thesis by (simp add: fl_def ulp_def assms(4,5))
qed

lemma fl_nonneg:
  assumes "0 \<le> x"
  shows "0 \<le> fl x"
proof -
  have "of_int 0 \<le> x / ulp x" using assms ulp_pos[of x] by simp
  then have "0 \<le> roundEven (x / ulp x)" by (rule roundEven_lower)
  then show ?thesis using ulp_pos[of x] by (simp add: fl_def)
qed

lemma pow2_53_ulp: "pow2 53 * ulp x = pow2 (binade x + 1)"
proof -
  have e: "binade x + 1 = 53 + (binade x - 52)" by simp
  show ?thesis unfolding ulp_def by (subst e) (simp only: pow2_add)
qed

lemma pow2_52_ulp: "pow2 52 * ulp x = pow2 (binade x)"
proof -
  have e: "binade x = 52 + (binade x - 52)" by simp
  show ?thesis unfolding ulp_def by (subst e) (simp only: pow2_add)
qed

lemma fl_upper_binade:
  assumes "0 < x"
  shows "fl x \<le> pow2 (binade x + 1)"
proof -
  have "x < pow2 (binade x + 1)" using binade_upper[of x] assms by simp
  also have "pow2 (binade x + 1) = pow2 53 * ulp x"
    by (simp only: pow2_53_ulp)
  finally have "x / ulp x \<le> pow2 53" using ulp_pos[of x] by (simp add: field_simps)
  also have "pow2 53 = of_int (2 ^ 53)" by (simp add: pow2_def)
  finally have "roundEven (x / ulp x) \<le> 2 ^ 53" by (rule roundEven_upper)
  then have "of_int (roundEven (x / ulp x)) \<le> (of_int (2 ^ 53) :: real)"
    by (simp only: of_int_le_iff)
  then have "of_int (roundEven (x / ulp x)) * ulp x \<le> pow2 53 * ulp x"
    using ulp_pos[of x] by (simp add: pow2_def)
  also have "pow2 53 * ulp x = pow2 (binade x + 1)"
    by (rule pow2_53_ulp)
  finally show ?thesis using assms by (simp add: fl_def)
qed

lemma fl_lower_binade:
  assumes "0 < x" and "- 1022 < binade x"
  shows "pow2 (binade x) \<le> fl x"
proof -
  have "pow2 (binade x) \<le> x" using binade_lower[of x] assms by simp
  moreover have "pow2 (binade x) = pow2 52 * ulp x"
    by (simp only: pow2_52_ulp)
  ultimately have "pow2 52 \<le> x / ulp x" using ulp_pos[of x] by (simp add: field_simps)
  moreover have "pow2 52 = of_int (2 ^ 52)" by (simp add: pow2_def)
  ultimately have "of_int (2 ^ 52) \<le> x / ulp x" by simp
  then have "2 ^ 52 \<le> roundEven (x / ulp x)" by (rule roundEven_lower)
  then have "(of_int (2 ^ 52) :: real) \<le> of_int (roundEven (x / ulp x))"
    by (simp only: of_int_le_iff)
  then have "pow2 52 * ulp x \<le> of_int (roundEven (x / ulp x)) * ulp x"
    using ulp_pos[of x] by (simp add: pow2_def)
  moreover have "pow2 52 * ulp x = pow2 (binade x)"
    by (rule pow2_52_ulp)
  ultimately show ?thesis using assms by (simp add: fl_def)
qed

lemma binade_mono:
  assumes "0 < x" and "x \<le> y"
  shows "binade x \<le> binade y"
proof -
  have "log 2 \<bar>x\<bar> \<le> log 2 \<bar>y\<bar>" using assms by simp
  then have "\<lfloor>log 2 \<bar>x\<bar>\<rfloor> \<le> \<lfloor>log 2 \<bar>y\<bar>\<rfloor>" by (rule floor_mono)
  then show ?thesis by (simp add: binade_def)
qed

lemma fl_mono_pos:
  assumes "0 < x" and "x \<le> y"
  shows "fl x \<le> fl y"
proof (cases "binade x = binade y")
  case True
  then have u: "ulp x = ulp y" by (simp add: ulp_def)
  have "x / ulp y \<le> y / ulp y" using assms(2) ulp_pos[of y] by (simp add: divide_right_mono)
  then have "roundEven (x / ulp y) \<le> roundEven (y / ulp y)" by (rule roundEven_mono)
  then have "of_int (roundEven (x / ulp y)) * ulp y \<le> of_int (roundEven (y / ulp y)) * ulp y"
    using ulp_pos[of y] by simp
  then show ?thesis using assms by (simp add: fl_def u)
next
  case False
  have y: "0 < y" using assms by simp
  have lt: "binade x + 1 \<le> binade y" using binade_mono[OF assms] False by simp
  have "fl x \<le> pow2 (binade x + 1)" using assms(1) by (rule fl_upper_binade)
  also have "\<dots> \<le> pow2 (binade y)" using lt by (rule pow2_mono)
  also have "\<dots> \<le> fl y"
    using y by (rule fl_lower_binade) (use lt binade_ge[of x] in linarith)
  finally show ?thesis .
qed

lemma fl_mono:
  assumes "x \<le> y"
  shows "fl x \<le> fl y"
proof -
  consider "0 < x" | "x \<le> 0" "0 \<le> y" | "y < 0" by linarith
  then show ?thesis
  proof cases
    case 1
    then show ?thesis using assms by (rule fl_mono_pos)
  next
    case 2
    have "fl x \<le> 0" using fl_nonneg[of "- x"] 2(1) by (simp add: fl_minus)
    moreover have "0 \<le> fl y" using 2(2) by (rule fl_nonneg)
    ultimately show ?thesis by simp
  next
    case 3
    have "fl (- y) \<le> fl (- x)" by (rule fl_mono_pos) (use 3 assms in simp_all)
    then show ?thesis by (simp add: fl_minus)
  qed
qed

lemma fl_ge:
  assumes "fl a = a" and "a \<le> x"
  shows "a \<le> fl x"
  using fl_mono[OF assms(2)] assms(1) by simp

lemma fl_le:
  assumes "fl b = b" and "x \<le> b"
  shows "fl x \<le> b"
  using fl_mono[OF assms(2)] assms(1) by simp

text \<open>A dyadic number with a significand of at most 53 bits is a double.\<close>

lemma fl_representable:
  assumes x: "x = of_int k * pow2 j" and k: "\<bar>k\<bar> < 2 ^ 53" and j: "- 1074 \<le> j"
  shows "fl x = x"
proof (cases "x = 0")
  case True
  then show ?thesis by (simp add: fl_zero)
next
  case False
  have "\<bar>x\<bar> = of_int \<bar>k\<bar> * pow2 j" using pow2_pos[of j] by (simp add: x abs_mult)
  also have "\<dots> < of_int (2 ^ 53) * pow2 j"
    using k pow2_pos[of j] by (simp only: mult_less_cancel_right_pos of_int_less_iff)
  also have "\<dots> = pow2 53 * pow2 j" by (simp add: pow2_def)
  also have "\<dots> = pow2 (53 + j)" by (simp only: pow2_add)
  finally have up: "\<bar>x\<bar> < pow2 (53 + j)" .
  have le: "binade x - 52 \<le> j"
  proof (cases "- 1022 < binade x")
    case True
    have "pow2 (binade x) \<le> \<bar>x\<bar>" using False True by (rule binade_lower)
    then have "pow2 (binade x) < pow2 (53 + j)" using up by simp
    then have "binade x < 53 + j" by (simp add: pow2_powr)
    then show ?thesis by simp
  next
    case f: False
    then have "binade x = - 1022" using binade_ge[of x] by simp
    then show ?thesis using j by simp
  qed
  define d where "d = nat (j - (binade x - 52))"
  have "j = int d + (binade x - 52)" using le by (simp add: d_def)
  then have "pow2 j = pow2 (int d + (binade x - 52))" by simp
  then have pj: "pow2 j = pow2 (int d) * ulp x"
    by (simp only: ulp_def pow2_add)
  have "x = of_int k * pow2 (int d) * ulp x"
    by (subst x, subst pj) simp
  then have "x / ulp x = of_int k * pow2 (int d) * ulp x / ulp x" by simp
  then have "x / ulp x = of_int k * pow2 (int d)"
    using ulp_pos[of x] by simp
  also have "\<dots> = of_int (k * 2 ^ d)" by (simp add: pow2_def)
  finally have "roundEven (x / ulp x) = k * 2 ^ d" by (simp only: roundEven_of_int)
  then have "fl x = of_int (k * 2 ^ d) * ulp x" using False by (simp add: fl_def)
  also have "\<dots> = of_int k * (pow2 (int d) * ulp x)" by (simp add: pow2_def)
  also have "\<dots> = x" by (subst (2) x, subst pj) simp
  finally show ?thesis .
qed

lemma isDouble_0: "isDouble 0"
  by (simp add: isDouble_def fl_zero)

lemma isDouble_fl_ge: "isDouble a \<Longrightarrow> a \<le> x \<Longrightarrow> a \<le> fl x"
  unfolding isDouble_def by (rule fl_ge)

lemma isDouble_fl_le: "isDouble b \<Longrightarrow> x \<le> b \<Longrightarrow> fl x \<le> b"
  unfolding isDouble_def by (rule fl_le)

lemma isDouble_minus: "isDouble x \<Longrightarrow> isDouble (- x)"
  by (simp add: isDouble_def fl_minus)

lemma isDouble_dyadic:
  assumes "x = of_int k * pow2 j" and "\<bar>k\<bar> < 2 ^ 53" and "- 1074 \<le> j"
  shows "isDouble x"
  unfolding isDouble_def using assms by (rule fl_representable)


section \<open>Properties of the quantile solver\<close>

subsection \<open>Order statistics\<close>





subsection \<open>The rounded interpolation\<close>

lemma fl_one: "fl 1 = 1"
  by (rule fl_eqI[where e = 0 and m = "4503599627370496"]) (simp_all add: pow2_def roundEven_def)




subsection \<open>The arithmetic of the concrete runs\<close>

text \<open>
  The rounded operations that \<open>solveSeaLevel\<close> performs on the field \<open>[0, 10]\<close> with a
  target of 15 and on the field of two cells of height \<open>13421773 / 134217728\<close> (the
  \<^verbatim>\<open>Float32Array\<close> entry for 0.1) with targets of 1 and 7, each evaluated from the
  definition of \<open>fl\<close>.
\<close>

lemma interp_1: "divD 15 100 = 5404319552844595 / 36028797018963968"
  unfolding divD_def
  by (rule fl_eqI[where e = "- 3" and m = "5404319552844595"]) (simp_all add: pow2_def roundEven_def)

lemma interp_2: "mulD (5404319552844595 / 36028797018963968) 1 = 5404319552844595 / 36028797018963968"
  unfolding mulD_def
  by (rule fl_eqI[where e = "- 3" and m = "5404319552844595"]) (simp_all add: pow2_def roundEven_def)

lemma interp_3: "subD (5404319552844595 / 36028797018963968) 0 = 5404319552844595 / 36028797018963968"
  unfolding subD_def
  by (rule fl_eqI[where e = "- 3" and m = "5404319552844595"]) (simp_all add: pow2_def roundEven_def)

lemma interp_4: "subD 1 (5404319552844595 / 36028797018963968) = 7656119366529843 / 9007199254740992"
  unfolding subD_def
  by (rule fl_eqI[where e = "- 1" and m = "7656119366529843"]) (simp_all add: pow2_def roundEven_def)

lemma interp_5: "mulD 0 (7656119366529843 / 9007199254740992) = 0"
  by (simp add: mulD_def fl_zero)

lemma interp_6: "mulD 10 (5404319552844595 / 36028797018963968) = 3 / 2"
  unfolding mulD_def
  by (rule fl_eqI[where e = "0" and m = "6755399441055744"]) (simp_all add: pow2_def roundEven_def)

lemma interp_7: "addD 0 (3 / 2) = 3 / 2"
  unfolding addD_def
  by (rule fl_eqI[where e = "0" and m = "6755399441055744"]) (simp_all add: pow2_def roundEven_def)

lemma interp_8: "divD 1 2 = 1 / 2"
  unfolding divD_def
  by (rule fl_eqI[where e = "- 1" and m = "4503599627370496"]) (simp_all add: pow2_def roundEven_def)

lemma interp_9: "mulD (1 / 2) 100 = 50"
  unfolding mulD_def
  by (rule fl_eqI[where e = "5" and m = "7036874417766400"]) (simp_all add: pow2_def roundEven_def)

lemma interp_10: "divD 1 100 = 5764607523034235 / 576460752303423488"
  unfolding divD_def
  by (rule fl_eqI[where e = "- 7" and m = "5764607523034235"]) (simp_all add: pow2_def roundEven_def)

lemma interp_11: "mulD (5764607523034235 / 576460752303423488) 1 = 5764607523034235 / 576460752303423488"
  unfolding mulD_def
  by (rule fl_eqI[where e = "- 7" and m = "5764607523034235"]) (simp_all add: pow2_def roundEven_def)

lemma interp_12: "subD (5764607523034235 / 576460752303423488) 0 = 5764607523034235 / 576460752303423488"
  unfolding subD_def
  by (rule fl_eqI[where e = "- 7" and m = "5764607523034235"]) (simp_all add: pow2_def roundEven_def)

lemma interp_13: "subD 1 (5764607523034235 / 576460752303423488) = 4458563631096791 / 4503599627370496"
  unfolding subD_def
  by (rule fl_eqI[where e = "- 1" and m = "8917127262193582"]) (simp_all add: pow2_def roundEven_def)

lemma interp_14: "mulD (13421773 / 134217728) (4458563631096791 / 4503599627370496) = 3566850958027653 / 36028797018963968"
  unfolding mulD_def
  by (rule fl_eqI[where e = "- 4" and m = "7133701916055306"]) (simp_all add: pow2_def roundEven_def)

lemma interp_15: "mulD (13421773 / 134217728) (5764607523034235 / 576460752303423488) = 4611686087146865 / 4611686018427387904"
  unfolding mulD_def
  by (rule fl_eqI[where e = "- 10" and m = "4611686087146865"]) (simp_all add: pow2_def roundEven_def)

lemma interp_16: "addD (3566850958027653 / 36028797018963968) (4611686087146865 / 4611686018427387904) = 13421773 / 134217728"
  unfolding addD_def
  by (rule fl_eqI[where e = "- 4" and m = "7205759511166976"]) (simp_all add: pow2_def roundEven_def)

lemma interp_17: "divD 2 2 = 1"
  unfolding divD_def
  by (rule fl_eqI[where e = "0" and m = "4503599627370496"]) (simp_all add: pow2_def roundEven_def)

lemma interp_18: "mulD 1 100 = 100"
  unfolding mulD_def
  by (rule fl_eqI[where e = "6" and m = "7036874417766400"]) (simp_all add: pow2_def roundEven_def)

lemma interp_19: "divD 7 100 = 1261007895663739 / 18014398509481984"
  unfolding divD_def
  by (rule fl_eqI[where e = "- 4" and m = "5044031582654956"]) (simp_all add: pow2_def roundEven_def)

lemma interp_20: "mulD (1261007895663739 / 18014398509481984) 1 = 1261007895663739 / 18014398509481984"
  unfolding mulD_def
  by (rule fl_eqI[where e = "- 4" and m = "5044031582654956"]) (simp_all add: pow2_def roundEven_def)

lemma interp_21: "subD (1261007895663739 / 18014398509481984) 0 = 1261007895663739 / 18014398509481984"
  unfolding subD_def
  by (rule fl_eqI[where e = "- 4" and m = "5044031582654956"]) (simp_all add: pow2_def roundEven_def)

lemma interp_22: "subD 1 (1261007895663739 / 18014398509481984) = 4188347653454561 / 4503599627370496"
  unfolding subD_def
  by (rule fl_eqI[where e = "- 1" and m = "8376695306909122"]) (simp_all add: pow2_def roundEven_def)

lemma interp_23: "mulD (13421773 / 134217728) (4188347653454561 / 4503599627370496) = 6701356345385287 / 72057594037927936"
  unfolding mulD_def
  by (rule fl_eqI[where e = "- 4" and m = "6701356345385287"]) (simp_all add: pow2_def roundEven_def)

lemma interp_24: "mulD (13421773 / 134217728) (1261007895663739 / 18014398509481984) = 4035225326253507 / 576460752303423488"
  unfolding mulD_def
  by (rule fl_eqI[where e = "- 8" and m = "8070450652507014"]) (simp_all add: pow2_def roundEven_def)

lemma interp_25: "addD (6701356345385287 / 72057594037927936) (4035225326253507 / 576460752303423488) = 7205759511166975 / 72057594037927936"
  unfolding addD_def
  by (rule fl_eqI[where e = "- 4" and m = "7205759511166975"]) (simp_all add: pow2_def roundEven_def)

lemma interp_26: "divD 0 2 = 0"
  by (simp add: divD_def fl_zero)

lemma interp_27: "mulD 0 100 = 0"
  by (simp add: mulD_def fl_zero)

lemmas interp_steps =
  interp_1 interp_2 interp_3 interp_4 interp_5 interp_6 interp_7 interp_8
  interp_9 interp_10 interp_11 interp_12 interp_13 interp_14 interp_15 interp_16
  interp_17 interp_18 interp_19 interp_20 interp_21 interp_22 interp_23 interp_24
  interp_25 interp_26 interp_27


subsection \<open>Claims about the sea level\<close>




text \<open>
  Claim C4 fails in the program. On the field of two cells of equal height
  \<open>a = 13421773 / 134217728\<close> the sea level solved for a target of 1 is \<open>a\<close> and both
  cells are water; the sea level solved for a target of 7 is one unit in the last place
  below \<open>a\<close>, and no cell is water. The interpolation \<open>a * (1 - w) + a * w\<close> between two
  equal order statistics is not \<open>a\<close> for every weight once each product and the sum are
  rounded, so raising the target lowers the solved sea level.
\<close>

theorem sea_level_decreases_on_equal_heights:
  "solveSeaLevel [13421773 / 134217728, 13421773 / 134217728] 1 (1 / 100) =
     Inr (\<lparr>seaLevel = 13421773 / 134217728, actualPercentage = 100, cellsBelowSeaLevel = 2,
           raised = 0, solveMethod = ''quantile''\<rparr>,
          [13421773 / 134217728, 13421773 / 134217728]) \<and>
   solveSeaLevel [13421773 / 134217728, 13421773 / 134217728] 7 (1 / 100) =
     Inr (\<lparr>seaLevel = 7205759511166975 / 72057594037927936, actualPercentage = 0,
           cellsBelowSeaLevel = 0, raised = 0, solveMethod = ''quantile''\<rparr>,
          [13421773 / 134217728, 13421773 / 134217728]) \<and>
   (1::real) \<le> 7 \<and>
   (7205759511166975 / 72057594037927936 :: real) < 13421773 / 134217728"
  by (simp add: solveSeaLevel_def findQuantile_def Let_def interp_steps)



section \<open>Properties of the RNG streams\<close>

lemma lcg_step_inj:
  fixes a b :: u32
  assumes "a * 1664525 + 1013904223 = b * 1664525 + 1013904223"
  shows "a = b"
proof -
  have inv: "(1664525 :: u32) * 4276115653 = 1" by simp
  have "a * 1664525 = b * 1664525" using assms by simp
  then have "a * 1664525 * 4276115653 = b * 1664525 * 4276115653" by simp
  then have "a * (1664525 * 4276115653) = b * (1664525 * 4276115653)"
    by (simp only: mult.assoc)
  then show ?thesis by (simp only: inv mult_1_right)
qed

lemma lcgNext_fst_inj:
  assumes "fst (lcgNext a) = fst (lcgNext b)"
  shows "a = b"
proof -
  let ?a = "a * 1664525 + 1013904223" and ?b = "b * 1664525 + 1013904223"
  have "real (unat ?a) / 4294967296 = real (unat ?b) / 4294967296"
    using assms by (simp add: lcgNext_def Let_def del: of_nat_unat)
  then have "real (unat ?a) = real (unat ?b)" by simp
  then have "unat ?a = unat ?b" by (simp only: of_nat_eq_iff)
  then have "?a = ?b" by (simp only: word_unat_eq_iff[symmetric])
  then show ?thesis by (rule lcg_step_inj)
qed

lemma getStream_fresh:
  "snd (getStream (newMultiStreamRNG seed) lbl) = hashSeed seed lbl"
  by (simp add: getStream_def newMultiStreamRNG_def newLCG_def Let_def)

text \<open>
  Claim C8, as amended. For every 32-bit master seed and every pair of labels, the
  streams derived from the two labels produce the same sequence of \<^verbatim>\<open>next()\<close> values
  exactly when the labels hash to the same 32-bit sub-seed, and already the first value
  tells different sub-seeds apart. Labels are unbounded strings and sub-seeds are 32-bit
  words, so distinct labels can share a sub-seed.
\<close>

theorem streams_equal_iff_subseeds_equal:
  "(streamSequence seed l1 = streamSequence seed l2 \<longleftrightarrow> hashSeed seed l1 = hashSeed seed l2) \<and>
   (streamSequence seed l1 0 = streamSequence seed l2 0 \<longleftrightarrow> hashSeed seed l1 = hashSeed seed l2)"
proof -
  have first: "hashSeed seed l1 = hashSeed seed l2"
    if "streamSequence seed l1 0 = streamSequence seed l2 0"
    using that lcgNext_fst_inj[of "hashSeed seed l1" "hashSeed seed l2"]
    by (simp add: streamSequence_def getStream_fresh)
  have same: "streamSequence seed l1 = streamSequence seed l2"
    if "hashSeed seed l1 = hashSeed seed l2"
    using that by (simp add: streamSequence_def getStream_fresh)
  show ?thesis using first same by metis
qed

text \<open>
  The claim as stated fails for the master seed 12345: the labels \<^verbatim>\<open>trees\<close> and
  \<^verbatim>\<open>nrboting\<close> differ, both hash to the sub-seed 3577180417, and their streams
  coincide.
\<close>

theorem stream_collision_counterexample:
  "asciiLabel ''trees'' \<noteq> asciiLabel ''nrboting'' \<and>
   hashSeed 12345 (asciiLabel ''trees'') = 3577180417 \<and>
   hashSeed 12345 (asciiLabel ''nrboting'') = 3577180417 \<and>
   streamSequence 12345 (asciiLabel ''trees'') = streamSequence 12345 (asciiLabel ''nrboting'')"
proof -
  have a: "hashSeed 12345 (asciiLabel ''trees'') = 3577180417"
    by (simp add: hashSeed_def hashMix_def asciiLabel_def Let_def)
  have b: "hashSeed 12345 (asciiLabel ''nrboting'') = 3577180417"
    by (simp add: hashSeed_def hashMix_def asciiLabel_def Let_def)
  have c: "asciiLabel ''trees'' \<noteq> asciiLabel ''nrboting''" by (simp add: asciiLabel_def)
  have d: "streamSequence 12345 (asciiLabel ''trees'') = streamSequence 12345 (asciiLabel ''nrboting'')"
    by (simp only: streamSequence_def getStream_fresh a b)
  show ?thesis using a b c d by simp
qed

section \<open>Properties of the Poisson disk sampler\<close>

subsection \<open>Every returned point passes the suitability mask\<close>

lemma isValid_mask:
  "isValid w h r msk grd x y \<Longrightarrow> \<not> maskRejects msk x y"
  by (auto simp: isValid_def split: if_splits)

lemma isValid_outside:
  "x < 0 \<or> w \<le> x \<or> y < 0 \<or> h \<le> y \<Longrightarrow> \<not> isValid w h r msk grd x y"
  by (auto simp: isValid_def)

lemma initialPoint_mask:
  assumes run: "initialPoint w h rng msk a s = (Some p, s')"
  shows "\<not> maskRejects msk (fst p) (snd p)"
  using run
proof (induction k \<equiv> "101 - a" arbitrary: a s)
  case 0
  then have big: "100 < a + 1" by simp
  obtain u s1 where u: "rng s = (u, s1)" by (cases "rng s")
  obtain v s2 where v: "rng s1 = (v, s2)" by (cases "rng s1")
  from "0.prems" show ?case
    using big u v
    by (subst (asm) initialPoint.simps) (auto simp: Let_def split: if_splits)
next
  case (Suc k)
  obtain u s1 where u: "rng s = (u, s1)" by (cases "rng s")
  obtain v s2 where v: "rng s1 = (v, s2)" by (cases "rng s1")
  show ?case
  proof (cases "100 < a + 1")
    case True
    from Suc.prems show ?thesis
      using True u v
      by (subst (asm) initialPoint.simps) (auto simp: Let_def split: if_splits)
  next
    case False
    show ?thesis
    proof (cases "maskRejects msk (mulD u w) (mulD v h)")
      case True
      have "initialPoint w h rng msk (a + 1) s2 = (Some p, s')"
        using Suc.prems False True u v by (subst (asm) initialPoint.simps) (simp add: Let_def)
      moreover have "k = 101 - (a + 1)" using Suc.hyps(2) by simp
      ultimately show ?thesis using Suc.hyps(1) by blast
    next
      case nr: False
      have "p = (mulD u w, mulD v h)"
        using Suc.prems False nr u v by (subst (asm) initialPoint.simps) (simp add: Let_def)
      then show ?thesis using nr by simp
    qed
  qed
qed

lemma tryCandidates_mask:
  assumes "\<forall>p \<in> set (samples st). \<not> maskRejects msk (fst p) (snd p)"
      and "tryCandidates n w h r rng msk pt st found = (st', found')"
  shows "\<forall>p \<in> set (samples st'). \<not> maskRejects msk (fst p) (snd p)"
  using assms
proof (induction n arbitrary: st found)
  case 0
  then show ?case by simp
next
  case (Suc n)
  obtain u s1 where u: "rng (rngState st) = (u, s1)" by (cases "rng (rngState st)")
  obtain v s2 where v: "rng s1 = (v, s2)" by (cases "rng s1")
  let ?st1 = "st\<lparr>rngState := s2\<rparr>"
  let ?x = "addD (fst pt) (mulD (cosD (mulD (mulD u PI) 2)) (addD r (mulD v r)))"
  let ?y = "addD (snd pt) (mulD (sinD (mulD (mulD u PI) 2)) (addD r (mulD v r)))"
  show ?case
  proof (cases "isValid w h r msk (grid ?st1) ?x ?y")
    case True
    let ?st2 = "addPoint w h r ?x ?y ?st1"
    have rec: "tryCandidates n w h r rng msk pt ?st2 True = (st', found')"
      using Suc.prems(2) True u v by (simp add: Let_def)
    have "\<not> maskRejects msk ?x ?y" using isValid_mask[OF True] by simp
    then have "\<forall>p \<in> set (samples ?st2). \<not> maskRejects msk (fst p) (snd p)"
      using Suc.prems(1) by (simp add: addPoint_def Let_def)
    from Suc.IH[OF this rec] show ?thesis .
  next
    case False
    have rec: "tryCandidates n w h r rng msk pt ?st1 found = (st', found')"
      using Suc.prems(2) False u v by (simp add: Let_def)
    have "\<forall>p \<in> set (samples ?st1). \<not> maskRejects msk (fst p) (snd p)" using Suc.prems(1) by simp
    from Suc.IH[OF this rec] show ?thesis .
  qed
qed

text \<open>Partial correctness of the main loop: an invariant of one round holds at the end.\<close>

lemma processActive_partial:
  fixes Q :: "'s poissonState \<Rightarrow> bool"
  assumes run: "processActive w h r rng n msk st = Some (Inr st')"
      and step: "\<And>t u s1 st1 found.
          \<lbrakk>Q t; active t \<noteq> []; rng (rngState t) = (u, s1);
           tryCandidates n w h r rng msk (active t ! nat \<lfloor>mulD u (real (length (active t)))\<rfloor>)
             (t\<lparr>rngState := s1\<rparr>) False = (st1, found)\<rbrakk>
          \<Longrightarrow> Q (if found then st1
                 else st1\<lparr>active := splice1 \<lfloor>mulD u (real (length (active t)))\<rfloor> (active st1)\<rparr>)"
      and Q0: "Q st"
  shows "Q st'"
proof -
  have "w' = w \<and> h' = h \<and> r' = r \<and> rng' = rng \<and> n' = n \<and> msk' = msk \<longrightarrow> Q t \<longrightarrow>
        (\<forall>t'. res = Inr t' \<longrightarrow> Q t')"
    if "processActive w' h' r' rng' n' msk' t = Some res" for w' h' r' rng' n' msk' t res
    using that
  proof (induction rule: processActive.raw_induct[rotated 1, consumes 1])
    case (1 f w' h' r' rng' n' msk' t res)
    show ?case
    proof (intro impI allI)
      fix t' assume eq: "w' = w \<and> h' = h \<and> r' = r \<and> rng' = rng \<and> n' = n \<and> msk' = msk"
        and q: "Q t" and res: "res = Inr t'"
      show "Q t'"
      proof (cases "active t = []")
        case True
        then show ?thesis using 1(2) q res by simp
      next
        case False
        obtain u s1 where u: "rng (rngState t) = (u, s1)" by (cases "rng (rngState t)")
        let ?idx = "\<lfloor>mulD u (real (length (active t)))\<rfloor>"
        obtain st1 found where tc: "tryCandidates n w h r rng msk (active t ! nat ?idx)
             (t\<lparr>rngState := s1\<rparr>) False = (st1, found)"
          by (cases "tryCandidates n w h r rng msk (active t ! nat ?idx) (t\<lparr>rngState := s1\<rparr>) False")
        let ?next = "if found then st1 else st1\<lparr>active := splice1 ?idx (active st1)\<rparr>"
        have qn: "Q ?next" using step[OF q False u tc] .
        have "f w h r rng n msk ?next = Some (Inr t')"
          using 1(2) False u tc eq res by (simp add: Let_def split: if_splits)
        from 1(1)[OF this] qn show ?thesis by simp
      qed
    qed
  qed
  from this[OF run] Q0 show ?thesis by simp
qed

lemma poissonDiskSampling_mask:
  assumes "poissonDiskSampling w h r rng s n msk = Some (Inr (pts, s'))"
  shows "\<forall>p \<in> set pts. \<not> maskRejects msk (fst p) (snd p)"
proof -
  let ?cells = "gridWidth w r * gridHeight h r"
  obtain ip s0 where ip: "initialPoint w h rng msk 0 s = (ip, s0)"
    by (cases "initialPoint w h rng msk 0 s")
  show ?thesis
  proof (cases ip)
    case None
    then show ?thesis using assms ip
      by (auto simp: poissonDiskSampling_def Let_def split: if_splits)
  next
    case (Some p0)
    obtain x0 y0 where p0: "p0 = (x0, y0)" by (cases p0)
    let ?st0 = "addPoint w h r x0 y0 \<lparr>grid = replicate (nat ?cells) None, samples = [],
                  active = [], rngState = s0\<rparr>"
    have m0: "\<not> maskRejects msk x0 y0"
      using initialPoint_mask[of w h rng msk 0 s p0 s0] ip Some p0 by simp
    obtain st' where run: "processActive w h r rng n msk ?st0 = Some (Inr st')"
      and pts: "pts = samples st'"
      using assms ip Some p0
      by (auto simp: poissonDiskSampling_def Let_def split: if_splits option.splits sum.splits)
    have q0: "\<forall>p \<in> set (samples ?st0). \<not> maskRejects msk (fst p) (snd p)"
      using m0 by (simp add: addPoint_def Let_def)
    have "\<forall>p \<in> set (samples st'). \<not> maskRejects msk (fst p) (snd p)"
    proof (rule processActive_partial[where Q = "\<lambda>t. \<forall>p \<in> set (samples t). \<not> maskRejects msk (fst p) (snd p)", OF run _ q0])
      fix t u s1 st1 found
      assume q: "\<forall>p \<in> set (samples t). \<not> maskRejects msk (fst p) (snd p)"
        and tc: "tryCandidates n w h r rng msk (active t ! nat \<lfloor>mulD u (real (length (active t)))\<rfloor>)
             (t\<lparr>rngState := s1\<rparr>) False = (st1, found)"
      have "\<forall>p \<in> set (samples (t\<lparr>rngState := s1\<rparr>)). \<not> maskRejects msk (fst p) (snd p)" using q by simp
      from tryCandidates_mask[OF this tc]
      show "\<forall>p \<in> set (samples (if found then st1
                 else st1\<lparr>active := splice1 \<lfloor>mulD u (real (length (active t)))\<rfloor> (active st1)\<rparr>)).
              \<not> maskRejects msk (fst p) (snd p)"
        by simp
    qed
    then show ?thesis using pts by simp
  qed
qed

subsection \<open>A domain that no second point fits into\<close>

text \<open>
  When the domain is small against the minimum distance, every candidate lies outside
  it, whatever the generator returns: one of \<open>cos\<close> and \<open>sin\<close> of the angle is at least
  \<open>11/16\<close> in absolute value, the radius is at least \<open>r\<close>, and rounding is monotone. The
  sampler then returns the initial point alone.
\<close>

lemma lcgNext_unit: "rngInUnit lcgNext"
proof -
  have a: "0 \<le> real (unat x) / 4294967296 \<and> real (unat x) / 4294967296 < 1 \<and>
           isDouble (real (unat x) / 4294967296)" for x :: u32
  proof -
    have lt: "unat x < 4294967296" using unsigned_less[of x, where 'a = nat] by simp
    then have "real (unat x) < 4294967296" by (metis of_nat_less_iff of_nat_numeral)
    moreover have "0 \<le> real (unat x)" by (rule of_nat_0_le_iff)
    moreover have "isDouble (real (unat x) / 4294967296)"
    proof (rule isDouble_dyadic[where k = "int (unat x)" and j = "- 32"])
      show "real (unat x) / 4294967296 = real_of_int (int (unat x)) * pow2 (- 32)"
        by (simp add: pow2_def del: of_nat_unat)
      show "\<bar>int (unat x)\<bar> < 2 ^ 53" using unsigned_less[of x, where 'a = int] by simp
    qed simp
    ultimately show ?thesis by (simp del: of_nat_unat)
  qed
  show ?thesis
    unfolding rngInUnit_def lcgNext_def Let_def fst_conv using a by blast
qed

lemma trig_large: "11 / 16 \<le> \<bar>cos a\<bar> \<or> 11 / 16 \<le> \<bar>sin a :: real\<bar>"
proof (rule ccontr)
  assume "\<not> (11 / 16 \<le> \<bar>cos a\<bar> \<or> 11 / 16 \<le> \<bar>sin a\<bar>)"
  then have c: "\<bar>cos a\<bar> < 11 / 16" and s: "\<bar>sin a\<bar> < 11 / 16" by simp_all
  have "\<bar>cos a\<bar> * \<bar>cos a\<bar> \<le> (11 / 16) * (11 / 16)"
    using c by (intro mult_mono) simp_all
  then have c2: "cos a * cos a \<le> 121 / 256" by simp
  have "\<bar>sin a\<bar> * \<bar>sin a\<bar> \<le> (11 / 16) * (11 / 16)"
    using s by (intro mult_mono) simp_all
  then have s2: "sin a * sin a \<le> 121 / 256" by simp
  show False using c2 s2 sin_cos_squared_add3[of a] by linarith
qed

lemma isDouble_11_16: "isDouble (11 / 16)"
  by (rule isDouble_dyadic[where k = 11 and j = "- 4"]) (simp_all add: pow2_def)

lemma radius_ge:
  assumes "isDouble r" and "0 \<le> r" and "0 \<le> v"
  shows "r \<le> addD r (mulD v r)"
proof -
  have "0 \<le> mulD v r" unfolding mulD_def using assms(2,3) by (intro fl_nonneg) simp
  then have "r \<le> r + mulD v r" by simp
  then show ?thesis unfolding addD_def using assms(1) by (intro isDouble_fl_ge)
qed

lemma candidate_outside:
  assumes w: "isDouble w" and wm: "isDouble (w + m)" and m: "isDouble m" "0 < m"
      and fit: "w + m \<le> 11 / 16 * r" and r: "0 \<le> r" "r \<le> rad"
      and px: "0 \<le> px" "px \<le> w" and c: "11 / 16 \<le> \<bar>c\<bar>"
  shows "addD px (mulD (fl c) rad) < 0 \<or> w \<le> addD px (mulD (fl c) rad)"
proof (cases "0 \<le> c")
  case True
  then have "11 / 16 \<le> c" using c by simp
  then have "11 / 16 \<le> fl c" using isDouble_11_16 by (intro isDouble_fl_ge)
  then have "11 / 16 * r \<le> fl c * rad" using r by (intro mult_mono) simp_all
  then have "w + m \<le> fl c * rad" using fit by simp
  then have "w + m \<le> mulD (fl c) rad" unfolding mulD_def using wm by (intro isDouble_fl_ge)
  then have "w \<le> px + mulD (fl c) rad" using px(1) m(2) by simp
  then have "w \<le> addD px (mulD (fl c) rad)" unfolding addD_def using w by (intro isDouble_fl_ge)
  then show ?thesis by simp
next
  case False
  then have "c \<le> - (11 / 16)" using c by simp
  then have "fl c \<le> - (11 / 16)"
    using isDouble_minus[OF isDouble_11_16] by (intro isDouble_fl_le)
  then have "11 / 16 \<le> - fl c" by simp
  then have "11 / 16 * r \<le> (- fl c) * rad" using r by (intro mult_mono) simp_all
  then have "fl c * rad \<le> - (w + m)" using fit by simp
  then have "mulD (fl c) rad \<le> - (w + m)"
    unfolding mulD_def using isDouble_minus[OF wm] by (intro isDouble_fl_le)
  then have "px + mulD (fl c) rad \<le> - m" using px(2) by simp
  then have "addD px (mulD (fl c) rad) \<le> - m"
    unfolding addD_def using isDouble_minus[OF m(1)] by (intro isDouble_fl_le)
  then show ?thesis using m(2) by simp
qed

lemma candidates_rejected:
  assumes unit: "rngInUnit rng" and sd: "smallDomain w h r m"
      and pt: "0 \<le> fst pt" "fst pt \<le> w" "0 \<le> snd pt" "snd pt \<le> h"
  shows "\<exists>s'. tryCandidates n w h r rng msk pt st found = (st\<lparr>rngState := s'\<rparr>, found)"
proof (induction n arbitrary: st)
  case 0
  have "st = st\<lparr>rngState := rngState st\<rparr>" by simp
  then show ?case by (metis tryCandidates.simps(1))
next
  case (Suc n)
  obtain u s1 where u: "rng (rngState st) = (u, s1)" by (cases "rng (rngState st)")
  obtain v s2 where v: "rng s1 = (v, s2)" by (cases "rng s1")
  define angle where "angle = mulD (mulD u PI) 2"
  define rad where "rad = addD r (mulD v r)"
  let ?x = "addD (fst pt) (mulD (cosD angle) rad)"
  let ?y = "addD (snd pt) (mulD (sinD angle) rad)"
  have v0: "0 \<le> v" using unit v by (metis rngInUnit_def fst_conv)
  have r0: "0 \<le> r" using sd by (simp add: smallDomain_def) 
  have rad: "r \<le> rad" unfolding rad_def using sd r0 v0 by (intro radius_ge) (simp_all add: smallDomain_def)
  have out: "?x < 0 \<or> w \<le> ?x \<or> ?y < 0 \<or> h \<le> ?y"
  proof (cases "11 / 16 \<le> \<bar>cos angle\<bar>")
    case True
    have "?x < 0 \<or> w \<le> ?x"
      unfolding cosD_def
      by (rule candidate_outside[where m = m and r = r]) (use sd r0 rad pt True in \<open>simp_all add: smallDomain_def\<close>)
    then show ?thesis by blast
  next
    case False
    then have s: "11 / 16 \<le> \<bar>sin angle\<bar>" using trig_large[of angle] by simp
    have "?y < 0 \<or> h \<le> ?y"
      unfolding sinD_def
      by (rule candidate_outside[where m = m and r = r]) (use sd r0 rad pt s in \<open>simp_all add: smallDomain_def\<close>)
    then show ?thesis by blast
  qed
  have "\<not> isValid w h r msk (grid (st\<lparr>rngState := s2\<rparr>)) ?x ?y"
    using out by (rule isValid_outside)
  then have "tryCandidates (Suc n) w h r rng msk pt st found
               = tryCandidates n w h r rng msk pt (st\<lparr>rngState := s2\<rparr>) found"
    using u v by (simp add: Let_def angle_def rad_def)
  moreover obtain s' where "tryCandidates n w h r rng msk pt (st\<lparr>rngState := s2\<rparr>) found
               = (st\<lparr>rngState := s2, rngState := s'\<rparr>, found)"
    using Suc.IH[of "st\<lparr>rngState := s2\<rparr>"] by blast
  ultimately show ?case by auto
qed

lemma unit_product:
  assumes "0 \<le> u" and "u < 1" and "isDouble w" and "0 \<le> w"
  shows "0 \<le> mulD u w" and "mulD u w \<le> w"
proof -
  show "0 \<le> mulD u w" unfolding mulD_def using assms by (intro fl_nonneg) simp
  have "u * w \<le> 1 * w" using assms by (intro mult_right_mono) simp_all
  then show "mulD u w \<le> w" unfolding mulD_def using assms(3) by (intro isDouble_fl_le) simp_all
qed

lemma half_range:
  assumes "isDouble w" and "0 \<le> w"
  shows "0 \<le> divD w 2" and "divD w 2 \<le> w"
proof -
  show "0 \<le> divD w 2" unfolding divD_def using assms by (intro fl_nonneg) simp
  show "divD w 2 \<le> w" unfolding divD_def using assms by (intro isDouble_fl_le) simp_all
qed

lemma initialPoint_range:
  assumes unit: "rngInUnit rng" and w: "isDouble w" "0 \<le> w" and h: "isDouble h" "0 \<le> h"
      and run: "initialPoint w h rng msk a s = (Some p, s')"
  shows "0 \<le> fst p \<and> fst p \<le> w \<and> 0 \<le> snd p \<and> snd p \<le> h"
  using run
proof (induction k \<equiv> "101 - a" arbitrary: a s)
  case 0
  then have big: "100 < a + 1" by simp
  obtain u s1 where u: "rng s = (u, s1)" by (cases "rng s")
  obtain v s2 where v: "rng s1 = (v, s2)" by (cases "rng s1")
  from "0.prems" have "p = (divD w 2, divD h 2)"
    using big u v
    by (subst (asm) initialPoint.simps) (auto simp: Let_def split: if_splits)
  then show ?case using half_range[OF w] half_range[OF h] by simp
next
  case (Suc k)
  obtain u s1 where u: "rng s = (u, s1)" by (cases "rng s")
  obtain v s2 where v: "rng s1 = (v, s2)" by (cases "rng s1")
  have u01: "0 \<le> u" "u < 1" using unit u by (metis rngInUnit_def fst_conv)+
  have v01: "0 \<le> v" "v < 1" using unit v by (metis rngInUnit_def fst_conv)+
  show ?case
  proof (cases "100 < a + 1")
    case True
    from Suc.prems have "p = (divD w 2, divD h 2)"
      using True u v
      by (subst (asm) initialPoint.simps) (auto simp: Let_def split: if_splits)
    then show ?thesis using half_range[OF w] half_range[OF h] by simp
  next
    case False
    show ?thesis
    proof (cases "maskRejects msk (mulD u w) (mulD v h)")
      case True
      have "initialPoint w h rng msk (a + 1) s2 = (Some p, s')"
        using Suc.prems False True u v by (subst (asm) initialPoint.simps) (simp add: Let_def)
      moreover have "k = 101 - (a + 1)" using Suc.hyps(2) by simp
      ultimately show ?thesis using Suc.hyps(1) by blast
    next
      case nr: False
      have "p = (mulD u w, mulD v h)"
        using Suc.prems False nr u v by (subst (asm) initialPoint.simps) (simp add: Let_def)
      then show ?thesis
        using unit_product[OF u01 w] unit_product[OF v01 h] by simp
    qed
  qed
qed

lemma first_index:
  assumes "0 \<le> u" and "u < 1" and "isDouble u"
  shows "mulD u 1 = u" and "\<lfloor>u\<rfloor> = 0"
proof -
  show "mulD u 1 = u" using assms(3) by (simp add: mulD_def isDouble_def)
  show "\<lfloor>u\<rfloor> = 0" using assms(1,2) by (intro floor_unique) simp_all
qed

lemma poisson_small_domain:
  assumes unit: "rngInUnit rng" and sd: "smallDomain w h r m" and r: "r \<noteq> 0"
      and cells: "0 \<le> gridWidth w r * gridHeight h r" "gridWidth w r * gridHeight h r < 2 ^ 32"
  shows "\<exists>s'. poissonDiskSampling w h r rng s n msk
           = Some (Inr (case fst (initialPoint w h rng msk 0 s) of None \<Rightarrow> [] | Some p0 \<Rightarrow> [p0], s'))"
proof -
  let ?cells = "gridWidth w r * gridHeight h r"
  obtain ip s0 where ip: "initialPoint w h rng msk 0 s = (ip, s0)"
    by (cases "initialPoint w h rng msk 0 s")
  show ?thesis
  proof (cases ip)
    case None
    then show ?thesis using ip r cells by (simp add: poissonDiskSampling_def Let_def)
  next
    case (Some p0)
    obtain x0 y0 where p0: "p0 = (x0, y0)" by (cases p0)
    define st0 where "st0 = addPoint w h r x0 y0 \<lparr>grid = replicate (nat ?cells) None,
        samples = [], active = [], rngState = s0\<rparr>"
    have a0: "active st0 = [p0]" "samples st0 = [p0]" "rngState st0 = s0"
      by (simp_all add: st0_def addPoint_def Let_def p0)
    have rg: "0 \<le> fst p0" "fst p0 \<le> w" "0 \<le> snd p0" "snd p0 \<le> h"
      using initialPoint_range[OF unit _ _ _ _ ip[unfolded Some]] sd
      by (simp_all add: smallDomain_def)
    obtain u s1 where u: "rng s0 = (u, s1)" by (cases "rng s0")
    have u01: "0 \<le> u" "u < 1" "isDouble u" using unit u by (metis rngInUnit_def fst_conv)+
    note idx = first_index[OF u01]
    obtain s2 where tc: "tryCandidates n w h r rng msk p0 (st0\<lparr>rngState := s1\<rparr>) False
        = (st0\<lparr>rngState := s1, rngState := s2\<rparr>, False)"
      using candidates_rejected[OF unit sd rg, of n msk "st0\<lparr>rngState := s1\<rparr>" False] by blast
    define st2 where "st2 = st0\<lparr>rngState := s2, active := []\<rparr>"
    have fin: "processActive w h r rng n msk st2 = Some (Inr st2)"
      by (subst processActive.simps) (simp add: st2_def)
    have "processActive w h r rng n msk st0 = processActive w h r rng n msk st2"
      by (subst processActive.simps)
         (use u01 in \<open>simp add: a0 u idx tc Let_def splice1_def st2_def\<close>)
    then have "processActive w h r rng n msk st0 = Some (Inr st2)" using fin by simp
    then show ?thesis
      using ip Some p0 r cells
      by (simp add: poissonDiskSampling_def Let_def st0_def[symmetric] st2_def a0)
  qed
qed

subsection \<open>The arithmetic of the concrete runs\<close>

text \<open>
  The rounded operations of the sampler on the unit square with the minimum distance
  \<open>tightR\<close>, each evaluated from the definition of \<open>fl\<close>. The cell size is the double
  below \<open>1/3\<close> and the grid is 3 by 3; the quotient of \<open>edgeX\<close> by the cell size rounds to
  3, which is no column of the grid.
\<close>

lemma run_1: "divD (4246034448350515 / 9007199254740992) (6369051672525773 / 4503599627370496) = 6004799503160661 / 18014398509481984"
  unfolding divD_def
  by (rule fl_eqI[where e = "- 2" and m = "6004799503160661"]) (simp_all add: pow2_def roundEven_def)

lemma run_2: "divD 1 (6004799503160661 / 18014398509481984) = 3"
  unfolding divD_def
  by (rule fl_eqI[where e = "1" and m = "6755399441055744"]) (simp_all add: pow2_def roundEven_def)

lemma run_3: "mulD (1190290189264119 / 2251799813685248) 1 = 1190290189264119 / 2251799813685248"
  unfolding mulD_def
  by (rule fl_eqI[where e = "- 1" and m = "4761160757056476"]) (simp_all add: pow2_def roundEven_def)

lemma run_4: "mulD (1 / 2) 1 = 1 / 2"
  unfolding mulD_def
  by (rule fl_eqI[where e = "- 1" and m = "4503599627370496"]) (simp_all add: pow2_def roundEven_def)

lemma run_5: "divD (1190290189264119 / 2251799813685248) (6004799503160661 / 18014398509481984) = 3570870567792357 / 2251799813685248"
  unfolding divD_def
  by (rule fl_eqI[where e = "0" and m = "7141741135584714"]) (simp_all add: pow2_def roundEven_def)

lemma run_6: "divD (1 / 2) (6004799503160661 / 18014398509481984) = 3 / 2"
  unfolding divD_def
  by (rule fl_eqI[where e = "0" and m = "6755399441055744"]) (simp_all add: pow2_def roundEven_def)

lemma run_7: "mulD (1 / 1048576) (4246034448350515 / 9007199254740992) = 4246034448350515 / 9444732965739290427392"
  unfolding mulD_def
  by (rule fl_eqI[where e = "- 22" and m = "8492068896701030"]) (simp_all add: pow2_def roundEven_def)

lemma run_8: "addD (4246034448350515 / 9007199254740992) (4246034448350515 / 9444732965739290427392) = 4246038497684515 / 9007199254740992"
  unfolding addD_def
  by (rule fl_eqI[where e = "- 2" and m = "8492076995369030"]) (simp_all add: pow2_def roundEven_def)

lemma run_9: "mulD 1 (4246038497684515 / 9007199254740992) = 4246038497684515 / 9007199254740992"
  unfolding mulD_def
  by (rule fl_eqI[where e = "- 2" and m = "8492076995369030"]) (simp_all add: pow2_def roundEven_def)

lemma run_10: "addD (1190290189264119 / 2251799813685248) (4246038497684515 / 9007199254740992) = 9007199254740991 / 9007199254740992"
  unfolding addD_def
  by (rule fl_eqI[where e = "- 1" and m = "9007199254740991"]) (simp_all add: pow2_def roundEven_def)

lemma run_11: "addD (1 / 2) 0 = 1 / 2"
  unfolding addD_def
  by (rule fl_eqI[where e = "- 1" and m = "4503599627370496"]) (simp_all add: pow2_def roundEven_def)

lemma run_12: "divD (9007199254740991 / 9007199254740992) (6004799503160661 / 18014398509481984) = 3"
  unfolding divD_def
  by (rule fl_eqI[where e = "1" and m = "6755399441055744"]) (simp_all add: pow2_def roundEven_def)

lemma run_13: "subD (9007199254740991 / 9007199254740992) (1190290189264119 / 2251799813685248) = 4246038497684515 / 9007199254740992"
  unfolding subD_def
  by (rule fl_eqI[where e = "- 2" and m = "8492076995369030"]) (simp_all add: pow2_def roundEven_def)

lemma run_14: "subD (1 / 2) (1 / 2) = 0"
  by (simp add: subD_def fl_zero)

lemma run_15: "mulD (4246038497684515 / 9007199254740992) (4246038497684515 / 9007199254740992) = 2001603652137415 / 9007199254740992"
  unfolding mulD_def
  by (rule fl_eqI[where e = "- 3" and m = "8006414608549660"]) (simp_all add: pow2_def roundEven_def)

lemma run_16: "addD (2001603652137415 / 9007199254740992) 0 = 2001603652137415 / 9007199254740992"
  unfolding addD_def
  by (rule fl_eqI[where e = "- 3" and m = "8006414608549660"]) (simp_all add: pow2_def roundEven_def)

lemma run_17: "mulD (15 / 16) (4246034448350515 / 9007199254740992) = 124395540479019 / 281474976710656"
  unfolding mulD_def
  by (rule fl_eqI[where e = "- 2" and m = "7961314590657216"]) (simp_all add: pow2_def roundEven_def)

lemma run_18: "addD (4246034448350515 / 9007199254740992) (124395540479019 / 281474976710656) = 8226691743679123 / 9007199254740992"
  unfolding addD_def
  by (rule fl_eqI[where e = "- 1" and m = "8226691743679123"]) (simp_all add: pow2_def roundEven_def)

lemma run_19: "mulD 1 (8226691743679123 / 9007199254740992) = 8226691743679123 / 9007199254740992"
  unfolding mulD_def
  by (rule fl_eqI[where e = "- 1" and m = "8226691743679123"]) (simp_all add: pow2_def roundEven_def)

lemma run_20: "addD (1190290189264119 / 2251799813685248) (8226691743679123 / 9007199254740992) = 811740781295975 / 562949953421312"
  unfolding addD_def
  by (rule fl_eqI[where e = "0" and m = "6493926250367800"]) (simp_all add: pow2_def roundEven_def)

lemma run_21: "mulD (1 / 2097152) (4246034448350515 / 9007199254740992) = 4246034448350515 / 18889465931478580854784"
  unfolding mulD_def
  by (rule fl_eqI[where e = "- 23" and m = "8492068896701030"]) (simp_all add: pow2_def roundEven_def)

lemma run_22: "addD (4246034448350515 / 9007199254740992) (4246034448350515 / 18889465931478580854784) = 4246036473017515 / 9007199254740992"
  unfolding addD_def
  by (rule fl_eqI[where e = "- 2" and m = "8492072946035030"]) (simp_all add: pow2_def roundEven_def)

lemma run_23: "mulD 1 (4246036473017515 / 9007199254740992) = 4246036473017515 / 9007199254740992"
  unfolding mulD_def
  by (rule fl_eqI[where e = "- 2" and m = "8492072946035030"]) (simp_all add: pow2_def roundEven_def)

lemma run_24: "addD (1190290189264119 / 2251799813685248) (4246036473017515 / 9007199254740992) = 9007197230073991 / 9007199254740992"
  unfolding addD_def
  by (rule fl_eqI[where e = "- 1" and m = "9007197230073991"]) (simp_all add: pow2_def roundEven_def)

lemma run_25: "divD (9007197230073991 / 9007199254740992) (6004799503160661 / 18014398509481984) = 3377698961277747 / 1125899906842624"
  unfolding divD_def
  by (rule fl_eqI[where e = "1" and m = "6755397922555494"]) (simp_all add: pow2_def roundEven_def)

lemma run_26: "subD (9007197230073991 / 9007199254740992) (1190290189264119 / 2251799813685248) = 4246036473017515 / 9007199254740992"
  unfolding subD_def
  by (rule fl_eqI[where e = "- 2" and m = "8492072946035030"]) (simp_all add: pow2_def roundEven_def)

lemma run_27: "mulD (4246036473017515 / 9007199254740992) (4246036473017515 / 9007199254740992) = 488672300601 / 2199023255552"
  unfolding mulD_def
  by (rule fl_eqI[where e = "- 3" and m = "8006406973046784"]) (simp_all add: pow2_def roundEven_def)

lemma run_28: "addD (488672300601 / 2199023255552) 0 = 488672300601 / 2199023255552"
  unfolding addD_def
  by (rule fl_eqI[where e = "- 3" and m = "8006406973046784"]) (simp_all add: pow2_def roundEven_def)

lemma run_29: "addD (9007199254740991 / 9007199254740992) (8226691743679123 / 9007199254740992) = 8616945499210057 / 4503599627370496"
  unfolding addD_def
  by (rule fl_eqI[where e = "0" and m = "8616945499210057"]) (simp_all add: pow2_def roundEven_def)

lemma run_30: "addD (9007197230073991 / 9007199254740992) (8226691743679123 / 9007199254740992) = 8616944486876557 / 4503599627370496"
  unfolding addD_def
  by (rule fl_eqI[where e = "0" and m = "8616944486876557"]) (simp_all add: pow2_def roundEven_def)

lemmas run_steps =
  run_1 run_2 run_3 run_4 run_5 run_6 run_7 run_8 run_9 run_10
  run_11 run_12 run_13 run_14 run_15 run_16 run_17 run_18 run_19 run_20
  run_21 run_22 run_23 run_24 run_25 run_26 run_27 run_28 run_29 run_30

lemma mulD_zero_left: "mulD 0 x = 0"
  by (simp add: mulD_def fl_zero)

lemma mulD_zero_right: "mulD x 0 = 0"
  by (simp add: mulD_def fl_zero)

lemma addD_zero_zero: "addD 0 0 = 0"
  by (simp add: addD_def fl_zero)

lemma subD_self: "subD x x = 0"
  by (simp add: subD_def fl_zero)

lemma cosD_zero: "cosD 0 = 1"
  by (simp add: cosD_def fl_one)

lemma sinD_zero: "sinD 0 = 0"
  by (simp add: sinD_def fl_zero)

lemmas zero_steps = mulD_zero_left mulD_zero_right addD_zero_zero subD_self cosD_zero sinD_zero

lemma sqrtD_ge:
  assumes "isDouble r" and "0 \<le> r" and "r * r \<le> s"
  shows "\<not> sqrtD s < r"
proof -
  have "r\<^sup>2 \<le> s" using assms(3) by (simp add: power2_eq_square)
  then have "r \<le> sqrt s" using assms(2) by (simp add: real_le_rsqrt)
  then have "r \<le> sqrtD s" unfolding sqrtD_def using assms(1) by (intro isDouble_fl_ge)
  then show ?thesis by simp
qed

lemma isDouble_tightR: "isDouble tightR"
  unfolding isDouble_def
  by (rule fl_eqI[where e = "- 2" and m = "8492068896701030"]) (simp_all add: pow2_def roundEven_def)

lemma isDouble_startX: "isDouble startX"
  unfolding isDouble_def
  by (rule fl_eqI[where e = "- 1" and m = "4761160757056476"]) (simp_all add: pow2_def roundEven_def)

lemma far_edge: "\<not> sqrtD (2001603652137415 / 9007199254740992) < tightR"
  by (rule sqrtD_ge) (simp_all add: isDouble_tightR)

lemma far_near: "\<not> sqrtD (488672300601 / 2199023255552) < tightR"
  by (rule sqrtD_ge) (simp_all add: isDouble_tightR)

lemma grid_3x3:
  "gridCellSize tightR = 6004799503160661 / 18014398509481984"
  "gridWidth 1 tightR = 3" "gridHeight 1 tightR = 3"
  by (simp_all add: gridCellSize_def gridWidth_def gridHeight_def SQRT2_def run_steps)

lemma index_start: "gridIndex 1 1 tightR startX (1 / 2) = 4"
  by (simp add: gridIndex_def grid_3x3 run_steps Let_def)

lemma index_edge: "gridIndex 1 1 tightR edgeX (1 / 2) = - 1"
  by (simp add: gridIndex_def grid_3x3 run_steps Let_def)

lemma index_near: "gridIndex 1 1 tightR nearX (1 / 2) = 5"
  by (simp add: gridIndex_def grid_3x3 run_steps Let_def)

lemma neighbourhood: "[- 2..2] = [- 2, - 1, 0, 1, 2 :: int]"
  by code_simp

lemma valid_edge: "isValid 1 1 tightR None startGrid edgeX (1 / 2)"
  unfolding isValid_def neighbourhood
  using far_edge
  by (simp add: maskRejects_def grid_3x3 run_steps zero_steps Let_def squareD_def)

lemma valid_near: "isValid 1 1 tightR None startGrid nearX (1 / 2)"
  unfolding isValid_def neighbourhood
  using far_near
  by (simp add: maskRejects_def grid_3x3 run_steps zero_steps Let_def squareD_def)

subsection \<open>A run that returns two points closer than the minimum distance\<close>

lemma scripted_draw: "scriptedRng (u # rest) = (u, rest)"
  by (simp add: scriptedRng_def)

lemma rejected_Suc: "rejected (Suc n) rest = 0 # 15 / 16 # rejected n rest"
  by (simp add: rejected_def)

lemma rejected_0: "rejected 0 rest = rest"
  by (simp add: rejected_def)

text \<open>
  An attempt with the angle draw 0 and the radius draw \<open>15/16\<close> moves the point to the
  right by 0.9133462590352489; from each of the three points of the run this leaves the
  unit square.
\<close>

lemma attempts_rejected:
  assumes out: "1 \<le> addD (fst pt) (8226691743679123 / 9007199254740992)"
      and rs: "rngState st = rejected n rest"
  shows "tryCandidates n 1 1 tightR scriptedRng None pt st found = (st\<lparr>rngState := rest\<rparr>, found)"
  using rs
proof (induction n arbitrary: st)
  case 0
  then have "st\<lparr>rngState := rest\<rparr> = st" by (simp add: rejected_0)
  then show ?case by simp
next
  case (Suc n)
  have "\<not> isValid 1 1 tightR None (grid st) (addD (fst pt) (8226691743679123 / 9007199254740992)) y"
    for y
    using out by (intro isValid_outside) simp
  then have "tryCandidates (Suc n) 1 1 tightR scriptedRng None pt st found
      = tryCandidates n 1 1 tightR scriptedRng None pt (st\<lparr>rngState := rejected n rest\<rparr>) found"
    using Suc.prems
    by (simp add: rejected_Suc scripted_draw Let_def zero_steps run_steps)
  also have "\<dots> = (st\<lparr>rngState := rejected n rest, rngState := rest\<rparr>, found)"
    by (rule Suc.IH) simp
  finally show ?case by simp
qed

lemma attempt_edge:
  assumes "rngState st = 0 # 1 / 1048576 # rest" and "grid st = startGrid"
  shows "tryCandidates (Suc n) 1 1 tightR scriptedRng None (startX, 1 / 2) st found
     = tryCandidates n 1 1 tightR scriptedRng None (startX, 1 / 2)
         (st\<lparr>rngState := rest, samples := samples st @ [(edgeX, 1 / 2)],
              active := active st @ [(edgeX, 1 / 2)], grid := startGrid\<rparr>) True"
  using assms valid_edge
  by (simp add: scripted_draw Let_def zero_steps run_steps addPoint_def index_edge)

lemma attempt_near:
  assumes "rngState st = 0 # 1 / 2097152 # rest" and "grid st = startGrid"
  shows "tryCandidates (Suc n) 1 1 tightR scriptedRng None (startX, 1 / 2) st found
     = tryCandidates n 1 1 tightR scriptedRng None (startX, 1 / 2)
         (st\<lparr>rngState := rest, samples := samples st @ [(nearX, 1 / 2)],
              active := active st @ [(nearX, 1 / 2)],
              grid := startGrid[5 := Some (nearX, 1 / 2)]\<rparr>) True"
  using assms valid_near
  by (simp add: scripted_draw Let_def zero_steps run_steps addPoint_def index_near)

lemma list_all_rejected:
  "list_all P (rejected n rest) \<longleftrightarrow> (n = 0 \<or> (P 0 \<and> P (15 / 16))) \<and> list_all P rest"
  by (induction n) (auto simp: rejected_def)

lemma isDouble_half: "isDouble (1 / 2)"
  by (rule isDouble_dyadic[where k = 1 and j = "- 1"]) (simp_all add: pow2_def)

lemma isDouble_15_16: "isDouble (15 / 16)"
  by (rule isDouble_dyadic[where k = 15 and j = "- 4"]) (simp_all add: pow2_def)

lemma isDouble_2_20: "isDouble (1 / 1048576)"
  by (rule isDouble_dyadic[where k = 1 and j = "- 20"]) (simp_all add: pow2_def)

lemma isDouble_2_21: "isDouble (1 / 2097152)"
  by (rule isDouble_dyadic[where k = 1 and j = "- 21"]) (simp_all add: pow2_def)

text \<open>
  Claim C5 fails in the program. On the unit square with the minimum distance
  \<open>tightR\<close> = 0.4714045207910317 and 30 attempts, a generator that replays the script below
  (every value a double in \<open>[0, 1)\<close>) makes the sampler return three points. The second,
  \<open>(edgeX, 1/2)\<close>, lies inside the square, but its column \<open>\<lfloor>edgeX / cellSize\<rfloor>\<close> is 3 in
  double arithmetic, outside the 3 by 3 grid: \<open>addPoint\<close> does not store it, so the check of
  the third point, \<open>(nearX, 1/2)\<close>, does not see it. The two are 0.00000022 apart.
\<close>

theorem poisson_spacing_violated:
  "poissonDiskSampling 1 1 (4246034448350515 / 9007199254740992) scriptedRng
     ([1190290189264119 / 2251799813685248, 1 / 2, 0, 0, 1 / 1048576] @
      rejected 29 ([0, 0, 1 / 2097152] @
      rejected 29 (0 # rejected 30 (0 # rejected 30 (0 # rejected 30 [])))))
     30 None
   = Some (Inr ([(1190290189264119 / 2251799813685248, 1 / 2),
                 (9007199254740991 / 9007199254740992, 1 / 2),
                 (9007197230073991 / 9007199254740992, 1 / 2)], [])) \<and>
   euclid (9007199254740991 / 9007199254740992, 1 / 2)
          (9007197230073991 / 9007199254740992, 1 / 2)
     < 4246034448350515 / 9007199254740992 \<and>
   (9007199254740991 / 9007199254740992 :: real) \<noteq> 9007197230073991 / 9007199254740992 \<and>
   (0 :: real) \<le> 9007199254740991 / 9007199254740992 \<and>
   (9007199254740991 / 9007199254740992 :: real) < 1 \<and>
   list_all (\<lambda>u. 0 \<le> u \<and> u < 1 \<and> isDouble u)
     ([1190290189264119 / 2251799813685248, 1 / 2, 0, 0, 1 / 1048576] @
      rejected 29 ([0, 0, 1 / 2097152] @
      rejected 29 (0 # rejected 30 (0 # rejected 30 (0 # rejected 30 [])))))"
proof -
  let ?p0 = "(startX, 1 / 2 :: real)"
  let ?p1 = "(edgeX, 1 / 2 :: real)"
  let ?p2 = "(nearX, 1 / 2 :: real)"
  define E where "E = rejected 30 []"
  define D where "D = rejected 30 (0 # E)"
  define C where "C = rejected 30 (0 # D)"
  define B where "B = 0 # 1 / 2097152 # rejected 29 (0 # C)"
  define A where "A = 0 # 1 / 1048576 # rejected 29 (0 # B)"
  let ?run = "processActive 1 1 tightR scriptedRng 30 None"
  have thirty: "(30::nat) = Suc 29" by simp
  have out: "1 \<le> addD startX (8226691743679123 / 9007199254740992)"
    "1 \<le> addD edgeX (8226691743679123 / 9007199254740992)"
    "1 \<le> addD nearX (8226691743679123 / 9007199254740992)"
    by (simp_all add: run_steps)
  have roundA: "?run \<lparr>grid = startGrid, samples = [?p0], active = [?p0], rngState = 0 # A\<rparr>
      = ?run \<lparr>grid = startGrid, samples = [?p0, ?p1], active = [?p0, ?p1], rngState = 0 # B\<rparr>"
    apply (subst processActive.simps)
    apply (simp add: scripted_draw zero_steps Let_def A_def)
    apply (subst thirty, subst attempt_edge[where rest = "rejected 29 (0 # B)"]; simp?)
    apply (subst attempts_rejected[where rest = "0 # B"]; simp add: out)
    done
  have roundB: "?run \<lparr>grid = startGrid, samples = [?p0, ?p1], active = [?p0, ?p1], rngState = 0 # B\<rparr>
      = ?run \<lparr>grid = startGrid[5 := Some ?p2], samples = [?p0, ?p1, ?p2],
              active = [?p0, ?p1, ?p2], rngState = 0 # C\<rparr>"
    apply (subst processActive.simps)
    apply (simp add: scripted_draw zero_steps Let_def B_def)
    apply (subst thirty, subst attempt_near[where rest = "rejected 29 (0 # C)"]; simp?)
    apply (subst attempts_rejected[where rest = "0 # C"]; simp add: out)
    done
  have roundC: "?run \<lparr>grid = startGrid[5 := Some ?p2], samples = [?p0, ?p1, ?p2],
              active = [?p0, ?p1, ?p2], rngState = 0 # C\<rparr>
      = ?run \<lparr>grid = startGrid[5 := Some ?p2], samples = [?p0, ?p1, ?p2],
              active = [?p1, ?p2], rngState = 0 # D\<rparr>"
    apply (subst processActive.simps)
    apply (simp add: scripted_draw zero_steps Let_def C_def)
    apply (subst attempts_rejected[where rest = "0 # D"]; simp add: out splice1_def zero_steps Let_def)
    done
  have roundD: "?run \<lparr>grid = startGrid[5 := Some ?p2], samples = [?p0, ?p1, ?p2],
              active = [?p1, ?p2], rngState = 0 # D\<rparr>
      = ?run \<lparr>grid = startGrid[5 := Some ?p2], samples = [?p0, ?p1, ?p2],
              active = [?p2], rngState = 0 # E\<rparr>"
    apply (subst processActive.simps)
    apply (simp add: scripted_draw zero_steps Let_def D_def)
    apply (subst attempts_rejected[where rest = "0 # E"]; simp add: out splice1_def zero_steps Let_def)
    done
  have roundE: "?run \<lparr>grid = startGrid[5 := Some ?p2], samples = [?p0, ?p1, ?p2],
              active = [?p2], rngState = 0 # E\<rparr>
      = ?run \<lparr>grid = startGrid[5 := Some ?p2], samples = [?p0, ?p1, ?p2],
              active = [], rngState = []\<rparr>"
    apply (subst processActive.simps)
    apply (simp add: scripted_draw zero_steps Let_def E_def)
    apply (subst attempts_rejected[where rest = "[]"]; simp add: out splice1_def zero_steps Let_def)
    done
  have fin: "?run \<lparr>grid = startGrid[5 := Some ?p2], samples = [?p0, ?p1, ?p2],
              active = [], rngState = []\<rparr>
      = Some (Inr \<lparr>grid = startGrid[5 := Some ?p2], samples = [?p0, ?p1, ?p2],
              active = [], rngState = []\<rparr>)"
    by (subst processActive.simps) simp
  have init: "initialPoint 1 1 scriptedRng None 0 (startX # 1 / 2 # 0 # A)
      = (Some ?p0, 0 # A)"
    by (subst initialPoint.simps)
       (simp add: scripted_draw Let_def maskRejects_def run_steps)
  have start: "addPoint 1 1 tightR startX (1 / 2)
      \<lparr>grid = replicate 9 None, samples = [], active = [], rngState = 0 # A\<rparr>
      = \<lparr>grid = startGrid, samples = [?p0], active = [?p0], rngState = 0 # A\<rparr>"
    by (simp add: addPoint_def index_start Let_def numeral_eq_Suc)
  have script: "[startX, 1 / 2, 0, 0, 1 / 1048576] @
      rejected 29 ([0, 0, 1 / 2097152] @
      rejected 29 (0 # rejected 30 (0 # rejected 30 (0 # rejected 30 []))))
      = startX # 1 / 2 # 0 # A"
    by (simp add: A_def B_def C_def D_def E_def)
  have whole: "?run \<lparr>grid = startGrid, samples = [?p0], active = [?p0], rngState = 0 # A\<rparr>
      = Some (Inr \<lparr>grid = startGrid[5 := Some ?p2], samples = [?p0, ?p1, ?p2],
              active = [], rngState = []\<rparr>)"
    by (simp only: roundA roundB roundC roundD roundE fin)
  have "poissonDiskSampling 1 1 tightR scriptedRng (startX # 1 / 2 # 0 # A) 30 None
      = Some (Inr ([?p0, ?p1, ?p2], []))"
    unfolding poissonDiskSampling_def
    by (simp add: grid_3x3 init start whole Let_def)
  moreover have "euclid ?p1 ?p2 < tightR"
    by (simp add: euclid_def)
  moreover have "list_all (\<lambda>u. 0 \<le> u \<and> u < 1 \<and> isDouble u) (startX # 1 / 2 # 0 # A)"
    by (simp add: A_def B_def C_def D_def E_def list_all_rejected isDouble_0 isDouble_startX
          isDouble_half isDouble_15_16 isDouble_2_20 isDouble_2_21)
  ultimately show ?thesis
    unfolding script by simp
qed

subsection \<open>A run that does not return\<close>

text \<open>The main loop does not return from a state of a set that every round maps into itself.\<close>

lemma processActive_diverges:
  fixes Q :: "'s poissonState \<Rightarrow> bool"
  assumes step: "\<And>t u s1. \<lbrakk>Q t; rng (rngState t) = (u, s1)\<rbrakk> \<Longrightarrow>
          active t \<noteq> [] \<and>
          0 \<le> \<lfloor>mulD u (real (length (active t)))\<rfloor> \<and>
          \<lfloor>mulD u (real (length (active t)))\<rfloor> < int (length (active t)) \<and>
          Q (let (st1, found) =
                   tryCandidates n w h r rng msk
                     (active t ! nat \<lfloor>mulD u (real (length (active t)))\<rfloor>)
                     (t\<lparr>rngState := s1\<rparr>) False
             in if found then st1
                else st1\<lparr>active := splice1 \<lfloor>mulD u (real (length (active t)))\<rfloor> (active st1)\<rparr>)"
      and Q0: "Q st"
  shows "processActive w h r rng n msk st = None"
proof (rule ccontr)
  assume "processActive w h r rng n msk st \<noteq> None"
  then obtain res where run: "processActive w h r rng n msk st = Some res" by auto
  have "w' = w \<and> h' = h \<and> r' = r \<and> rng' = rng \<and> n' = n \<and> msk' = msk \<longrightarrow> \<not> Q t"
    if "processActive w' h' r' rng' n' msk' t = Some res'" for w' h' r' rng' n' msk' t res'
    using that
  proof (induction rule: processActive.raw_induct[rotated 1, consumes 1])
    case (1 f w' h' r' rng' n' msk' t res')
    show ?case
    proof (intro impI notI)
      assume eq: "w' = w \<and> h' = h \<and> r' = r \<and> rng' = rng \<and> n' = n \<and> msk' = msk"
        and q: "Q t"
      obtain u s1 where u: "rng (rngState t) = (u, s1)" by (cases "rng (rngState t)")
      let ?idx = "\<lfloor>mulD u (real (length (active t)))\<rfloor>"
      obtain st1 found where tc: "tryCandidates n w h r rng msk (active t ! nat ?idx)
           (t\<lparr>rngState := s1\<rparr>) False = (st1, found)"
        by (cases "tryCandidates n w h r rng msk (active t ! nat ?idx) (t\<lparr>rngState := s1\<rparr>) False")
      let ?next = "if found then st1 else st1\<lparr>active := splice1 ?idx (active st1)\<rparr>"
      from step[OF q u] have ne: "active t \<noteq> []" and i: "0 \<le> ?idx" "?idx < int (length (active t))"
        and qn: "Q ?next"
        by (simp_all add: tc)
      have "f w h r rng n msk ?next = Some res'"
        using 1(2) ne i u tc eq by (simp add: Let_def split: if_splits)
      from 1(1)[OF this] qn show False by simp
    qed
  qed
  from this[OF run] Q0 show False by simp
qed

lemma looping_draws:
  assumes "3 \<le> k" and "odd k" and "k \<le> 61"
  shows "loopingRng k = (0, k + 1)"
    and "loopingRng (Suc k) = (1 / 1048576, if k = 61 then 2 else k + 2)"
proof -
  show "loopingRng k = (0, k + 1)" using assms by (auto simp: loopingRng_def)
  have "even (Suc k)" using assms(2) by simp
  then show "loopingRng (Suc k) = (1 / 1048576, if k = 61 then 2 else k + 2)"
    using assms(1) by (auto simp: loopingRng_def)
qed

text \<open>
  Every attempt of a round proposes \<open>(edgeX, 1/2)\<close> again: it is accepted, since the grid
  does not hold it, and it is not stored.
\<close>

lemma attempts_accepted:
  assumes "n \<le> 30" and "grid st = startGrid"
      and "rngState st = (if n = 0 then 2 else 63 - 2 * n)"
  shows "tryCandidates n 1 1 tightR loopingRng None (startX, 1 / 2) st found
     = (st\<lparr>samples := samples st @ replicate n (edgeX, 1 / 2),
            active := active st @ replicate n (edgeX, 1 / 2), rngState := 2\<rparr>, found \<or> 0 < n)"
  using assms
proof (induction n arbitrary: st found)
  case 0
  then have "st\<lparr>samples := samples st, active := active st, rngState := 2\<rparr> = st" by simp
  then show ?case by simp
next
  case (Suc n)
  obtain sm ac rs where st: "st = \<lparr>grid = startGrid, samples = sm, active = ac, rngState = rs\<rparr>"
    using Suc.prems(2) by (cases st) simp
  define k where "k = 61 - 2 * n"
  have k: "3 \<le> k" "odd k" "k \<le> 61" "rngState st = k"
    using Suc.prems(1,3) by (simp_all add: k_def)
  have nxt: "(if k = 61 then 2 else k + 2) = (if n = 0 then 2 else 63 - 2 * n)"
    using Suc.prems(1) by (auto simp: k_def)
  define st2 where "st2 = st\<lparr>rngState := (if n = 0 then 2 else 63 - 2 * n),
      samples := samples st @ [(edgeX, 1 / 2)], active := active st @ [(edgeX, 1 / 2)]\<rparr>"
  have "tryCandidates (Suc n) 1 1 tightR loopingRng None (startX, 1 / 2) st found
      = tryCandidates n 1 1 tightR loopingRng None (startX, 1 / 2) st2 True"
    using valid_edge k(4) unfolding st2_def st
    by (simp add: looping_draws[OF k(1,2,3)] nxt Let_def zero_steps run_steps addPoint_def
          index_edge)
  also have "\<dots> = (st2\<lparr>samples := samples st2 @ replicate n (edgeX, 1 / 2),
      active := active st2 @ replicate n (edgeX, 1 / 2), rngState := 2\<rparr>, True \<or> 0 < n)"
    by (rule Suc.IH) (use Suc.prems in \<open>simp_all add: st2_def\<close>)
  finally show ?case by (simp add: st2_def)
qed

lemma looping_unit: "rngInUnit loopingRng"
  unfolding rngInUnit_def loopingRng_def
  by (simp add: isDouble_0 isDouble_startX isDouble_half isDouble_2_20)

text \<open>
  Claim C10 fails in the program. On the unit square with the minimum distance
  \<open>tightR\<close> = 0.4714045207910317 and 30 attempts, with the generator \<open>loopingRng\<close> (every
  value a double in \<open>[0, 1)\<close>), the sampler does not return. The initial point is
  \<open>(startX, 1/2)\<close>; every round picks it and every attempt proposes \<open>(edgeX, 1/2)\<close>, which
  lies inside the square, passes the check and is added to the samples and the active
  list, but is not stored in the grid, because its column is 3 in double arithmetic. So
  the accepted points are not pairwise \<open>r\<close> apart, each round adds 30 of them, and the
  active list never gets shorter.
\<close>

theorem poisson_does_not_return:
  "rngInUnit loopingRng \<and>
   (0 :: real) < 4246034448350515 / 9007199254740992 \<and>
   poissonDiskSampling 1 1 (4246034448350515 / 9007199254740992) loopingRng 0 30 None = None"
proof -
  define Q :: "nat poissonState \<Rightarrow> bool" where
    "Q t \<longleftrightarrow> grid t = startGrid \<and> rngState t = 2 \<and> (\<exists>rest. active t = (startX, 1 / 2) # rest)" for t
  have step: "active t \<noteq> [] \<and>
          0 \<le> \<lfloor>mulD u (real (length (active t)))\<rfloor> \<and>
          \<lfloor>mulD u (real (length (active t)))\<rfloor> < int (length (active t)) \<and>
          Q (let (st1, found) =
                   tryCandidates 30 1 1 tightR loopingRng None
                     (active t ! nat \<lfloor>mulD u (real (length (active t)))\<rfloor>)
                     (t\<lparr>rngState := s1\<rparr>) False
             in if found then st1
                else st1\<lparr>active := splice1 \<lfloor>mulD u (real (length (active t)))\<rfloor> (active st1)\<rparr>)"
    if q: "Q t" and u: "loopingRng (rngState t) = (u, s1)" for t u s1
  proof -
    obtain rest where a: "active t = (startX, 1 / 2) # rest" and g: "grid t = startGrid"
      and s: "rngState t = 2"
      using q by (auto simp: Q_def)
    have us: "u = 0" "s1 = 3" using u s by (simp_all add: loopingRng_def)
    have tc: "tryCandidates 30 1 1 tightR loopingRng None (startX, 1 / 2) (t\<lparr>rngState := 3\<rparr>) False
        = (t\<lparr>rngState := 3, samples := samples t @ replicate 30 (edgeX, 1 / 2),
              active := active t @ replicate 30 (edgeX, 1 / 2), rngState := 2\<rparr>, True)"
      using attempts_accepted[of 30 "t\<lparr>rngState := 3\<rparr>" False] g by simp
    show ?thesis
      by (simp add: us a zero_steps tc Q_def g)
  qed
  have init: "initialPoint 1 1 loopingRng None 0 0 = (Some (startX, 1 / 2), 2)"
    by (subst initialPoint.simps)
       (simp add: loopingRng_def Let_def maskRejects_def run_steps)
  have start: "addPoint 1 1 tightR startX (1 / 2)
      \<lparr>grid = replicate 9 None, samples = [], active = [], rngState = 2\<rparr>
      = \<lparr>grid = startGrid, samples = [(startX, 1 / 2)], active = [(startX, 1 / 2)],
         rngState = 2\<rparr>"
    by (simp add: addPoint_def index_start Let_def numeral_eq_Suc)
  have "processActive 1 1 tightR loopingRng 30 None
      \<lparr>grid = startGrid, samples = [(startX, 1 / 2)], active = [(startX, 1 / 2)], rngState = 2\<rparr>
      = None"
    by (rule processActive_diverges[where Q = Q, OF step]) (simp_all add: Q_def)
  then have "poissonDiskSampling 1 1 tightR loopingRng 0 30 None = None"
    unfolding poissonDiskSampling_def
    by (simp add: grid_3x3 init start Let_def)
  then show ?thesis using looping_unit by simp
qed

section \<open>Properties of the tree placement\<close>

lemma scoreCandidates_positions:
  assumes "scoreCandidates cands elev wd ht cs rng s = (scored, s')" and "pl \<in> set scored"
  shows "(posX pl, posZ pl) \<in> set cands \<and>
         sampledHeight pl = getHeightAt (posX pl) (posZ pl) elev wd ht cs"
  using assms
proof (induction cands arbitrary: s scored s')
  case Nil
  then show ?case by simp
next
  case (Cons pos rest)
  obtain rs s1 where r: "rng s = (rs, s1)" by (cases "rng s")
  obtain restScored s2 where rec: "scoreCandidates rest elev wd ht cs rng s1 = (restScored, s2)"
    by (cases "scoreCandidates rest elev wd ht cs rng s1")
  let ?h = "getHeightAt (fst pos) (snd pos) elev wd ht cs"
  let ?c = "\<lparr>posX = fst pos, posZ = snd pos, sampledHeight = ?h,
             score = Some ((1.0 - \<bar>?h - 25\<bar> / 25) * 0.7 + rs * 0.3)\<rparr>"
  have sc: "scored = ?c # restScored" using Cons.prems(1) r rec by (simp add: Let_def)
  show ?case
  proof (cases "pl = ?c")
    case True
    then show ?thesis by simp
  next
    case False
    then have "pl \<in> set restScored" using Cons.prems(2) sc by simp
    from Cons.IH[OF rec this] show ?thesis by simp
  qed
qed

lemma selectBest_positions:
  assumes "selectBestTreePositions cands target elev wd ht cs rng s = (placements, s')"
      and "pl \<in> set placements"
  shows "(posX pl, posZ pl) \<in> set cands \<and>
         sampledHeight pl = getHeightAt (posX pl) (posZ pl) elev wd ht cs"
proof (cases "int (length cands) \<le> target")
  case True
  then have "placements = map (\<lambda>pos. \<lparr>posX = fst pos, posZ = snd pos,
                      sampledHeight = getHeightAt (fst pos) (snd pos) elev wd ht cs,
                      score = None\<rparr>) cands"
    using assms(1) by (simp add: selectBestTreePositions_def)
  then show ?thesis using assms(2) by auto
next
  case False
  obtain scored s1 where sc: "scoreCandidates cands elev wd ht cs rng s = (scored, s1)"
    by (cases "scoreCandidates cands elev wd ht cs rng s")
  have "placements = take (nat target) (sort_key (\<lambda>c. - scoreOf c) scored)"
    using assms(1) False sc by (simp add: selectBestTreePositions_def Let_def)
  then have "pl \<in> set scored" using assms(2) in_set_takeD by fastforce
  from scoreCandidates_positions[OF sc this] show ?thesis .
qed

lemma placeOnMask_cells:
  assumes run: "placeOnMask td cfg rng s msk cnt = Some (Inr (placements, s'))"
      and pl: "pl \<in> set placements"
  shows "suitabilityFn msk (td_width td) (td_height td) (td_cellSize td) (posX pl) (posZ pl) \<and>
         sampledHeight pl = getHeightAt (posX pl) (posZ pl) (td_elevation td) (td_width td)
                              (td_height td) (td_cellSize td)"
proof -
  let ?fn = "suitabilityFn msk (td_width td) (td_height td) (td_cellSize td)"
  let ?w = "real (td_width td) * td_cellSize td" and ?h = "real (td_height td) * td_cellSize td"
  let ?r = "orDefault (TREE_MIN_SPACING cfg) 3.0"
  let ?target = "\<lfloor>real cnt * orDefault (FOREST_PERCENTAGE cfg) 0 / 100 / 3\<rfloor>"
  have pos: "\<not> orDefault (FOREST_PERCENTAGE cfg) 0 \<le> 0"
    using run pl by (auto simp: placeOnMask_def Let_def split: if_splits)
  obtain cands s1 where ps: "poissonDiskSampling ?w ?h ?r rng s 30 (Some ?fn) = Some (Inr (cands, s1))"
    and sel: "selectBestTreePositions cands ?target (td_elevation td) (td_width td) (td_height td)
                (td_cellSize td) rng s1 = (placements, s')"
    using run pos by (auto simp: placeOnMask_def Let_def split: option.splits sum.splits)
  from selectBest_positions[OF sel pl]
  have mem: "(posX pl, posZ pl) \<in> set cands"
    and ht: "sampledHeight pl = getHeightAt (posX pl) (posZ pl) (td_elevation td) (td_width td)
                              (td_height td) (td_cellSize td)" by simp_all
  from poissonDiskSampling_mask[OF ps] mem
  have "\<not> maskRejects (Some ?fn) (posX pl) (posZ pl)" by fastforce
  then show ?thesis using ht by (simp add: maskRejects_def)
qed

lemma cell_index_bounds:
  fixes gx gy gw gh :: int
  assumes "0 \<le> gx" "gx < gw" "0 \<le> gy" "gy < gh"
  shows "0 \<le> gy * gw + gx" "gy * gw + gx < gw * gh"
proof -
  show "0 \<le> gy * gw + gx" using assms by simp
  have "gy + 1 \<le> gh" using assms by simp
  then have "(gy + 1) * gw \<le> gh * gw" using assms by (intro mult_right_mono) auto
  then show "gy * gw + gx < gw * gh" using assms by (simp add: algebra_simps)
qed

lemma suitabilityFn_cell:
  assumes "suitabilityFn msk wd ht cs x z"
  shows "0 \<le> \<lfloor>x / cs\<rfloor>" "\<lfloor>x / cs\<rfloor> < int wd" "0 \<le> \<lfloor>z / cs\<rfloor>" "\<lfloor>z / cs\<rfloor> < int ht"
        "msk ! nat (\<lfloor>z / cs\<rfloor> * int wd + \<lfloor>x / cs\<rfloor>) \<noteq> 0"
        "nat (\<lfloor>z / cs\<rfloor> * int wd + \<lfloor>x / cs\<rfloor>) < wd * ht"
proof -
  show a: "0 \<le> \<lfloor>x / cs\<rfloor>" "\<lfloor>x / cs\<rfloor> < int wd" "0 \<le> \<lfloor>z / cs\<rfloor>" "\<lfloor>z / cs\<rfloor> < int ht"
    "msk ! nat (\<lfloor>z / cs\<rfloor> * int wd + \<lfloor>x / cs\<rfloor>) \<noteq> 0"
    using assms by (auto simp: suitabilityFn_def Let_def split: if_splits)
  have "\<lfloor>z / cs\<rfloor> * int wd + \<lfloor>x / cs\<rfloor> < int wd * int ht"
    using cell_index_bounds(2)[OF a(1,2,3,4)] .
  then have "\<lfloor>z / cs\<rfloor> * int wd + \<lfloor>x / cs\<rfloor> < int (wd * ht)" by simp
  moreover have "0 \<le> \<lfloor>z / cs\<rfloor> * int wd + \<lfloor>x / cs\<rfloor>"
    using cell_index_bounds(1)[OF a(1,2,3,4)] .
  ultimately show "nat (\<lfloor>z / cs\<rfloor> * int wd + \<lfloor>x / cs\<rfloor>) < wd * ht"
    by (simp only: nat_less_iff)
qed

lemma generateTreePositions_unfold:
  assumes "\<not> (length (td_elevation td) < td_width td * td_height td \<or>
             (td_width td * td_height td > 0 \<and> td_cellSize td = 0))"
  shows "generateTreePositions td cfg rng s =
     (let slopes = calculateSlopes (td_elevation td) (td_width td) (td_height td) (td_cellSize td);
          strictMask = createTreeSuitabilityMask (td_elevation td) slopes (td_width td)
                         (td_height td) (td_seaLevel td) cfg;
          relaxed = relaxedMask (td_elevation td) slopes (length strictMask) (td_seaLevel td) cfg
      in if countSuitable strictMask = 0 then
           (if countSuitable relaxed = 0 then Some (Inr ([], s))
            else placeOnMask td cfg rng s relaxed (countSuitable relaxed))
         else placeOnMask td cfg rng s strictMask (countSuitable strictMask))"
  unfolding generateTreePositions_def Let_def using assms by (simp only: if_False)

subsection \<open>A flat 2 by 2 map\<close>

text \<open>
  On a map of 2 by 2 cells of size 1 with the minimum spacing 3 the sampler's grid has
  one cell, and every candidate around the initial point falls outside the map.
\<close>

lemma cell_3: "divD 3 (6369051672525773 / 4503599627370496) = 4776788754394329 / 2251799813685248"
  unfolding divD_def
  by (rule fl_eqI[where e = "1" and m = "4776788754394329"]) (simp_all add: pow2_def roundEven_def)

lemma cells_2_3: "divD 2 (4776788754394329 / 2251799813685248) = 8492068896701031 / 9007199254740992"
  unfolding divD_def
  by (rule fl_eqI[where e = "- 1" and m = "8492068896701031"]) (simp_all add: pow2_def roundEven_def)

lemma init_x: "mulD (202884507 / 1073741824) 2 = 202884507 / 536870912"
  unfolding mulD_def
  by (rule fl_eqI[where e = "- 2" and m = "6807674393985024"]) (simp_all add: pow2_def roundEven_def)

lemma init_z: "mulD (3300794075 / 4294967296) 2 = 3300794075 / 2147483648"
  unfolding mulD_def
  by (rule fl_eqI[where e = "0" and m = "6922266895974400"]) (simp_all add: pow2_def roundEven_def)

lemma grid_2_3: "gridWidth 2 3 = 1" "gridHeight 2 3 = 1"
  by (simp_all add: gridCellSize_def gridWidth_def gridHeight_def SQRT2_def cell_3 cells_2_3)

lemma small_2_3: "smallDomain 2 2 3 (1 / 16)"
proof -
  have "isDouble 2" by (rule isDouble_dyadic[where k = 2 and j = 0]) (simp_all add: pow2_def)
  moreover have "isDouble 3" by (rule isDouble_dyadic[where k = 3 and j = 0]) (simp_all add: pow2_def)
  moreover have "isDouble (1 / 16)"
    by (rule isDouble_dyadic[where k = 1 and j = "- 4"]) (simp_all add: pow2_def)
  moreover have "isDouble (33 / 16)"
    by (rule isDouble_dyadic[where k = 33 and j = "- 4"]) (simp_all add: pow2_def)
  ultimately show ?thesis by (simp add: smallDomain_def)
qed

lemma slopes_flat: "calculateSlopes [c, c, c, c] 2 2 1 = [0, 0, 0, 0]"
  by (simp add: calculateSlopes_def Let_def upt_rec)

lemma init_flat:
  "initialPoint 2 2 lcgNext (Some (suitabilityFn [1, 1, 1, 1] 2 2 1)) 0 3577180417
     = (Some (202884507 / 536870912, 3300794075 / 2147483648), 3300794075)"
  by (subst initialPoint.simps)
     (simp add: lcgNext_def Let_def maskRejects_def suitabilityFn_def init_x init_z)

lemma generate_flat:
  assumes msk: "createTreeSuitabilityMask [c, c, c, c] [0, 0, 0, 0] 2 2 0 cfg = [1, 1, 1, 1] \<or>
                (createTreeSuitabilityMask [c, c, c, c] [0, 0, 0, 0] 2 2 0 cfg = [0, 0, 0, 0] \<and>
                 relaxedMask [c, c, c, c] [0, 0, 0, 0] 4 0 cfg = [1, 1, 1, 1])"
      and fp: "FOREST_PERCENTAGE cfg = Some 100" and sp: "TREE_MIN_SPACING cfg = Some 3"
  shows "\<exists>s'. generateTreePositions
           \<lparr>td_elevation = [c, c, c, c], td_seaLevel = 0, td_width = 2, td_height = 2,
            td_cellSize = 1\<rparr> cfg lcgNext 3577180417
         = Some (Inr ([\<lparr>posX = 202884507 / 536870912, posZ = 3300794075 / 2147483648,
                        sampledHeight = c, score = None\<rparr>], s'))"
proof -
  let ?td = "\<lparr>td_elevation = [c, c, c, c], td_seaLevel = 0, td_width = 2, td_height = 2,
              td_cellSize = 1\<rparr>"
  let ?fn = "suitabilityFn [1, 1, 1, 1] 2 2 1"
  let ?p0 = "(202884507 / 536870912 :: real, 3300794075 / 2147483648 :: real)"
  have cells: "0 \<le> gridWidth 2 3 * gridHeight 2 3" "gridWidth 2 3 * gridHeight 2 3 < 2 ^ 32"
    by (simp_all add: grid_2_3)
  from poisson_small_domain[OF lcgNext_unit small_2_3 _ cells, of 3577180417 30 "Some ?fn"]
  obtain s' where ps: "poissonDiskSampling 2 2 3 lcgNext 3577180417 30 (Some ?fn) = Some (Inr ([?p0], s'))"
    by (auto simp: init_flat)
  have ht: "getHeightAt (202884507 / 536870912) (3300794075 / 2147483648) [c, c, c, c] 2 2 1 = c"
    by (simp add: getHeightAt_def Let_def algebra_simps)
  have place: "placeOnMask ?td cfg lcgNext 3577180417 [1, 1, 1, 1] 4
      = Some (Inr ([\<lparr>posX = 202884507 / 536870912, posZ = 3300794075 / 2147483648,
                        sampledHeight = c, score = None\<rparr>], s'))"
    by (simp add: placeOnMask_def Let_def fp sp orDefault_def ps selectBestTreePositions_def ht)
  have guard: "\<not> (length (td_elevation ?td) < td_width ?td * td_height ?td \<or>
             (td_width ?td * td_height ?td > 0 \<and> td_cellSize ?td = 0))" by simp
  have cnt: "countSuitable [1, 1, 1, 1] = 4" "countSuitable [0, 0, 0, 0] = 0"
    by (simp_all add: countSuitable_def)
  have lenm: "length (createTreeSuitabilityMask [c, c, c, c] [0, 0, 0, 0] 2 2 0 cfg) = 4"
    by (simp add: createTreeSuitabilityMask_def Let_def)
  have "generateTreePositions ?td cfg lcgNext 3577180417 = placeOnMask ?td cfg lcgNext 3577180417 [1, 1, 1, 1] 4"
    unfolding generateTreePositions_unfold[OF guard] Let_def
    using msk by (auto simp: slopes_flat cnt lenm)
  then show ?thesis using place by simp
qed

subsection \<open>The cells of the placements\<close>

text \<open>
  A placement lies in a cell of the map that the mask in force marks suitable, and its
  height is the bilinear sample \<open>getHeightAt\<close> at its position. The thresholds of the
  mask in force bound the height and the slope of that cell: the strict thresholds when
  some cell passes the strict test, the thresholds of the relaxation block otherwise.
\<close>

lemma placements_on_masked_cells:
  assumes run: "generateTreePositions td cfg rng s = Some (Inr (placements, s'))"
      and pl: "pl \<in> set placements"
  shows "let cellX = \<lfloor>posX pl / td_cellSize td\<rfloor>;
             cellZ = \<lfloor>posZ pl / td_cellSize td\<rfloor>;
             idx = nat (cellZ * int (td_width td) + cellX);
             h = td_elevation td ! idx;
             slopes = calculateSlopes (td_elevation td) (td_width td) (td_height td) (td_cellSize td);
             strictMask = createTreeSuitabilityMask (td_elevation td) slopes (td_width td)
                            (td_height td) (td_seaLevel td) cfg
         in 0 \<le> cellX \<and> cellX < int (td_width td) \<and> 0 \<le> cellZ \<and> cellZ < int (td_height td) \<and>
            sampledHeight pl = getHeightAt (posX pl) (posZ pl) (td_elevation td) (td_width td)
                                 (td_height td) (td_cellSize td) \<and>
            (if countSuitable strictMask > 0
             then treeMinHeight (td_seaLevel td) cfg \<le> h \<and> h \<le> treeMaxHeight cfg \<and>
                  slopes ! idx \<le> treeMaxSlope cfg
             else relaxedMinHeight (td_seaLevel td) < h \<and> h < treeMaxHeight cfg \<and>
                  slopes ! idx \<le> relaxedMaxSlope)"
proof -
  let ?el = "td_elevation td" and ?wd = "td_width td" and ?ht = "td_height td"
  let ?cs = "td_cellSize td" and ?sl = "td_seaLevel td"
  let ?slopes = "calculateSlopes ?el ?wd ?ht ?cs"
  let ?strict = "createTreeSuitabilityMask ?el ?slopes ?wd ?ht ?sl cfg"
  let ?relaxed = "relaxedMask ?el ?slopes (length ?strict) ?sl cfg"
  let ?idx = "nat (\<lfloor>posZ pl / ?cs\<rfloor> * int ?wd + \<lfloor>posX pl / ?cs\<rfloor>)"
  have lenS: "length ?strict = ?wd * ?ht" by (simp add: createTreeSuitabilityMask_def Let_def)
  have ne: "placements \<noteq> []" using pl by auto
  have guard: "\<not> (length ?el < ?wd * ?ht \<or> (?wd * ?ht > 0 \<and> ?cs = 0))"
    using run by (auto simp: generateTreePositions_def Let_def split: if_splits)
  show ?thesis
  proof (cases "countSuitable ?strict = 0")
    case True
    have rel: "countSuitable ?relaxed \<noteq> 0"
      using run ne True unfolding generateTreePositions_unfold[OF guard] Let_def
      by (auto split: if_splits)
    have "placeOnMask td cfg rng s ?relaxed (countSuitable ?relaxed) = Some (Inr (placements, s'))"
      using run True rel unfolding generateTreePositions_unfold[OF guard] Let_def by simp
    from placeOnMask_cells[OF this pl]
    have fn: "suitabilityFn ?relaxed ?wd ?ht ?cs (posX pl) (posZ pl)"
      and hh: "sampledHeight pl = getHeightAt (posX pl) (posZ pl) ?el ?wd ?ht ?cs" by simp_all
    note c = suitabilityFn_cell[OF fn]
    have "?relaxed ! ?idx \<noteq> 0" using c(5) .
    then have "relaxedMinHeight ?sl < ?el ! ?idx \<and> ?el ! ?idx < treeMaxHeight cfg \<and>
               ?slopes ! ?idx \<le> relaxedMaxSlope"
      using c(6) lenS by (simp add: relaxedMask_def Let_def treeMaxHeight_def split: if_splits)
    then show ?thesis using c(1-4) hh True by (simp add: Let_def)
  next
    case False
    have "placeOnMask td cfg rng s ?strict (countSuitable ?strict) = Some (Inr (placements, s'))"
      using run False unfolding generateTreePositions_unfold[OF guard] Let_def by simp
    from placeOnMask_cells[OF this pl]
    have fn: "suitabilityFn ?strict ?wd ?ht ?cs (posX pl) (posZ pl)"
      and hh: "sampledHeight pl = getHeightAt (posX pl) (posZ pl) ?el ?wd ?ht ?cs" by simp_all
    note c = suitabilityFn_cell[OF fn]
    have "?strict ! ?idx \<noteq> 0" using c(5) .
    then have "treeMinHeight ?sl cfg \<le> ?el ! ?idx \<and> ?el ! ?idx \<le> treeMaxHeight cfg \<and>
               ?slopes ! ?idx \<le> treeMaxSlope cfg"
      using c(6) by (simp add: createTreeSuitabilityMask_def Let_def split: if_splits)
    then show ?thesis using c(1-4) hh False by (simp add: Let_def)
  qed
qed

subsection \<open>Claim C7: a tree below the beach buffer\<close>

text \<open>
  Claim C7 fails in the program. On a flat map of 2 by 2 cells of height 1.5 with sea
  level 0, the default thresholds (beach buffer 2) and a forest percentage of 100, no
  cell passes the strict test, the relaxation block admits all four cells, and the
  placement run on the stream state 3577180417 (the fresh stream of the label \<^verbatim>\<open>trees\<close>
  for the seed 12345) returns one tree, whose sampled height 1.5 is not above
  \<open>seaLevel + beachBuffer = 2\<close>. The tree stands on what the module calls beach: its
  \<open>validateTreePositions\<close> removes it.
\<close>

theorem tree_below_beach_buffer:
  "map_option (map_sum id fst)
     (generateTreePositions
        \<lparr>td_elevation = [3 / 2, 3 / 2, 3 / 2, 3 / 2], td_seaLevel = 0, td_width = 2,
         td_height = 2, td_cellSize = 1\<rparr>
        (DEFAULT_CONFIG\<lparr>FOREST_PERCENTAGE := Some 100\<rparr>) lcgNext 3577180417)
   = Some (Inr [\<lparr>posX = 202884507 / 536870912, posZ = 3300794075 / 2147483648,
                  sampledHeight = 3 / 2, score = None\<rparr>]) \<and>
   treeMinHeight 0 (DEFAULT_CONFIG\<lparr>FOREST_PERCENTAGE := Some 100\<rparr>) = 2 \<and>
   (3 / 2 :: real) < 2 \<and>
   validateTreePositions
     [\<lparr>posX = 202884507 / 536870912, posZ = 3300794075 / 2147483648,
       sampledHeight = 3 / 2, score = None\<rparr>]
     [3 / 2, 3 / 2, 3 / 2, 3 / 2] 2 2 1 0 = []"
proof -
  let ?cfg = "DEFAULT_CONFIG\<lparr>FOREST_PERCENTAGE := Some 100\<rparr>"
  have strict: "createTreeSuitabilityMask [3 / 2, 3 / 2, 3 / 2, 3 / 2] [0, 0, 0, 0] 2 2 0 ?cfg = [0, 0, 0, 0]"
    by (simp add: createTreeSuitabilityMask_def Let_def treeMinHeight_def treeMaxHeight_def
        treeMaxSlope_def orDefault_def DEFAULT_CONFIG_def upt_rec)
  have relaxed: "relaxedMask [3 / 2, 3 / 2, 3 / 2, 3 / 2] [0, 0, 0, 0] 4 0 ?cfg = [1, 1, 1, 1]"
    by (simp add: relaxedMask_def Let_def relaxedMinHeight_def relaxedMaxSlope_def
        orDefault_def DEFAULT_CONFIG_def upt_rec)
  from generate_flat[of "3 / 2" ?cfg] strict relaxed
  obtain s' where run: "generateTreePositions
        \<lparr>td_elevation = [3 / 2, 3 / 2, 3 / 2, 3 / 2], td_seaLevel = 0, td_width = 2,
         td_height = 2, td_cellSize = 1\<rparr> ?cfg lcgNext 3577180417
      = Some (Inr ([\<lparr>posX = 202884507 / 536870912, posZ = 3300794075 / 2147483648,
                  sampledHeight = 3 / 2, score = None\<rparr>], s'))"
    by (auto simp: DEFAULT_CONFIG_def)
  have b: "treeMinHeight 0 ?cfg = 2"
    by (simp add: treeMinHeight_def orDefault_def DEFAULT_CONFIG_def)
  have ht: "getHeightAt (202884507 / 536870912) (3300794075 / 2147483648)
              [3 / 2, 3 / 2, 3 / 2, 3 / 2] 2 2 1 = 3 / 2"
    by (simp add: getHeightAt_def Let_def algebra_simps)
  have v: "validateTreePositions
     [\<lparr>posX = 202884507 / 536870912, posZ = 3300794075 / 2147483648,
       sampledHeight = 3 / 2, score = None\<rparr>]
     [3 / 2, 3 / 2, 3 / 2, 3 / 2] 2 2 1 0 = []"
    by (simp add: validateTreePositions_def Let_def ht)
  show ?thesis unfolding run b v by simp
qed

subsection \<open>The relaxation block\<close>

text \<open>
  When the strict test leaves no suitable cell, one relaxed mask is built with the fixed
  thresholds \<open>height > seaLevel + 1\<close>, \<open>height < maximum height\<close> and \<open>slope \<le> 45\<close>. If it
  is empty too, the result is the empty list and the stream is untouched; otherwise the
  placement continues on the relaxed mask. The relaxed minimum height is below the
  strict one exactly when the beach buffer in force exceeds 1, and the relaxed maximum
  slope is above the strict one exactly when the maximum slope in force is below 45.
\<close>

lemma relaxation_block:
  assumes len: "td_width td * td_height td \<le> length (td_elevation td)"
      and cs: "td_width td * td_height td > 0 \<longrightarrow> td_cellSize td \<noteq> 0"
      and zero: "countSuitable (createTreeSuitabilityMask (td_elevation td)
                   (calculateSlopes (td_elevation td) (td_width td) (td_height td) (td_cellSize td))
                   (td_width td) (td_height td) (td_seaLevel td) cfg) = 0"
  shows "(let slopes = calculateSlopes (td_elevation td) (td_width td) (td_height td) (td_cellSize td);
              relaxed = relaxedMask (td_elevation td) slopes (td_width td * td_height td)
                          (td_seaLevel td) cfg
          in (countSuitable relaxed = 0 \<longrightarrow>
                generateTreePositions td cfg rng s = Some (Inr ([], s))) \<and>
             (countSuitable relaxed \<noteq> 0 \<longrightarrow>
                generateTreePositions td cfg rng s
                  = placeOnMask td cfg rng s relaxed (countSuitable relaxed)) \<and>
             (\<forall>i < td_width td * td_height td.
                relaxed ! i =
                  (if td_elevation td ! i > td_seaLevel td + 1 \<and>
                      td_elevation td ! i < treeMaxHeight cfg \<and> slopes ! i \<le> 45
                   then 1 else 0))) \<and>
         (relaxedMinHeight (td_seaLevel td) < treeMinHeight (td_seaLevel td) cfg
            \<longleftrightarrow> 1 < orDefault (TREE_BEACH_BUFFER cfg) 2) \<and>
         (treeMaxSlope cfg < relaxedMaxSlope \<longleftrightarrow> orDefault (TREE_MAX_SLOPE cfg) 35 < 45)"
proof -
  let ?el = "td_elevation td" and ?wd = "td_width td" and ?ht = "td_height td"
  let ?slopes = "calculateSlopes ?el ?wd ?ht (td_cellSize td)"
  let ?strict = "createTreeSuitabilityMask ?el ?slopes ?wd ?ht (td_seaLevel td) cfg"
  let ?relaxed = "relaxedMask ?el ?slopes (?wd * ?ht) (td_seaLevel td) cfg"
  have guard: "\<not> (length ?el < ?wd * ?ht \<or> (?wd * ?ht > 0 \<and> td_cellSize td = 0))"
    using len cs by auto
  have lenS: "length ?strict = ?wd * ?ht" by (simp add: createTreeSuitabilityMask_def Let_def)
  have gen: "generateTreePositions td cfg rng s =
      (if countSuitable ?relaxed = 0 then Some (Inr ([], s))
       else placeOnMask td cfg rng s ?relaxed (countSuitable ?relaxed))"
    unfolding generateTreePositions_unfold[OF guard] Let_def lenS using zero by simp
  have entries: "\<forall>i < ?wd * ?ht. ?relaxed ! i =
      (if ?el ! i > td_seaLevel td + 1 \<and> ?el ! i < treeMaxHeight cfg \<and> ?slopes ! i \<le> 45
       then 1 else 0)"
    by (simp add: relaxedMask_def Let_def relaxedMinHeight_def relaxedMaxSlope_def treeMaxHeight_def)
  have th: "(relaxedMinHeight (td_seaLevel td) < treeMinHeight (td_seaLevel td) cfg
            \<longleftrightarrow> 1 < orDefault (TREE_BEACH_BUFFER cfg) 2)"
    "(treeMaxSlope cfg < relaxedMaxSlope \<longleftrightarrow> orDefault (TREE_MAX_SLOPE cfg) 35 < 45)"
    by (simp_all add: relaxedMinHeight_def treeMinHeight_def treeMaxSlope_def relaxedMaxSlope_def)
  show ?thesis unfolding Let_def using gen entries th by simp
qed

subsection \<open>Claim C9: a relaxation that tightens\<close>

text \<open>
  Claim C9 fails in the program. The block that logs \<^verbatim>\<open>Relaxing constraints\<close> uses the
  constants \<open>seaLevel + 1.0\<close> and 45, whatever the configuration. With a beach buffer of
  0.5 and a maximum slope of 60, on a one-cell map at sea level, the strict mask is
  empty, the block runs with the minimum height 1 (above the strict 0.5) and the maximum
  slope 45 (below the strict 60), and the result is the empty list: the retry was
  stricter than the test that had failed.
\<close>

theorem relaxation_tightens_thresholds:
  "countSuitable (createTreeSuitabilityMask [0] (calculateSlopes [0] 1 1 1) 1 1 0
     (DEFAULT_CONFIG\<lparr>TREE_BEACH_BUFFER := Some (1 / 2), TREE_MAX_SLOPE := Some 60\<rparr>)) = 0 \<and>
   generateTreePositions
     \<lparr>td_elevation = [0], td_seaLevel = 0, td_width = 1, td_height = 1, td_cellSize = 1\<rparr>
     (DEFAULT_CONFIG\<lparr>TREE_BEACH_BUFFER := Some (1 / 2), TREE_MAX_SLOPE := Some 60\<rparr>) lcgNext 0
     = Some (Inr ([], 0)) \<and>
   treeMinHeight 0 (DEFAULT_CONFIG\<lparr>TREE_BEACH_BUFFER := Some (1 / 2), TREE_MAX_SLOPE := Some 60\<rparr>)
     = 1 / 2 \<and>
   relaxedMinHeight 0 = 1 \<and>
   treeMaxSlope (DEFAULT_CONFIG\<lparr>TREE_BEACH_BUFFER := Some (1 / 2), TREE_MAX_SLOPE := Some 60\<rparr>)
     = 60 \<and>
   relaxedMaxSlope = 45 \<and>
   \<not> relaxedMinHeight 0
       < treeMinHeight 0 (DEFAULT_CONFIG\<lparr>TREE_BEACH_BUFFER := Some (1 / 2), TREE_MAX_SLOPE := Some 60\<rparr>) \<and>
   \<not> treeMaxSlope (DEFAULT_CONFIG\<lparr>TREE_BEACH_BUFFER := Some (1 / 2), TREE_MAX_SLOPE := Some 60\<rparr>)
       < relaxedMaxSlope"
proof -
  let ?cfg = "DEFAULT_CONFIG\<lparr>TREE_BEACH_BUFFER := Some (1 / 2), TREE_MAX_SLOPE := Some 60\<rparr>"
  let ?td = "\<lparr>td_elevation = [0], td_seaLevel = 0, td_width = 1, td_height = 1, td_cellSize = 1\<rparr>"
  have sl: "calculateSlopes [0] (Suc 0) (Suc 0) 1 = [0]" by (simp add: calculateSlopes_def Let_def)
  have zero: "countSuitable (createTreeSuitabilityMask [0] [0] (Suc 0) (Suc 0) 0 ?cfg) = 0"
    by (simp add: createTreeSuitabilityMask_def Let_def treeMinHeight_def treeMaxHeight_def
        treeMaxSlope_def orDefault_def DEFAULT_CONFIG_def countSuitable_def)
  have lm: "length (createTreeSuitabilityMask [0] [0] (Suc 0) (Suc 0) 0 ?cfg) = Suc 0"
    by (simp add: createTreeSuitabilityMask_def Let_def)
  have rz: "countSuitable (relaxedMask [0] [0] (Suc 0) 0 ?cfg) = 0"
    by (simp add: relaxedMask_def Let_def relaxedMinHeight_def relaxedMaxSlope_def
        orDefault_def DEFAULT_CONFIG_def countSuitable_def)
  have guard: "\<not> (length (td_elevation ?td) < td_width ?td * td_height ?td \<or>
             (td_width ?td * td_height ?td > 0 \<and> td_cellSize ?td = 0))" by simp
  have gen: "generateTreePositions ?td ?cfg lcgNext 0 = Some (Inr ([], 0))"
    unfolding generateTreePositions_unfold[OF guard] Let_def
    by (simp add: sl zero lm rz)
  have th: "treeMinHeight 0 ?cfg = 1 / 2" "relaxedMinHeight 0 = 1" "treeMaxSlope ?cfg = 60"
    "relaxedMaxSlope = 45"
    by (simp_all add: treeMinHeight_def relaxedMinHeight_def treeMaxSlope_def relaxedMaxSlope_def
        orDefault_def DEFAULT_CONFIG_def)
  show ?thesis using zero gen th by (simp add: sl)
qed

section \<open>Determinism and non-interference of the generator\<close>

text \<open>
  The build times are the only place where the clock enters a run, and no phase reads
  them back; \<open>FOREST_PERCENTAGE\<close> is read by no phase. Each phase therefore maps
  generators with the same random streams to results that agree in value and in the
  streams, whatever the two clocks and the two forest percentages are.
\<close>

lemma now_rng: "gen_rng (snd (now clock g)) = gen_rng g"
  by (simp add: now_def)

lemma setBuildTime_rng: "gen_rng (setBuildTime phase elapsed g) = gen_rng g"
  by (simp add: setBuildTime_def)

lemma timedOnly_rng: "gen_rng (timedOnly phase clock g) = gen_rng g"
  by (simp add: timedOnly_def now_def setBuildTime_def)

lemma calculateMetrics_rng: "gen_rng (calculateMetrics cfg elevation sld g) = gen_rng g"
  by (simp add: calculateMetrics_def Let_def)

lemma relOutcome_bind:
  assumes "relOutcome R m m'"
    and "\<And>a a'. R a a' \<Longrightarrow> relOutcome S (f a) (f' a')"
  shows "relOutcome S (bindOutcome m f) (bindOutcome m' f')"
proof -
  have "rel_option (rel_sum (=) R) m m'"
    using assms(1) by (simp add: relOutcome_def)
  then show ?thesis
  proof (cases rule: option.rel_cases)
    case None
    then show ?thesis by (simp add: relOutcome_def bindOutcome_def)
  next
    case (Some x y)
    then show ?thesis
      using assms(2) by (cases x; cases y) (simp_all add: relOutcome_def bindOutcome_def)
  qed
qed

lemma relOutcome_eq_bind:
  assumes "\<And>a. relOutcome S (f a) (f' a)"
  shows "relOutcome S (bindOutcome m f) (bindOutcome m f')"
  using assms unfolding relOutcome_def bindOutcome_def
  by (auto split: option.splits sum.splits)

lemma carveLake_forest:
  "carveLake (cfg\<lparr>FOREST_PERCENTAGE := v\<rparr>) w h elevation cx cy rx ry depth r
     = carveLake cfg w h elevation cx cy rx ry depth r"
  by (simp add: carveLake_def Let_def split_def cong del: if_weak_cong)

lemma carveLakes_forest:
  "carveLakes (cfg\<lparr>FOREST_PERCENTAGE := v\<rparr>) w h centers avgRadius elevation r
     = carveLakes cfg w h centers avgRadius elevation r"
  by (induction centers arbitrary: elevation r)
     (simp_all add: carveLake_forest Let_def split: prod.splits sum.splits)

lemma addLakes_rel:
  assumes "gen_rng g = gen_rng g'"
  shows "relOutcome sameStreams (addLakes c1 cfg elevation g)
           (addLakes c2 (cfg\<lparr>FOREST_PERCENTAGE := v\<rparr>) elevation g')"
  unfolding addLakes_def now_def setBuildTime_def relOutcome_def sameStreams_def bindOutcome_def
  using assms
  by (auto simp: Let_def carveLakes_forest split: prod.splits option.splits sum.splits)


lemma relOutcome_Inr:
  "relOutcome R (Some (Inr a)) (Some (Inr b)) \<longleftrightarrow> R a b"
  by (simp add: relOutcome_def)

lemma relOutcome_Inl:
  "relOutcome R (Some (Inl e)) (Some (Inl e))"
  by (simp add: relOutcome_def)

lemma generateElevation_rel:
  assumes "gen_rng g = gen_rng g'"
  shows "relOutcome sameStreams (generateElevation c1 cfg g)
           (generateElevation c2 (cfg\<lparr>FOREST_PERCENTAGE := v\<rparr>) g')"
  unfolding generateElevation_def
  using assms
  by (auto simp: Let_def now_def relOutcome_Inl relOutcome_Inr sameStreams_def setBuildTime_def
           intro!: relOutcome_bind[where R = sameStreams] addLakes_rel
           split: prod.splits sum.splits)

lemma generatorApplyErosion_rel:
  assumes "gen_rng g = gen_rng g'"
  shows "sameStreams (generatorApplyErosion c1 cfg elevation g)
           (generatorApplyErosion c2 (cfg\<lparr>FOREST_PERCENTAGE := v\<rparr>) elevation g')"
  unfolding generatorApplyErosion_def
  using assms
  by (auto simp: Let_def now_def sameStreams_def setBuildTime_def split: prod.splits)

lemma generatorSolveSeaLevel_rel:
  assumes "gen_rng g = gen_rng g'"
  shows "relOutcome sameStreams (generatorSolveSeaLevel c1 cfg elevation g)
           (generatorSolveSeaLevel c2 (cfg\<lparr>FOREST_PERCENTAGE := v\<rparr>) elevation g')"
  unfolding generatorSolveSeaLevel_def
  using assms
  by (auto simp: Let_def now_def relOutcome_Inl relOutcome_Inr sameStreams_def setBuildTime_def
           split: prod.splits sum.splits)

lemma generateMoisture_rel:
  assumes "gen_rng g = gen_rng g'"
  shows "relOutcome sameStreams (generateMoisture c1 cfg g)
           (generateMoisture c2 (cfg\<lparr>FOREST_PERCENTAGE := v\<rparr>) g')"
  unfolding generateMoisture_def
  using assms
  by (auto simp: Let_def now_def relOutcome_Inl relOutcome_Inr sameStreams_def setBuildTime_def
           split: prod.splits sum.splits)

lemma generateTemperature_rel:
  assumes "gen_rng g = gen_rng g'"
  shows "relOutcome sameStreams (generateTemperature c1 cfg elevation sl g)
           (generateTemperature c2 (cfg\<lparr>FOREST_PERCENTAGE := v\<rparr>) elevation sl g')"
  unfolding generateTemperature_def
  using assms
  by (auto simp: Let_def now_def relOutcome_Inl relOutcome_Inr sameStreams_def setBuildTime_def
           split: prod.splits sum.splits)

lemma erosion_step_rel:
  assumes "sameStreams p p'"
  shows "sameStreams
      (if 0 < EROSION_ITERATIONS cfg then generatorApplyErosion c1 cfg (fst p) (snd p)
       else (fst p, snd p))
      (if 0 < EROSION_ITERATIONS cfg
       then generatorApplyErosion c2 (cfg\<lparr>FOREST_PERCENTAGE := v\<rparr>) (fst p') (snd p')
       else (fst p', snd p'))"
proof (cases "0 < EROSION_ITERATIONS cfg")
  case True
  have "fst p = fst p'" and "gen_rng (snd p) = gen_rng (snd p')"
    using assms by (simp_all add: sameStreams_def)
  then show ?thesis
    using True generatorApplyErosion_rel[of "snd p" "snd p'" c1 cfg "fst p'" c2 v] by simp
next
  case False
  then show ?thesis using assms by (simp add: sameStreams_def)
qed

lemma generatorSolveSeaLevel_rel_pair:
  assumes "sameStreams e e'"
  shows "relOutcome sameStreams (generatorSolveSeaLevel c1 cfg (fst e) (snd e))
           (generatorSolveSeaLevel c2 (cfg\<lparr>FOREST_PERCENTAGE := v\<rparr>) (fst e') (snd e'))"
proof -
  have "fst e = fst e'" and "gen_rng (snd e) = gen_rng (snd e')"
    using assms by (simp_all add: sameStreams_def)
  then show ?thesis
    using generatorSolveSeaLevel_rel[of "snd e" "snd e'" c1 cfg "fst e'" c2 v] by simp
qed

lemma generateTemperature_rel_pair:
  assumes "sameStreams q q'" and "sameStreams r r'"
  shows "relOutcome sameStreams
           (generateTemperature c1 cfg (snd (fst q)) (seaLevel (fst (fst q))) (snd r))
           (generateTemperature c2 (cfg\<lparr>FOREST_PERCENTAGE := v\<rparr>) (snd (fst q'))
              (seaLevel (fst (fst q'))) (snd r'))"
proof -
  have "fst q = fst q'" and "gen_rng (snd r) = gen_rng (snd r')"
    using assms by (simp_all add: sameStreams_def)
  then show ?thesis
    using generateTemperature_rel[of "snd r" "snd r'" c1 cfg "snd (fst q')"
            "seaLevel (fst (fst q'))" c2 v]
    by simp
qed

lemma generate_rel:
  assumes "gen_rng g = gen_rng g'"
  shows "relOutcome sameTerrain (generate c1 cfg g)
           (generate c2 (cfg\<lparr>FOREST_PERCENTAGE := v\<rparr>) g')"
proof -
  have g1: "gen_rng (snd (now c1 g)) = gen_rng (snd (now c2 g'))"
    using assms by (simp add: now_rng)
  show ?thesis
    unfolding generate_def Let_def split_def
    apply (rule relOutcome_bind[where R = sameStreams])
     apply (rule generateElevation_rel[OF g1])
    apply (rule relOutcome_bind[where R = sameStreams])
     apply (rule generatorSolveSeaLevel_rel_pair)
     apply (simp add: erosion_step_rel)
    apply (rule relOutcome_bind[where R = sameStreams])
     apply (rule generateMoisture_rel)
     apply (simp add: sameStreams_def)
    apply (rule relOutcome_bind[where R = sameStreams])
     apply (erule (1) generateTemperature_rel_pair)
    apply (simp add: relOutcome_Inr sameTerrain_def sameStreams_def)
    done
qed

lemma relOutcome_sameTerrain:
  assumes "relOutcome sameTerrain out out'"
  shows "elevationAndSeaLevel out = elevationAndSeaLevel out'"
proof -
  have "rel_option (rel_sum (=) sameTerrain) out out'"
    using assms by (simp add: relOutcome_def)
  then show ?thesis
  proof (cases rule: option.rel_cases)
    case None
    then show ?thesis by simp
  next
    case (Some x y)
    then show ?thesis
      by (cases x; cases y) (simp_all add: elevationAndSeaLevel_def sameTerrain_def)
  qed
qed

lemma newGenerator_forest:
  "newGenerator (cfg\<lparr>FOREST_PERCENTAGE := v\<rparr>) = newGenerator cfg"
  by (simp add: newGenerator_def)

text \<open>
  Claim C2. For every configuration, two runs of \<open>generate()\<close> on freshly constructed
  generators have the same outcome as far as the elevation array and the sea level are
  concerned, whatever the clock returns in either run: both do not return, or both raise
  the same error, or both return the same elevation array and the same \<open>seaLevel\<close>.
  The clock is the only input of a run besides the configuration.
\<close>

theorem generate_deterministic:
  "elevationAndSeaLevel (runGenerate clock1 cfg) = elevationAndSeaLevel (runGenerate clock2 cfg)"
proof -
  have "relOutcome sameTerrain (generate clock1 cfg (newGenerator cfg))
          (generate clock2 (cfg\<lparr>FOREST_PERCENTAGE := FOREST_PERCENTAGE cfg\<rparr>) (newGenerator cfg))"
    by (rule generate_rel) simp
  then show ?thesis
    unfolding runGenerate_def by (simp add: relOutcome_sameTerrain)
qed

text \<open>
  Claim C3. With every other field of the configuration fixed, two runs of \<open>generate()\<close>
  that differ in \<open>FOREST_PERCENTAGE\<close> (and possibly in what the clock returns) have the
  same outcome as far as the elevation array and the sea level are concerned: no value of
  \<open>elevation\<close> and not \<open>seaLevel\<close> depends on the forest percentage.
\<close>

theorem forest_percentage_noninterference:
  "elevationAndSeaLevel (runGenerate clock1 (cfg\<lparr>FOREST_PERCENTAGE := a\<rparr>))
     = elevationAndSeaLevel (runGenerate clock2 (cfg\<lparr>FOREST_PERCENTAGE := b\<rparr>))"
proof -
  have "relOutcome sameTerrain
          (generate clock1 (cfg\<lparr>FOREST_PERCENTAGE := a\<rparr>) (newGenerator cfg))
          (generate clock2 (cfg\<lparr>FOREST_PERCENTAGE := a, FOREST_PERCENTAGE := b\<rparr>)
             (newGenerator cfg))"
    by (rule generate_rel) simp
  then show ?thesis
    unfolding runGenerate_def by (simp add: relOutcome_sameTerrain newGenerator_forest)
qed

subsection \<open>A run that returns\<close>

text \<open>
  The outcomes compared above are not all failures. At the origin the simplex noise is
  zero whatever the permutation, so every noise field of a one-cell map is \<open>[1/2]\<close>; the
  sampler of the lake centres returns, and the centres get radius zero and carve
  nothing; the quantile of a single height is that height, rounded. With the default
  parameters the run on a one-cell map therefore returns, for every clock, and its sea
  level is the rounded height of the cell.
\<close>

lemma noise2D_origin: "noise2D p 0 0 = 0"
proof -
  define G where "G = (3 - sqrt 3) / 6"
  have s: "sqrt 3 * sqrt 3 = (3::real)" by simp
  have a: "1 / 2 - G * G - (G - 1) * (G - 1) = - (1 / 6)"
  proof -
    have "G * G + (G - 1) * (G - 1) = (18 + 2 * (sqrt 3 * sqrt 3)) / 36"
      unfolding G_def by (simp add: field_simps)
    then show ?thesis by (simp add: s)
  qed
  have b: "1 / 2 - (2 * G - 1) * (2 * G - 1) - (2 * G - 1) * (2 * G - 1) = - (1 / 6)"
  proof -
    have "(2 * G - 1) * (2 * G - 1) = (sqrt 3 * sqrt 3) / 9"
      unfolding G_def by (simp add: field_simps)
    then show ?thesis by (simp add: s)
  qed
  have a': "\<not> 0 \<le> 1 / 2 - G * G - (G - 1) * (G - 1)" by (simp add: a)
  have b': "\<not> 0 \<le> 1 / 2 - (2 * G - 1) * (2 * G - 1) - (2 * G - 1) * (2 * G - 1)"
    by (simp add: b)
  show ?thesis
    unfolding noise2D_def Let_def
    using a' b' by (simp add: G_def[symmetric] grad2_def algebra_simps)
qed


lemma fbmLoop_origin_fst:
  "fst (fbmLoop n p 0 0 gn lac val amp freq mv) = val"
  by (induction n arbitrary: val amp freq mv) (simp_all add: noise2D_origin)

lemma fbmLoop_snd_pos:
  assumes "0 \<le> amp" and "0 \<le> gn" and "0 < mv"
  shows "0 < snd (fbmLoop n p x y gn lac val amp freq mv)"
  using assms
proof (induction n arbitrary: val amp freq mv)
  case 0
  then show ?case by simp
next
  case (Suc n)
  have "0 < snd (fbmLoop n p x y gn lac (val + noise2D p (x * freq) (y * freq) * amp)
                  (amp * gn) (freq * lac) (mv + amp))"
    by (rule Suc.IH) (use Suc.prems in simp_all)
  then show ?case by simp
qed

lemma fbm_origin:
  assumes "0 < octaves ps" and "0 \<le> gain ps"
  shows "fbm p 0 0 ps = Some 0"
proof -
  obtain k where k: "octaves ps = Suc k"
    using assms(1) by (cases "octaves ps") simp_all
  have pos: "0 < snd (fbmLoop (octaves ps) p 0 0 (gain ps) (lacunarity ps) 0 1 (frequency ps) 0)"
    unfolding k fbmLoop.simps
    by (rule fbmLoop_snd_pos) (use assms(2) in simp_all)
  have val: "fst (fbmLoop (octaves ps) p 0 0 (gain ps) (lacunarity ps) 0 1 (frequency ps) 0) = 0"
    by (rule fbmLoop_origin_fst)
  show ?thesis
    unfolding fbm_def using pos val by (simp add: split_def)
qed

lemma generateNoiseField_unit:
  assumes "0 < octaves ps" and "0 \<le> gain ps"
  shows "generateNoiseField (Suc 0) (Suc 0) seed ps = Inr [1 / 2]"
  unfolding generateNoiseField_def by (simp add: fbm_origin[OF assms])

lemma normalizeArray_single: "normalizeArray [x] = [x]"
  by (simp add: normalizeArray_def)

lemma normalizeArray_length: "length (normalizeArray xs) = length xs"
  by (simp add: normalizeArray_def Let_def)

lemma erode_length: "length (erode w h hs n s) = length hs"
  by (induction n arbitrary: hs) (simp_all add: applyErosion_def normalizeArray_length Let_def)

lemma carveLakes_zero:
  "\<exists>r'. carveLakes cfg w h centers 0 elevation r = Inr (elevation, r')"
  by (induction centers arbitrary: r) (simp_all add: carveLake_def Let_def split_def)

lemma unitMapConfig_fields:
  "MAP_WIDTH unitMapConfig = Suc 0" "MAP_HEIGHT unitMapConfig = Suc 0"
  "WATER_PERCENTAGE unitMapConfig = 15" "LAKE_MIN_SPACING unitMapConfig = 15"
  "WATER_EPSILON unitMapConfig = 1 / 100"
  "EROSION_ITERATIONS unitMapConfig = 20"
  "NOISE_MACRO unitMapConfig = NOISE_MACRO DEFAULT_CONFIG"
  "NOISE_MESO unitMapConfig = NOISE_MESO DEFAULT_CONFIG"
  "NOISE_MICRO unitMapConfig = NOISE_MICRO DEFAULT_CONFIG"
  "NOISE_MOIST unitMapConfig = NOISE_MOIST DEFAULT_CONFIG"
  "NOISE_TEMP unitMapConfig = NOISE_TEMP DEFAULT_CONFIG"
  by (simp_all add: unitMapConfig_def DEFAULT_CONFIG_def)

lemma default_bands:
  "0 < octaves (NOISE_MACRO DEFAULT_CONFIG)" "0 \<le> gain (NOISE_MACRO DEFAULT_CONFIG)"
  "amplitude (NOISE_MACRO DEFAULT_CONFIG) = 9 / 20"
  "0 < octaves (NOISE_MESO DEFAULT_CONFIG)" "0 \<le> gain (NOISE_MESO DEFAULT_CONFIG)"
  "amplitude (NOISE_MESO DEFAULT_CONFIG) = 9 / 20"
  "0 < octaves (NOISE_MICRO DEFAULT_CONFIG)" "0 \<le> gain (NOISE_MICRO DEFAULT_CONFIG)"
  "amplitude (NOISE_MICRO DEFAULT_CONFIG) = 1 / 5"
  "0 < octaves (NOISE_MOIST DEFAULT_CONFIG)" "0 \<le> gain (NOISE_MOIST DEFAULT_CONFIG)"
  "0 < octaves (NOISE_TEMP DEFAULT_CONFIG)" "0 \<le> gain (NOISE_TEMP DEFAULT_CONFIG)"
  by (simp_all add: DEFAULT_CONFIG_def)

lemma addBand_unit:
  assumes "0 < octaves ps" and "0 \<le> gain ps" and "0 < amplitude ps"
  shows "addBand (Suc 0) (Suc 0) ps [e] r
           = Inr ([e + 1 / 2 * amplitude ps], snd (lcgNextInt r 0 1000000))"
  unfolding addBand_def
  using assms(3) by (simp add: generateNoiseField_unit[OF assms(1,2)] split_def Let_def)

lemma cell_15: "divD 15 (6369051672525773 / 4503599627370496) = 5970985942992911 / 562949953421312"
  unfolding divD_def
  by (rule fl_eqI[where e = "3" and m = "5970985942992911"]) (simp_all add: pow2_def roundEven_def)

lemma cells_1_15: "divD 1 (5970985942992911 / 562949953421312) = 6793655117360825 / 72057594037927936"
  unfolding divD_def
  by (rule fl_eqI[where e = "- 4" and m = "6793655117360825"]) (simp_all add: pow2_def roundEven_def)

lemma grid_1_15: "gridWidth 1 15 = 1" "gridHeight 1 15 = 1"
  by (simp_all add: gridCellSize_def gridWidth_def gridHeight_def SQRT2_def cell_15 cells_1_15)

lemma small_1_15: "smallDomain 1 1 15 1"
proof -
  have "isDouble 1" by (simp add: isDouble_def fl_one)
  moreover have "isDouble 2" by (rule isDouble_dyadic[where k = 2 and j = 0]) (simp_all add: pow2_def)
  moreover have "isDouble 15" by (rule isDouble_dyadic[where k = 15 and j = 0]) (simp_all add: pow2_def)
  ultimately show ?thesis by (simp add: smallDomain_def)
qed

lemma addLakes_unit:
  "\<exists>g'. addLakes clock unitMapConfig [e] g = Some (Inr ([e], g'))"
proof -
  obtain start g1 where n: "now clock g = (start, g1)" by (cases "now clock g")
  obtain rng1 lakesRng where gs: "getStream (gen_rng g1) (asciiLabel ''lakes'') = (rng1, lakesRng)"
    by (cases "getStream (gen_rng g1) (asciiLabel ''lakes'')")
  have c: "0 \<le> gridWidth 1 15 * gridHeight 1 15" "gridWidth 1 15 * gridHeight 1 15 < 2 ^ 32"
    by (simp_all add: grid_1_15)
  from poisson_small_domain[OF lcgNext_unit small_1_15 _ c, of lakesRng 30 None]
  obtain pts s' where
    p: "poissonDiskSampling 1 1 15 lcgNext lakesRng 30 None = Some (Inr (pts, s'))"
    by auto
  obtain r' where cl: "carveLakes unitMapConfig (Suc 0) (Suc 0) pts 0 [e] s' = Inr ([e], r')"
    using carveLakes_zero by blast
  have fl: "\<lfloor>15 / 100 :: real\<rfloor> = 0" by simp
  show ?thesis
    unfolding addLakes_def
    by (cases "now clock (g1\<lparr>gen_rng := putStream rng1 (asciiLabel ''lakes'') r'\<rparr>)")
       (simp add: unitMapConfig_fields n gs p cl bindOutcome_def Let_def fl)
qed

lemma generateElevation_unit:
  "\<exists>e g'. generateElevation clock unitMapConfig g = Some (Inr ([e], g'))"
proof -
  obtain start g1 where n: "now clock g = (start, g1)" by (cases "now clock g")
  obtain rng1 terrainRng where
    gs: "getStream (gen_rng g1) (asciiLabel ''terrain'') = (rng1, terrainRng)"
    by (cases "getStream (gen_rng g1) (asciiLabel ''terrain'')")
  define r1 where "r1 = snd (lcgNextInt terrainRng 0 1000000)"
  define r2 where "r2 = snd (lcgNextInt r1 0 1000000)"
  define r3 where "r3 = snd (lcgNextInt r2 0 1000000)"
  define g2 where "g2 = g1\<lparr>gen_rng := putStream rng1 (asciiLabel ''terrain'') r3\<rparr>"
  define curved where "curved = evaluate (getPreset (ELEVATION_CURVE unitMapConfig))
      (min 1 ((11 / 20) powr (9 / 10)))"
  have b1: "addBand (Suc 0) (Suc 0) (NOISE_MACRO DEFAULT_CONFIG) [0] terrainRng
              = Inr ([9 / 40], r1)"
    unfolding r1_def by (subst addBand_unit) (simp_all add: default_bands)
  have b2: "addBand (Suc 0) (Suc 0) (NOISE_MESO DEFAULT_CONFIG) [9 / 40] r1
              = Inr ([9 / 20], r2)"
    unfolding r2_def by (subst addBand_unit) (simp_all add: default_bands)
  have b3: "addBand (Suc 0) (Suc 0) (NOISE_MICRO DEFAULT_CONFIG) [9 / 20] r2
              = Inr ([11 / 20], r3)"
    unfolding r3_def by (subst addBand_unit) (simp_all add: default_bands)
  obtain g3 where lakes: "addLakes clock unitMapConfig [curved] g2 = Some (Inr ([curved], g3))"
    using addLakes_unit by blast
  show ?thesis
    unfolding generateElevation_def
    by (cases "now clock g3")
       (simp add: unitMapConfig_fields n gs b1 b2 b3 normalizeArray_single applyToArray_def
          g2_def[symmetric] curved_def[symmetric] lakes bindOutcome_def Let_def)
qed


lemma solveSeaLevel_single:
  "\<exists>res. solveSeaLevel [h] 15 eps = Inr (res, [h]) \<and> seaLevel res = fl (fl h)"
proof -
  have q: "divD 15 100 = 5404319552844595 / 36028797018963968"
    unfolding divD_def
    by (rule fl_eqI[where e = "- 3" and m = "5404319552844595"]) (simp_all add: pow2_def roundEven_def)
  have "findQuantile [h] (divD 15 100) = Inr (fl (fl h))"
    by (simp add: findQuantile_def q Let_def mulD_zero_right subD_self)
       (simp add: subD_def mulD_def addD_def fl_one)
  then show ?thesis by (simp add: solveSeaLevel_def Let_def)
qed

lemma generatorApplyErosion_unit:
  "\<exists>h g'. generatorApplyErosion clock cfg [e] g = ([h], g')"
proof -
  have "length (erode (MAP_WIDTH cfg) (MAP_HEIGHT cfg) [e] (EROSION_ITERATIONS cfg)
          (EROSION_STRENGTH cfg)) = 1"
    by (simp add: erode_length)
  then obtain h where "erode (MAP_WIDTH cfg) (MAP_HEIGHT cfg) [e] (EROSION_ITERATIONS cfg)
          (EROSION_STRENGTH cfg) = [h]"
    by (auto simp: length_Suc_conv)
  then show ?thesis
    unfolding generatorApplyErosion_def by (simp add: Let_def split_def)
qed

lemma generatorSolveSeaLevel_unit:
  "\<exists>res g'. generatorSolveSeaLevel clock unitMapConfig [h] g = Some (Inr ((res, [h]), g'))
      \<and> seaLevel res = fl (fl h)"
proof -
  obtain res where "solveSeaLevel [h] 15 (1 / 100) = Inr (res, [h])" "seaLevel res = fl (fl h)"
    using solveSeaLevel_single by blast
  then show ?thesis
    unfolding generatorSolveSeaLevel_def
    by (simp add: unitMapConfig_fields Let_def split_def)
qed

lemma generateMoisture_unit:
  "\<exists>m g'. generateMoisture clock unitMapConfig g = Some (Inr (m, g'))"
  unfolding generateMoisture_def
  by (simp add: unitMapConfig_fields generateNoiseField_unit default_bands Let_def split_def)

lemma generateTemperature_unit:
  "\<exists>t g'. generateTemperature clock unitMapConfig elevation sl g = Some (Inr (t, g'))"
  unfolding generateTemperature_def
  by (simp add: unitMapConfig_fields generateNoiseField_unit default_bands Let_def split_def)

lemma generate_returns_on_unit_map:
  "\<exists>out h. runGenerate clock unitMapConfig = Some (Inr out)
      \<and> td_elevation out = [h] \<and> td_seaLevel out = fl (fl h)"
proof -
  obtain totalStart g1 where n: "now clock (newGenerator unitMapConfig) = (totalStart, g1)"
    by (cases "now clock (newGenerator unitMapConfig)")
  obtain e g2 where el: "generateElevation clock unitMapConfig g1 = Some (Inr ([e], g2))"
    using generateElevation_unit by blast
  obtain h g3 where er: "generatorApplyErosion clock unitMapConfig [e] g2 = ([h], g3)"
    using generatorApplyErosion_unit by blast
  obtain res g4 where
    sl: "generatorSolveSeaLevel clock unitMapConfig [h] g3 = Some (Inr ((res, [h]), g4))"
    and res: "seaLevel res = fl (fl h)"
    using generatorSolveSeaLevel_unit by blast
  obtain m g5 where mo: "generateMoisture clock unitMapConfig g4 = Some (Inr (m, g5))"
    using generateMoisture_unit by blast
  obtain t g6 where
    te: "generateTemperature clock unitMapConfig [h] (fl (fl h)) g5 = Some (Inr (t, g6))"
    using generateTemperature_unit by blast
  show ?thesis
    unfolding runGenerate_def generate_def
    by (simp add: n el er sl mo te res bindOutcome_def Let_def split_def
          unitMapConfig_fields(6))
qed

end
